theory Spec2Isabelle
  imports Main
begin

section \<open>Failures\<close>

text \<open>
  \<^verbatim>\<open>DRAKE_DEMAND\<close> ends the process (a fatal assertion); \<^verbatim>\<open>DRAKE_THROW_UNLESS\<close>,
  \<^verbatim>\<open>ThrowIfNotFinalized\<close> and \<^verbatim>\<open>std::vector::at\<close> throw a C++ exception that the caller
  can catch. \<^verbatim>\<open>DRAKE_ASSERT\<close> is compiled out of release builds and is not modelled.
\<close>

datatype error = Aborted | Thrown

section \<open>Topology\<close>

text \<open>
  The fields of the topology that \<^verbatim>\<open>multibody_tree.cc\<close> reads. Indices (\<^verbatim>\<open>BodyIndex\<close>,
  \<^verbatim>\<open>BodyNodeIndex\<close>) are natural numbers; the world has index 0.
\<close>

record BodyTopology =
  body_node :: nat

record BodyNodeTopology =
  level :: nat
  parent_body_node :: nat
  num_mobilizer_velocities :: nat
  mobilizer_velocities_start_in_v :: nat

record MultibodyTreeTopology =
  is_valid :: bool
  bodies :: "BodyTopology list"
  body_nodes :: "BodyNodeTopology list"
  tree_height :: nat
  num_velocities :: nat
  num_positions :: nat

definition world_index :: nat where
  "world_index = 0"

definition get_num_body_nodes :: "MultibodyTreeTopology \<Rightarrow> nat" where
  "get_num_body_nodes topo = length (body_nodes topo)"

definition get_body_node :: "MultibodyTreeTopology \<Rightarrow> nat \<Rightarrow> BodyNodeTopology" where
  "get_body_node topo i = body_nodes topo ! i"

section \<open>The tree\<close>

text \<open>
  Scalars \<^verbatim>\<open>T\<close> are the type variable \<open>'a\<close>; the context is \<open>'c\<close>, the position
  kinematics cache \<open>'p\<close>, a pose \<^verbatim>\<open>Isometry3<T>\<close> is \<open>'x\<close>. A spatial velocity,
  acceleration or force is the list of its six coefficients, a \<^verbatim>\<open>VectorX<T>\<close> the list of
  its coefficients, and the velocity kinematics cache the list of the bodies' spatial
  velocities \<^verbatim>\<open>V_WB\<close>, by node.

  The per-node computations of \<^verbatim>\<open>BodyNode\<close> and the cache accessors are declared in
  headers outside this file. They are fields of the tree, one function per computation:
  nothing is assumed of the values they return. So are the operations of \<^verbatim>\<open>Isometry3\<close>
  (the product, the inverse, the image of a point, the translation, and the image of a
  vector under the rotation \<^verbatim>\<open>linear()\<close>), the world frame, the elements the tree owns
  (mobilizers, force elements and joints; a force element is its
  \<^verbatim>\<open>CalcAndAddForceContribution\<close>, a joint its \<^verbatim>\<open>AddInDamping\<close>), and the two operations of
  \<^verbatim>\<open>MultibodyForces\<close> that the file calls.
\<close>

type_synonym 'a SpatialVector = "'a list"
type_synonym 'a VectorX = "'a list"
type_synonym 'a VelocityKinematicsCache = "'a SpatialVector list"

text \<open>
  A frame (\<^verbatim>\<open>Frame<T>\<close>, declared outside the sources): the index and the node of its body
  (\<^verbatim>\<open>body().index()\<close>, \<^verbatim>\<open>body().node_index()\<close>) and its pose in the body frame, as
  \<^verbatim>\<open>CalcPoseInBodyFrame\<close> and \<^verbatim>\<open>GetFixedPoseInBodyFrame\<close> return it.
\<close>

record ('c, 'x) Frame =
  frame_body_index :: nat
  frame_body_node :: nat
  CalcPoseInBodyFrame :: "'c \<Rightarrow> 'x"
  GetFixedPoseInBodyFrame :: "'x"

text \<open>
  \<^verbatim>\<open>MultibodyForces<T>\<close> (declared outside the sources): the spatial forces on the bodies
  and the generalized forces.
\<close>

record 'a MultibodyForces =
  body_forces :: "'a SpatialVector list"
  generalized_forces :: "'a VectorX"

text \<open>
  A mobilizer (\<^verbatim>\<open>Mobilizer<T>\<close>, declared outside the sources), as far as this file calls
  it: the numbers and the starts of its generalized positions and velocities, and its two
  maps between the time derivatives of the positions and the velocities. Each map gets
  the mobilizer's segment of the one vector and fills a vector of the size of the
  mobilizer's segment of the other.
\<close>

record ('a, 'c) Mobilizer =
  mobilizer_num_positions :: nat
  mobilizer_positions_start :: nat
  mobilizer_num_velocities :: nat
  mobilizer_velocities_start :: nat
  mobilizer_MapQDotToVelocity :: "'c \<Rightarrow> 'a VectorX \<Rightarrow> 'a VectorX"
  mobilizer_MapVelocityToQDot :: "'c \<Rightarrow> 'a VectorX \<Rightarrow> 'a VectorX"

text \<open>
  Modelled from the spec: the cache of articulated-body inertias (its header is not part
  of the sources) is a dense array indexed by node that holds one inertia, a 6 by 6
  matrix, for each node.
\<close>

type_synonym 'a ArticulatedBodyInertiaCache = "'a list list list"

record ('a, 'c, 'p, 'x) MultibodyTree =
  topology :: MultibodyTreeTopology
  gravity_field :: "('c \<Rightarrow> 'a VectorX) option"
  EvalPositionKinematics :: "'c \<Rightarrow> 'p"
  EvalVelocityKinematics :: "'c \<Rightarrow> 'a VelocityKinematicsCache"
  get_X_WB :: "'p \<Rightarrow> nat \<Rightarrow> 'x"
  Identity :: "'x"
  across_node_acceleration ::
    "nat \<Rightarrow> 'c \<Rightarrow> 'p \<Rightarrow> 'a VelocityKinematicsCache \<Rightarrow> 'a VectorX \<Rightarrow> 'a SpatialVector
       \<Rightarrow> 'a SpatialVector"
  newton_euler_force ::
    "nat \<Rightarrow> 'c \<Rightarrow> 'p \<Rightarrow> 'a VelocityKinematicsCache \<Rightarrow> 'a SpatialVector
       \<Rightarrow> 'a SpatialVector list \<Rightarrow> 'a SpatialVector \<Rightarrow> 'a SpatialVector"
  project_force ::
    "nat \<Rightarrow> 'c \<Rightarrow> 'p \<Rightarrow> 'a SpatialVector \<Rightarrow> 'a VectorX \<Rightarrow> 'a VectorX"
  across_node_jacobian :: "nat \<Rightarrow> 'c \<Rightarrow> 'p \<Rightarrow> 'a SpatialVector list"
  across_node_velocity ::
    "nat \<Rightarrow> 'c \<Rightarrow> 'p \<Rightarrow> 'a SpatialVector list \<Rightarrow> 'a SpatialVector \<Rightarrow> 'a SpatialVector"
  isometry_product :: "'x \<Rightarrow> 'x \<Rightarrow> 'x"
  isometry_inverse :: "'x \<Rightarrow> 'x"
  transform_point :: "'x \<Rightarrow> 'a list \<Rightarrow> 'a list"
  translation :: "'x \<Rightarrow> 'a list"
  rotate :: "'x \<Rightarrow> 'a list \<Rightarrow> 'a list"
  world_frame :: "('c, 'x) Frame"
  position_kinematics_node :: "nat \<Rightarrow> 'c \<Rightarrow> 'p \<Rightarrow> 'p"
  articulated_body_inertia_node ::
    "nat \<Rightarrow> 'c \<Rightarrow> 'p \<Rightarrow> 'a SpatialVector list \<Rightarrow> 'a ArticulatedBodyInertiaCache
       \<Rightarrow> 'a ArticulatedBodyInertiaCache"
  owned_mobilizers :: "('a, 'c) Mobilizer list"
  owned_force_elements ::
    "('c \<Rightarrow> 'p \<Rightarrow> 'a VelocityKinematicsCache \<Rightarrow> 'a MultibodyForces \<Rightarrow> 'a MultibodyForces) list"
  owned_joints :: "('c \<Rightarrow> 'a MultibodyForces \<Rightarrow> 'a MultibodyForces) list"
  CheckHasRightSizeForModel :: "'a MultibodyForces \<Rightarrow> bool"
  SetZero :: "'a MultibodyForces \<Rightarrow> 'a MultibodyForces"

definition num_bodies :: "('a, 'c, 'p, 'x) MultibodyTree \<Rightarrow> nat" where
  "num_bodies t = length (bodies (topology t))"

definition num_velocities_of :: "('a, 'c, 'p, 'x) MultibodyTree \<Rightarrow> nat" where
  "num_velocities_of t = num_velocities (topology t)"

definition topology_is_valid :: "('a, 'c, 'p, 'x) MultibodyTree \<Rightarrow> bool" where
  "topology_is_valid t = is_valid (topology t)"

definition ThrowIfNotFinalized :: "('a, 'c, 'p, 'x) MultibodyTree \<Rightarrow> error + unit" where
  "ThrowIfNotFinalized t = (if \<not> topology_is_valid t then Inl Thrown else Inr ())"

subsection \<open>What FinalizeInternals leaves in the tree\<close>

text \<open>
  \<^verbatim>\<open>FinalizeInternals\<close> resizes \<^verbatim>\<open>body_node_levels_\<close> to the tree height and pushes every
  node index from 1 on (the loop starts after the world) onto the list of its level.
  \<^verbatim>\<open>CreateBodyNode\<close>, called for the nodes in ascending order, adds each node but the world
  to the children of its parent.
\<close>

definition push_back_level :: "MultibodyTreeTopology \<Rightarrow> nat \<Rightarrow> nat list list \<Rightarrow> nat list list" where
  "push_back_level topo i levels =
     levels[level (get_body_node topo i) := levels ! level (get_body_node topo i) @ [i]]"

definition body_node_levels :: "('a, 'c, 'p, 'x) MultibodyTree \<Rightarrow> nat list list" where
  "body_node_levels t =
     fold (push_back_level (topology t)) [1..<get_num_body_nodes (topology t)]
       (replicate (tree_height (topology t)) [])"

definition children_of :: "MultibodyTreeTopology \<Rightarrow> nat \<Rightarrow> nat list" where
  "children_of topo i =
     filter (\<lambda>c. parent_body_node (get_body_node topo c) = i) [1..<get_num_body_nodes topo]"

definition child_nodes :: "('a, 'c, 'p, 'x) MultibodyTree \<Rightarrow> nat \<Rightarrow> nat list" where
  "child_nodes t i = children_of (topology t) i"

section \<open>Poses and velocities of all bodies\<close>

text \<open>\<^verbatim>\<open>std::vector::resize(n, v)\<close>: cut to \<open>n\<close> elements, or filled up with copies of \<open>v\<close>.\<close>

definition resize_vector :: "nat \<Rightarrow> 'b \<Rightarrow> 'b list \<Rightarrow> 'b list" where
  "resize_vector n v xs = take n xs @ replicate (n - length xs) v"

text \<open>\<^verbatim>\<open>xs.at(i) = v\<close>: throws \<^verbatim>\<open>std::out_of_range\<close> when \<open>i\<close> is not an index of \<open>xs\<close>.\<close>

definition at_put :: "'b list \<Rightarrow> nat \<Rightarrow> 'b \<Rightarrow> error + 'b list" where
  "at_put xs i v = (if i < length xs then Inr (xs[i := v]) else Inl Thrown)"

text \<open>The loop \<^verbatim>\<open>for (BodyIndex body_index(0); body_index < num_bodies(); ++body_index)\<close>,
  from \<open>body_index\<close> on; \<open>entry\<close> is the cache's value for a node.\<close>

function fill_from_cache ::
  "MultibodyTreeTopology \<Rightarrow> (nat \<Rightarrow> 'b) \<Rightarrow> nat \<Rightarrow> 'b list \<Rightarrow> error + 'b list" where
  "fill_from_cache topo entry body_index out =
     (if body_index < length (bodies topo) then
        (case at_put out body_index (entry (body_node (bodies topo ! body_index))) of
           Inl e \<Rightarrow> Inl e
         | Inr out' \<Rightarrow> fill_from_cache topo entry (Suc body_index) out')
      else Inr out)"
  by pat_completeness auto
termination
  by (relation "measure (\<lambda>(topo, entry, body_index, out). length (bodies topo) - body_index)") auto

declare fill_from_cache.simps [simp del]

definition CalcAllBodyPosesInWorld ::
  "('a, 'c, 'p, 'x) MultibodyTree \<Rightarrow> 'c \<Rightarrow> 'x list option \<Rightarrow> error + 'x list" where
  "CalcAllBodyPosesInWorld t ctx X_WB =
     (case X_WB of
        None \<Rightarrow> Inl Thrown
      | Some xs \<Rightarrow>
          (let xs' = (if length xs \<noteq> num_bodies t then resize_vector (num_bodies t) (Identity t) xs
                      else xs);
               pc = EvalPositionKinematics t ctx
           in fill_from_cache (topology t) (get_X_WB t pc) 0 xs'))"

definition Zero6 :: "'a::zero SpatialVector" where
  "Zero6 = replicate 6 0"

definition get_V_WB :: "'a VelocityKinematicsCache \<Rightarrow> nat \<Rightarrow> 'a SpatialVector" where
  "get_V_WB vc i = vc ! i"

definition CalcAllBodySpatialVelocitiesInWorld ::
  "('a::zero, 'c, 'p, 'x) MultibodyTree \<Rightarrow> 'c \<Rightarrow> 'a SpatialVector list option
     \<Rightarrow> error + 'a SpatialVector list" where
  "CalcAllBodySpatialVelocitiesInWorld t ctx V_WB =
     (case V_WB of
        None \<Rightarrow> Inl Thrown
      | Some vs \<Rightarrow>
          (let vs' = (if length vs \<noteq> num_bodies t then resize_vector (num_bodies t) Zero6 vs
                      else vs);
               vc = EvalVelocityKinematics t ctx
           in fill_from_cache (topology t) (get_V_WB vc) 0 vs'))"

section \<open>Gravity\<close>

definition Zero :: "nat \<Rightarrow> 'a::zero VectorX" where
  "Zero n = replicate n 0"

definition CalcGravityGeneralizedForces ::
  "('a::zero, 'c, 'p, 'x) MultibodyTree \<Rightarrow> 'c \<Rightarrow> error + 'a VectorX" where
  "CalcGravityGeneralizedForces t ctx =
     (case ThrowIfNotFinalized t of
        Inl e \<Rightarrow> Inl e
      | Inr _ \<Rightarrow>
          (case gravity_field t of
             Some g \<Rightarrow> Inr (g ctx)
           | None \<Rightarrow> Inr (Zero (num_velocities_of t))))"

section \<open>Accelerations from known generalized accelerations\<close>

text \<open>
  Modelled from the spec: \<^verbatim>\<open>BodyNode::get_generalized_forces_from_array\<close> and the
  accessors of its kind (in \<^verbatim>\<open>body_node.h\<close>, which is not part of the sources) give the
  segment of a vector of generalized velocities, accelerations or forces that belongs to
  the node's mobilizer: as many coefficients as the mobilizer has velocities, from the
  start of its segment on.
\<close>

definition get_generalized_forces_from_array :: "BodyNodeTopology \<Rightarrow> 'a VectorX \<Rightarrow> 'a VectorX" where
  "get_generalized_forces_from_array nt v =
     take (num_mobilizer_velocities nt) (drop (mobilizer_velocities_start_in_v nt) v)"

definition get_accelerations_from_array :: "BodyNodeTopology \<Rightarrow> 'a VectorX \<Rightarrow> 'a VectorX" where
  "get_accelerations_from_array nt v =
     take (num_mobilizer_velocities nt) (drop (mobilizer_velocities_start_in_v nt) v)"

text \<open>Writing \<open>n\<close> coefficients from \<open>start\<close> on; the other coefficients stay.\<close>

definition set_segment :: "nat \<Rightarrow> nat \<Rightarrow> 'a list \<Rightarrow> 'a list \<Rightarrow> 'a list" where
  "set_segment start n vals xs =
     map (\<lambda>k. if start \<le> k \<and> k < start + n then vals ! (k - start) else xs ! k) [0..<length xs]"

text \<open>
  Modelled from the spec: \<^verbatim>\<open>BodyNode::CalcSpatialAcceleration_BaseToTip\<close> (in
  \<^verbatim>\<open>body_node.h\<close>, which is not part of the sources) computes this node's spatial
  acceleration from its parent's entry of the array, the node's segment of the generalized
  accelerations and the two caches, and stores it as this node's entry.
\<close>

definition CalcSpatialAcceleration_BaseToTip ::
  "('a, 'c, 'p, 'x) MultibodyTree \<Rightarrow> 'c \<Rightarrow> 'p \<Rightarrow> 'a VelocityKinematicsCache \<Rightarrow> 'a VectorX
     \<Rightarrow> nat \<Rightarrow> 'a SpatialVector list \<Rightarrow> 'a SpatialVector list" where
  "CalcSpatialAcceleration_BaseToTip t ctx pc vc known_vdot i A_WB_array =
     (let nt = get_body_node (topology t) i;
          vdot_node = get_accelerations_from_array nt known_vdot;
          A_WP = A_WB_array ! parent_body_node nt
      in A_WB_array[i := across_node_acceleration t i ctx pc vc vdot_node A_WP])"

text \<open>The base-to-tip loops over \<open>depth = 1 .. tree_height - 1\<close> and over the nodes of
  each level.\<close>

definition acceleration_sweep ::
  "('a, 'c, 'p, 'x) MultibodyTree \<Rightarrow> 'c \<Rightarrow> 'p \<Rightarrow> 'a VelocityKinematicsCache \<Rightarrow> 'a VectorX
     \<Rightarrow> nat list \<Rightarrow> 'a SpatialVector list \<Rightarrow> 'a SpatialVector list" where
  "acceleration_sweep t ctx pc vc known_vdot depths A_WB_array =
     fold (\<lambda>depth. fold (CalcSpatialAcceleration_BaseToTip t ctx pc vc known_vdot)
                      (body_node_levels t ! depth))
       depths A_WB_array"

definition CalcSpatialAccelerationsFromVdot ::
  "('a::zero, 'c, 'p, 'x) MultibodyTree \<Rightarrow> 'c \<Rightarrow> 'p \<Rightarrow> 'a VelocityKinematicsCache \<Rightarrow> 'a VectorX
     \<Rightarrow> 'a SpatialVector list option \<Rightarrow> error + 'a SpatialVector list" where
  "CalcSpatialAccelerationsFromVdot t ctx pc vc known_vdot A_WB_array =
     (case A_WB_array of
        None \<Rightarrow> Inl Aborted
      | Some A \<Rightarrow>
          if length A \<noteq> num_bodies t then Inl Aborted
          else if length known_vdot \<noteq> num_velocities (topology t) then Inl Aborted
          else (case at_put A world_index Zero6 of
                  Inl e \<Rightarrow> Inl e
                | Inr A0 \<Rightarrow>
                    Inr (acceleration_sweep t ctx pc vc known_vdot
                           [1..<tree_height (topology t)] A0)))"

section \<open>Inverse dynamics\<close>

text \<open>
  The applied forces and the outputs of \<^verbatim>\<open>CalcInverseDynamics\<close> may be the same objects in
  memory, so the arrays of spatial forces and the vectors of generalized forces live in a
  store, by address, and the function takes addresses. The array of spatial accelerations
  has a type of its own and is passed as a value.
\<close>

record 'a Heap =
  force_arrays :: "nat \<Rightarrow> 'a SpatialVector list"
  vectors :: "nat \<Rightarrow> 'a VectorX"

text \<open>
  Modelled from the spec: \<^verbatim>\<open>BodyNode::CalcInverseDynamics_TipToBase\<close> (in
  \<^verbatim>\<open>body_node.h\<close>, which is not part of the sources) computes the node's spatial force
  from the node's spatial acceleration, the forces already stored for its children, the
  body's inertia and the applied spatial force, stores it as this node's entry of the
  output array, and writes its projection, less the applied generalized force, to the
  node's segment of the output vector.
\<close>

definition CalcInverseDynamics_TipToBase ::
  "('a, 'c, 'p, 'x) MultibodyTree \<Rightarrow> 'c \<Rightarrow> 'p \<Rightarrow> 'a VelocityKinematicsCache
     \<Rightarrow> 'a SpatialVector list \<Rightarrow> 'a SpatialVector \<Rightarrow> 'a VectorX \<Rightarrow> nat \<Rightarrow> nat
     \<Rightarrow> nat \<Rightarrow> 'a Heap \<Rightarrow> 'a Heap" where
  "CalcInverseDynamics_TipToBase t ctx pc vc A_WB_array Fapplied_Bo_W tau_applied
       F_BMo_W_array tau_array i h =
     (let nt = get_body_node (topology t) i;
          F_children = map (\<lambda>c. force_arrays h F_BMo_W_array ! c) (child_nodes t i);
          F_BMo_W = newton_euler_force t i ctx pc vc (A_WB_array ! i) F_children Fapplied_Bo_W;
          tau = project_force t i ctx pc F_BMo_W tau_applied
      in h\<lparr>force_arrays :=
             (force_arrays h)(F_BMo_W_array := (force_arrays h F_BMo_W_array)[i := F_BMo_W]),
           vectors :=
             (vectors h)(tau_array :=
                set_segment (mobilizer_velocities_start_in_v nt) (num_mobilizer_velocities nt)
                  tau (vectors h tau_array))\<rparr>)"

text \<open>One pass of the body of the tip-to-base loop. The state is the two local copies
  \<^verbatim>\<open>tau_applied_mobilizer\<close> and \<^verbatim>\<open>Fapplied_Bo_W\<close> and the store.\<close>

definition inverse_dynamics_node ::
  "('a, 'c, 'p, 'x) MultibodyTree \<Rightarrow> 'c \<Rightarrow> 'p \<Rightarrow> 'a VelocityKinematicsCache
     \<Rightarrow> 'a SpatialVector list \<Rightarrow> nat \<Rightarrow> nat \<Rightarrow> nat \<Rightarrow> nat \<Rightarrow> nat \<Rightarrow> nat
     \<Rightarrow> nat \<Rightarrow> 'a VectorX \<times> 'a SpatialVector \<times> 'a Heap
     \<Rightarrow> 'a VectorX \<times> 'a SpatialVector \<times> 'a Heap" where
  "inverse_dynamics_node t ctx pc vc A_WB_array Fapplied_Bo_W_array tau_applied_array
       F_BMo_W_array tau_array Fapplied_size tau_applied_size body_node_index st =
     (case st of (tau_applied_mobilizer, Fapplied_Bo_W, h) \<Rightarrow>
        (let tau_applied_mobilizer' =
               (if tau_applied_size \<noteq> 0
                then get_generalized_forces_from_array
                       (get_body_node (topology t) body_node_index) (vectors h tau_applied_array)
                else tau_applied_mobilizer);
             Fapplied_Bo_W' =
               (if Fapplied_size \<noteq> 0 then force_arrays h Fapplied_Bo_W_array ! body_node_index
                else Fapplied_Bo_W)
         in (tau_applied_mobilizer', Fapplied_Bo_W',
             CalcInverseDynamics_TipToBase t ctx pc vc A_WB_array Fapplied_Bo_W'
               tau_applied_mobilizer' F_BMo_W_array tau_array body_node_index h)))"

text \<open>The tip-to-base loops over \<open>depth = tree_height - 1 .. 0\<close> and over the nodes of
  each level.\<close>

definition inverse_dynamics_sweep ::
  "('a, 'c, 'p, 'x) MultibodyTree \<Rightarrow> 'c \<Rightarrow> 'p \<Rightarrow> 'a VelocityKinematicsCache
     \<Rightarrow> 'a SpatialVector list \<Rightarrow> nat \<Rightarrow> nat \<Rightarrow> nat \<Rightarrow> nat \<Rightarrow> nat \<Rightarrow> nat
     \<Rightarrow> nat list \<Rightarrow> 'a VectorX \<times> 'a SpatialVector \<times> 'a Heap
     \<Rightarrow> 'a VectorX \<times> 'a SpatialVector \<times> 'a Heap" where
  "inverse_dynamics_sweep t ctx pc vc A_WB_array Fapplied_Bo_W_array tau_applied_array
       F_BMo_W_array tau_array Fapplied_size tau_applied_size depths st =
     fold (\<lambda>depth. fold (inverse_dynamics_node t ctx pc vc A_WB_array Fapplied_Bo_W_array
                           tau_applied_array F_BMo_W_array tau_array Fapplied_size
                           tau_applied_size)
                      (body_node_levels t ! depth))
       depths st"

definition CalcInverseDynamics ::
  "('a::zero, 'c, 'p, 'x) MultibodyTree \<Rightarrow> 'c \<Rightarrow> 'p \<Rightarrow> 'a VelocityKinematicsCache \<Rightarrow> 'a VectorX
     \<Rightarrow> nat \<Rightarrow> nat \<Rightarrow> 'a SpatialVector list option \<Rightarrow> nat option \<Rightarrow> nat \<Rightarrow> 'a Heap
     \<Rightarrow> error + 'a SpatialVector list \<times> 'a Heap" where
  "CalcInverseDynamics t ctx pc vc known_vdot Fapplied_Bo_W_array tau_applied_array
       A_WB_array F_BMo_W_array tau_array h =
     (if length known_vdot \<noteq> num_velocities_of t then Inl Aborted
      else let Fapplied_size = length (force_arrays h Fapplied_Bo_W_array) in
      if \<not> (Fapplied_size = num_bodies t \<or> Fapplied_size = 0) then Inl Aborted
      else let tau_applied_size = length (vectors h tau_applied_array) in
      if \<not> (tau_applied_size = num_velocities_of t \<or> tau_applied_size = 0) then Inl Aborted
      else (case A_WB_array of
              None \<Rightarrow> Inl Aborted
            | Some A \<Rightarrow>
                if length A \<noteq> num_bodies t then Inl Aborted
                else (case F_BMo_W_array of
                        None \<Rightarrow> Inl Aborted
                      | Some F \<Rightarrow>
                          if length (force_arrays h F) \<noteq> num_bodies t then Inl Aborted
                          else if length (vectors h tau_array) \<noteq> num_velocities_of t
                          then Inl Aborted
                          else (case CalcSpatialAccelerationsFromVdot t ctx pc vc known_vdot
                                       (Some A) of
                                  Inl e \<Rightarrow> Inl e
                                | Inr A' \<Rightarrow>
                                    Inr (A',
                                         snd (snd (inverse_dynamics_sweep t ctx pc vc A'
                                           Fapplied_Bo_W_array tau_applied_array F tau_array
                                           Fapplied_size tau_applied_size
                                           (rev [0..<tree_height (topology t)])
                                           ([], Zero6, h))))))))"

section \<open>Mass matrix and bias term\<close>

text \<open>A \<^verbatim>\<open>MatrixX<T>\<close>: its sizes and its columns.\<close>

record 'a MatrixX =
  rows :: nat
  cols :: nat
  coeffs :: "'a list list"

definition Unit :: "nat \<Rightarrow> nat \<Rightarrow> 'a::{zero,one} VectorX" where
  "Unit n j = map (\<lambda>k. if k = j then 1 else 0) [0..<n]"

text \<open>
  Modelled from the spec: \<^verbatim>\<open>VelocityKinematicsCache::InitializeToZero\<close> (its header is not
  part of the sources) on a cache made for the topology; the cache is a dense array indexed
  by node, and every spatial velocity is zero.
\<close>

definition InitializeToZero :: "MultibodyTreeTopology \<Rightarrow> 'a::zero VelocityKinematicsCache" where
  "InitializeToZero topo = replicate (get_num_body_nodes topo) Zero6"

text \<open>
  The default constructors of \<^verbatim>\<open>SpatialAcceleration\<close>, \<^verbatim>\<open>SpatialForce\<close>, \<^verbatim>\<open>VectorX\<close> and
  \<^verbatim>\<open>Vector6\<close> leave the coefficients unset. What a fresh array holds is a parameter of the functions
  that declare one: its entries by index.
\<close>

record 'a Uninitialized =
  fresh_A_WB :: "nat \<Rightarrow> 'a SpatialVector"
  fresh_F_BMo_W :: "nat \<Rightarrow> 'a SpatialVector"
  fresh_tau :: "nat \<Rightarrow> 'a"
  fresh_H_PB_W :: "nat \<Rightarrow> 'a SpatialVector"
  fresh_p_WoQ_W :: "'a list"

text \<open>The locals of \<^verbatim>\<open>DoCalcMassMatrixViaInverseDynamics\<close> and \<^verbatim>\<open>DoCalcBiasTerm\<close> in the
  store: the empty temporaries passed for the applied forces (\<^verbatim>\<open>{}\<close> and
  \<^verbatim>\<open>VectorX<T>()\<close>) at one address, the output array and vector at another.\<close>

definition no_forces :: nat where
  "no_forces = 0"

definition outputs :: nat where
  "outputs = 1"

definition local_heap :: "'a SpatialVector list \<Rightarrow> 'a VectorX \<Rightarrow> 'a Heap" where
  "local_heap F tau =
     \<lparr>force_arrays = (\<lambda>_. [])(outputs := F), vectors = (\<lambda>_. [])(outputs := tau)\<rparr>"

text \<open>The body of the loop over the columns: the state is the two auxiliary arrays (the
  forces in the store, with \<^verbatim>\<open>tau\<close>) and the matrix.\<close>

definition mass_matrix_column ::
  "('a::{zero,one}, 'c, 'p, 'x) MultibodyTree \<Rightarrow> 'c \<Rightarrow> 'p \<Rightarrow> 'a VelocityKinematicsCache \<Rightarrow> nat
     \<Rightarrow> nat \<Rightarrow> 'a SpatialVector list \<times> 'a Heap \<times> 'a MatrixX
     \<Rightarrow> error + 'a SpatialVector list \<times> 'a Heap \<times> 'a MatrixX" where
  "mass_matrix_column t ctx pc vc nv j st =
     (case st of (A_WB_array, h, H) \<Rightarrow>
        (let vdot = Unit nv j;
             h0 = h\<lparr>vectors := (vectors h)(outputs := Zero nv)\<rparr>
         in case CalcInverseDynamics t ctx pc vc vdot no_forces no_forces
                   (Some A_WB_array) (Some outputs) outputs h0 of
              Inl e \<Rightarrow> Inl e
            | Inr (A', h') \<Rightarrow> Inr (A', h', H\<lparr>coeffs := (coeffs H)[j := vectors h' outputs]\<rparr>)))"

fun mass_matrix_loop ::
  "('a::{zero,one}, 'c, 'p, 'x) MultibodyTree \<Rightarrow> 'c \<Rightarrow> 'p \<Rightarrow> 'a VelocityKinematicsCache \<Rightarrow> nat
     \<Rightarrow> nat list \<Rightarrow> 'a SpatialVector list \<times> 'a Heap \<times> 'a MatrixX
     \<Rightarrow> error + 'a SpatialVector list \<times> 'a Heap \<times> 'a MatrixX" where
  "mass_matrix_loop t ctx pc vc nv [] st = Inr st"
| "mass_matrix_loop t ctx pc vc nv (j # js) st =
     (case mass_matrix_column t ctx pc vc nv j st of
        Inl e \<Rightarrow> Inl e
      | Inr st' \<Rightarrow> mass_matrix_loop t ctx pc vc nv js st')"

text \<open>The state the loop starts from: fresh arrays, and the caller's matrix.\<close>

definition mass_matrix_start ::
  "('a, 'c, 'p, 'x) MultibodyTree \<Rightarrow> 'a Uninitialized \<Rightarrow> 'a MatrixX
     \<Rightarrow> 'a SpatialVector list \<times> 'a Heap \<times> 'a MatrixX" where
  "mass_matrix_start t u H =
     (map (fresh_A_WB u) [0..<num_bodies t],
      local_heap (map (fresh_F_BMo_W u) [0..<num_bodies t])
        (map (fresh_tau u) [0..<num_velocities_of t]),
      H)"

definition DoCalcMassMatrixViaInverseDynamics ::
  "('a::{zero,one}, 'c, 'p, 'x) MultibodyTree \<Rightarrow> 'a Uninitialized \<Rightarrow> 'c \<Rightarrow> 'p \<Rightarrow> 'a MatrixX
     \<Rightarrow> error + 'a MatrixX" where
  "DoCalcMassMatrixViaInverseDynamics t u ctx pc H =
     (let vc = InitializeToZero (topology t);
          nv = num_velocities_of t
      in case mass_matrix_loop t ctx pc vc nv [0..<nv] (mass_matrix_start t u H) of
           Inl e \<Rightarrow> Inl e
         | Inr (A, h, H') \<Rightarrow> Inr H')"

definition CalcMassMatrixViaInverseDynamics ::
  "('a::{zero,one}, 'c, 'p, 'x) MultibodyTree \<Rightarrow> 'a Uninitialized \<Rightarrow> 'c \<Rightarrow> 'a MatrixX option
     \<Rightarrow> error + 'a MatrixX" where
  "CalcMassMatrixViaInverseDynamics t u ctx H =
     (case H of
        None \<Rightarrow> Inl Aborted
      | Some M \<Rightarrow>
          if rows M \<noteq> num_velocities_of t then Inl Aborted
          else if cols M \<noteq> num_velocities_of t then Inl Aborted
          else DoCalcMassMatrixViaInverseDynamics t u ctx (EvalPositionKinematics t ctx) M)"

definition DoCalcBiasTerm ::
  "('a::zero, 'c, 'p, 'x) MultibodyTree \<Rightarrow> 'a Uninitialized \<Rightarrow> 'c \<Rightarrow> 'p
     \<Rightarrow> 'a VelocityKinematicsCache \<Rightarrow> 'a VectorX \<Rightarrow> error + 'a VectorX" where
  "DoCalcBiasTerm t u ctx pc vc Cv =
     (let nv = num_velocities_of t;
          vdot = Zero nv;
          A_WB_array = map (fresh_A_WB u) [0..<num_bodies t];
          F_BMo_W_array = map (fresh_F_BMo_W u) [0..<num_bodies t]
      in case CalcInverseDynamics t ctx pc vc vdot no_forces no_forces
                (Some A_WB_array) (Some outputs) outputs (local_heap F_BMo_W_array Cv) of
           Inl e \<Rightarrow> Inl e
         | Inr (A', h') \<Rightarrow> Inr (vectors h' outputs))"

definition CalcBiasTerm ::
  "('a::zero, 'c, 'p, 'x) MultibodyTree \<Rightarrow> 'a Uninitialized \<Rightarrow> 'c \<Rightarrow> 'a VectorX option
     \<Rightarrow> error + 'a VectorX" where
  "CalcBiasTerm t u ctx Cv =
     (case Cv of
        None \<Rightarrow> Inl Aborted
      | Some v \<Rightarrow>
          if length v \<noteq> num_velocities_of t then Inl Aborted
          else DoCalcBiasTerm t u ctx (EvalPositionKinematics t ctx)
                 (EvalVelocityKinematics t ctx) v)"

section \<open>Velocity kinematics\<close>

text \<open>
  Modelled from the spec: \<^verbatim>\<open>BodyNode::GetJacobianFromArray\<close> and
  \<^verbatim>\<open>GetMutableJacobianFromArray\<close> (in \<^verbatim>\<open>body_node.h\<close>, which is not part of the sources)
  give the columns of the array of across-node Jacobians that belong to the node: one
  column per generalized velocity of its mobilizer, from the start of its segment on.
\<close>

definition GetJacobianFromArray ::
  "BodyNodeTopology \<Rightarrow> 'a SpatialVector list \<Rightarrow> 'a SpatialVector list" where
  "GetJacobianFromArray nt H_PB_W_cache =
     take (num_mobilizer_velocities nt) (drop (mobilizer_velocities_start_in_v nt) H_PB_W_cache)"

definition CalcAcrossNodeGeometricJacobianExpressedInWorld ::
  "('a, 'c, 'p, 'x) MultibodyTree \<Rightarrow> 'c \<Rightarrow> 'p \<Rightarrow> 'a SpatialVector list option
     \<Rightarrow> error + 'a SpatialVector list" where
  "CalcAcrossNodeGeometricJacobianExpressedInWorld t ctx pc H_PB_W_cache =
     (case H_PB_W_cache of
        None \<Rightarrow> Inl Aborted
      | Some H \<Rightarrow>
          if length H \<noteq> num_velocities_of t then Inl Aborted
          else Inr (fold (\<lambda>node_index H'.
                            set_segment
                              (mobilizer_velocities_start_in_v (get_body_node (topology t) node_index))
                              (num_mobilizer_velocities (get_body_node (topology t) node_index))
                              (across_node_jacobian t node_index ctx pc) H')
                      [1..<num_bodies t] H))"

text \<open>
  Modelled from the spec: \<^verbatim>\<open>BodyNode::CalcVelocityKinematicsCache_BaseToTip\<close> (in
  \<^verbatim>\<open>body_node.h\<close>) computes the node's spatial velocity from its parent's entry of the
  cache, the node's Jacobian and the node's segment of the generalized velocities (held
  by the context), and stores it as this node's entry.
\<close>

definition CalcVelocityKinematicsCache_BaseToTip ::
  "('a, 'c, 'p, 'x) MultibodyTree \<Rightarrow> 'c \<Rightarrow> 'p \<Rightarrow> 'a SpatialVector list \<Rightarrow> nat
     \<Rightarrow> 'a VelocityKinematicsCache \<Rightarrow> 'a VelocityKinematicsCache" where
  "CalcVelocityKinematicsCache_BaseToTip t ctx pc H_PB_W_cache i vc =
     (let nt = get_body_node (topology t) i;
          H_PB_W = GetJacobianFromArray nt H_PB_W_cache;
          V_WP = vc ! parent_body_node nt
      in vc[i := across_node_velocity t i ctx pc H_PB_W V_WP])"

definition CalcVelocityKinematicsCache ::
  "('a, 'c, 'p, 'x) MultibodyTree \<Rightarrow> 'a Uninitialized \<Rightarrow> 'c \<Rightarrow> 'p
     \<Rightarrow> 'a VelocityKinematicsCache option \<Rightarrow> error + 'a VelocityKinematicsCache" where
  "CalcVelocityKinematicsCache t u ctx pc vc =
     (case vc of
        None \<Rightarrow> Inl Aborted
      | Some V \<Rightarrow>
          (case CalcAcrossNodeGeometricJacobianExpressedInWorld t ctx pc
                  (Some (map (fresh_H_PB_W u) [0..<num_velocities_of t])) of
             Inl e \<Rightarrow> Inl e
           | Inr H_PB_W_cache \<Rightarrow>
               Inr (fold (\<lambda>depth. fold (CalcVelocityKinematicsCache_BaseToTip t ctx pc H_PB_W_cache)
                                      (body_node_levels t ! depth))
                      [1..<tree_height (topology t)] V)))"


section \<open>Positions of points\<close>

definition CalcRelativeTransform ::
  "('a, 'c, 'p, 'x) MultibodyTree \<Rightarrow> 'c \<Rightarrow> ('c, 'x) Frame \<Rightarrow> ('c, 'x) Frame \<Rightarrow> 'x" where
  "CalcRelativeTransform t ctx frame_A frame_B =
     (let pc = EvalPositionKinematics t ctx;
          X_WA = isometry_product t (get_X_WB t pc (frame_body_node frame_A))
                   (CalcPoseInBodyFrame frame_A ctx);
          X_WB = isometry_product t (get_X_WB t pc (frame_body_node frame_B))
                   (CalcPoseInBodyFrame frame_B ctx)
      in isometry_product t (isometry_inverse t X_WA) X_WB)"

definition CalcPointsPositions ::
  "('a, 'c, 'p, 'x) MultibodyTree \<Rightarrow> 'c \<Rightarrow> ('c, 'x) Frame \<Rightarrow> 'a MatrixX \<Rightarrow> ('c, 'x) Frame
     \<Rightarrow> 'a MatrixX option \<Rightarrow> error + 'a MatrixX" where
  "CalcPointsPositions t ctx frame_B p_BQi frame_A p_AQi =
     (if rows p_BQi \<noteq> 3 then Inl Thrown
      else (case p_AQi of
              None \<Rightarrow> Inl Thrown
            | Some out \<Rightarrow>
                if rows out \<noteq> 3 then Inl Thrown
                else if cols out \<noteq> cols p_BQi then Inl Thrown
                else (let X_AB = CalcRelativeTransform t ctx frame_A frame_B
                      in Inr (out\<lparr>coeffs := map (transform_point t X_AB) (coeffs p_BQi)\<rparr>))))"

section \<open>Rigid-body dynamics of one node\<close>

text \<open>
  The classes that compute with one node (\<^verbatim>\<open>BodyNode\<close>, \<^verbatim>\<open>Mobilizer\<close>, \<^verbatim>\<open>SpatialInertia\<close>,
  the spatial vectors) are not part of the sources. This section writes their
  computations out as the formulas of rigid-body mechanics, over a ring of exact
  scalars; rounding, infinities and NaN of floating-point numbers are outside the model.
  A spatial vector holds the rotational part in coefficients 0 to 2 and the translational
  part in coefficients 3 to 5.
\<close>

definition rotational :: "'a SpatialVector \<Rightarrow> 'a list" where
  "rotational V = [V ! 0, V ! 1, V ! 2]"

definition translational :: "'a SpatialVector \<Rightarrow> 'a list" where
  "translational V = [V ! 3, V ! 4, V ! 5]"

definition cross :: "'a::ring list \<Rightarrow> 'a list \<Rightarrow> 'a list" where
  "cross a b =
     [a ! 1 * b ! 2 - a ! 2 * b ! 1, a ! 2 * b ! 0 - a ! 0 * b ! 2, a ! 0 * b ! 1 - a ! 1 * b ! 0]"

definition sum3 :: "'a::ring list \<Rightarrow> 'a list \<Rightarrow> 'a list" where
  "sum3 a b = [a ! 0 + b ! 0, a ! 1 + b ! 1, a ! 2 + b ! 2]"

definition difference3 :: "'a::ring list \<Rightarrow> 'a list \<Rightarrow> 'a list" where
  "difference3 a b = [a ! 0 - b ! 0, a ! 1 - b ! 1, a ! 2 - b ! 2]"

definition sum6 :: "'a::ring SpatialVector \<Rightarrow> 'a SpatialVector \<Rightarrow> 'a SpatialVector" where
  "sum6 X Y = map (\<lambda>k. X ! k + Y ! k) [0..<6]"

definition difference6 :: "'a::ring SpatialVector \<Rightarrow> 'a SpatialVector \<Rightarrow> 'a SpatialVector" where
  "difference6 X Y = map (\<lambda>k. X ! k - Y ! k) [0..<6]"

text \<open>A matrix with six rows, given by its columns, times a vector; its transpose (the
  first \<open>n\<close> columns) times a spatial vector; a 6 by 6 matrix, given by its rows, times a
  spatial vector.\<close>

definition columns_times :: "'a::ring SpatialVector list \<Rightarrow> 'a VectorX \<Rightarrow> 'a SpatialVector" where
  "columns_times H x = map (\<lambda>r. sum_list (map2 (\<lambda>c xk. c ! r * xk) H x)) [0..<6]"

definition transpose_times :: "nat \<Rightarrow> 'a::ring SpatialVector list \<Rightarrow> 'a SpatialVector \<Rightarrow> 'a VectorX" where
  "transpose_times n H F = map (\<lambda>k. sum_list (map (\<lambda>r. H ! k ! r * F ! r) [0..<6])) [0..<n]"

definition inertia_times :: "'a::ring list list \<Rightarrow> 'a SpatialVector \<Rightarrow> 'a SpatialVector" where
  "inertia_times M X = map (\<lambda>r. sum_list (map (\<lambda>k. M ! r ! k * X ! k) [0..<6])) [0..<6]"

text \<open>
  Modelled from the spec: the rigid shifts of \<^verbatim>\<open>SpatialVelocity\<close>, \<^verbatim>\<open>SpatialAcceleration\<close>
  and \<^verbatim>\<open>SpatialForce\<close> by an offset \<open>p\<close>. The shift of a velocity adds the angular velocity
  crossed with the offset; the shift of an acceleration adds, to the same term for the
  angular acceleration, the centrifugal term of the angular velocity \<open>w\<close>; the shift of a
  force changes the torque by the moment of the force.
\<close>

definition ShiftVelocity :: "'a::ring SpatialVector \<Rightarrow> 'a list \<Rightarrow> 'a SpatialVector" where
  "ShiftVelocity V p = rotational V @ sum3 (translational V) (cross (rotational V) p)"

definition ShiftAcceleration ::
  "'a::ring SpatialVector \<Rightarrow> 'a list \<Rightarrow> 'a list \<Rightarrow> 'a SpatialVector" where
  "ShiftAcceleration A p w =
     rotational A
       @ sum3 (sum3 (translational A) (cross (rotational A) p)) (cross w (cross w p))"

definition ShiftForce :: "'a::ring SpatialVector \<Rightarrow> 'a list \<Rightarrow> 'a SpatialVector" where
  "ShiftForce F p = difference3 (rotational F) (cross p (translational F)) @ translational F"

definition opposite :: "'a::ring list \<Rightarrow> 'a list" where
  "opposite p = [- (p ! 0), - (p ! 1), - (p ! 2)]"

text \<open>The velocity-dependent (gyroscopic) part of the rate of change of the momentum
  \<open>L\<close> of a body that moves with spatial velocity \<open>V\<close>.\<close>

definition gyroscopic :: "'a::ring SpatialVector \<Rightarrow> 'a SpatialVector \<Rightarrow> 'a SpatialVector" where
  "gyroscopic V L =
     sum3 (cross (rotational V) (rotational L)) (cross (translational V) (translational L))
       @ cross (rotational V) (translational L)"

text \<open>What the formulas need of a node: the generalized velocities held by the context,
  the across-node Jacobian \<^verbatim>\<open>H_PB_W\<close> (by columns) and its time derivative, the offset
  \<^verbatim>\<open>p_PB_W\<close> of the body from its parent, and the spatial inertia \<^verbatim>\<open>M_B_W\<close> (by rows).\<close>

record ('a, 'c, 'p) RigidBodyModel =
  generalized_velocities :: "'c \<Rightarrow> 'a VectorX"
  H_PB_W :: "nat \<Rightarrow> 'c \<Rightarrow> 'p \<Rightarrow> 'a SpatialVector list"
  Hdot_PB_W :: "nat \<Rightarrow> 'c \<Rightarrow> 'p \<Rightarrow> 'a SpatialVector list"
  p_PB_W :: "nat \<Rightarrow> 'p \<Rightarrow> 'a list"
  M_B_W :: "nat \<Rightarrow> 'p \<Rightarrow> 'a list list"

definition get_velocities_from_array :: "BodyNodeTopology \<Rightarrow> 'a VectorX \<Rightarrow> 'a VectorX" where
  "get_velocities_from_array nt v =
     take (num_mobilizer_velocities nt) (drop (mobilizer_velocities_start_in_v nt) v)"

text \<open>
  Modelled from the spec: velocity propagation. The node's spatial velocity is its
  parent's velocity rigidly shifted to the node's body origin, plus the velocity
  \<^verbatim>\<open>H_PB_W\<close> times the node's generalized velocities.
\<close>

definition node_velocity ::
  "MultibodyTreeTopology \<Rightarrow> ('a::ring, 'c, 'p) RigidBodyModel \<Rightarrow> nat \<Rightarrow> 'c \<Rightarrow> 'p
     \<Rightarrow> 'a SpatialVector list \<Rightarrow> 'a SpatialVector \<Rightarrow> 'a SpatialVector" where
  "node_velocity topo m i ctx pc H V_WP =
     sum6 (ShiftVelocity V_WP (p_PB_W m i pc))
       (columns_times H
          (get_velocities_from_array (get_body_node topo i) (generalized_velocities m ctx)))"

text \<open>
  Modelled from the spec: acceleration propagation. The node's spatial acceleration is
  its parent's acceleration rigidly shifted (with the centrifugal term of the parent's
  angular velocity), plus \<^verbatim>\<open>H_PB_W\<close> times the node's generalized accelerations, plus
  the bias of the time derivative of \<^verbatim>\<open>H_PB_W\<close> times the node's generalized velocities.
\<close>

definition node_acceleration ::
  "MultibodyTreeTopology \<Rightarrow> ('a::ring, 'c, 'p) RigidBodyModel \<Rightarrow> nat \<Rightarrow> 'c \<Rightarrow> 'p
     \<Rightarrow> 'a VelocityKinematicsCache \<Rightarrow> 'a VectorX \<Rightarrow> 'a SpatialVector \<Rightarrow> 'a SpatialVector" where
  "node_acceleration topo m i ctx pc vc vdot_node A_WP =
     sum6
       (sum6
          (ShiftAcceleration A_WP (p_PB_W m i pc)
             (rotational (vc ! parent_body_node (get_body_node topo i))))
          (columns_times (H_PB_W m i ctx pc) vdot_node))
       (columns_times (Hdot_PB_W m i ctx pc)
          (get_velocities_from_array (get_body_node topo i) (generalized_velocities m ctx)))"

text \<open>
  Modelled from the spec: inverse-dynamics force accumulation. The Newton-Euler balance
  gives the force on the body as the inertia times the acceleration plus the gyroscopic
  term, less the applied force; the forces of the children, each shifted from the child's
  origin back to this body's (by the opposite of the child's offset), are added. The
  projection is \<^verbatim>\<open>H_PB_W\<close> transposed times the force, less the applied generalized
  force when there is one.
\<close>

definition node_force ::
  "MultibodyTreeTopology \<Rightarrow> ('a::ring, 'c, 'p) RigidBodyModel \<Rightarrow> nat \<Rightarrow> 'c \<Rightarrow> 'p
     \<Rightarrow> 'a VelocityKinematicsCache \<Rightarrow> 'a SpatialVector \<Rightarrow> 'a SpatialVector list
     \<Rightarrow> 'a SpatialVector \<Rightarrow> 'a SpatialVector" where
  "node_force topo m i ctx pc vc A_WB F_children Fapplied_Bo_W =
     fold sum6
       (map2 (\<lambda>c F. ShiftForce F (opposite (p_PB_W m c pc))) (children_of topo i) F_children)
       (difference6
          (sum6 (inertia_times (M_B_W m i pc) A_WB)
             (gyroscopic (vc ! i) (inertia_times (M_B_W m i pc) (vc ! i))))
          Fapplied_Bo_W)"

definition node_projection ::
  "MultibodyTreeTopology \<Rightarrow> ('a::ring, 'c, 'p) RigidBodyModel \<Rightarrow> nat \<Rightarrow> 'c \<Rightarrow> 'p
     \<Rightarrow> 'a SpatialVector \<Rightarrow> 'a VectorX \<Rightarrow> 'a VectorX" where
  "node_projection topo m i ctx pc F_BMo_W tau_applied =
     (let n = num_mobilizer_velocities (get_body_node topo i);
          tau = transpose_times n (H_PB_W m i ctx pc) F_BMo_W
      in if tau_applied = [] then tau
         else map (\<lambda>k. tau ! k - tau_applied ! k) [0..<n])"

text \<open>A tree whose per-node computations are these formulas for the model \<open>m\<close>.\<close>

definition rigid_body_dynamics ::
  "('a::ring, 'c, 'p) RigidBodyModel \<Rightarrow> ('a, 'c, 'p, 'x) MultibodyTree \<Rightarrow> bool" where
  "rigid_body_dynamics m t \<longleftrightarrow>
     across_node_jacobian t = H_PB_W m \<and>
     across_node_velocity t = node_velocity (topology t) m \<and>
     across_node_acceleration t = node_acceleration (topology t) m \<and>
     newton_euler_force t = node_force (topology t) m \<and>
     project_force t = node_projection (topology t) m"

text \<open>
  Modelled from the spec: the velocity kinematics the context returns
  (\<^verbatim>\<open>EvalVelocityKinematics\<close>, declared in a header outside the sources) is the cache that
  \<^verbatim>\<open>CalcVelocityKinematicsCache\<close> computes from the context, started from a cache initialized
  to zero.
\<close>

definition velocity_cache_current ::
  "('a::zero, 'c, 'p, 'x) MultibodyTree \<Rightarrow> 'a Uninitialized \<Rightarrow> 'c \<Rightarrow> bool" where
  "velocity_cache_current t u ctx \<longleftrightarrow>
     CalcVelocityKinematicsCache t u ctx (EvalPositionKinematics t ctx)
       (Some (InitializeToZero (topology t))) = Inr (EvalVelocityKinematics t ctx)"

section \<open>Position kinematics, acceleration kinematics and articulated-body inertias\<close>

text \<open>
  \<^verbatim>\<open>CalcPositionKinematicsCache\<close>: the base-to-tip loop from level 1 on; what
  \<^verbatim>\<open>BodyNode::CalcPositionKinematicsCache_BaseToTip\<close> does to the cache is the field
  \<open>position_kinematics_node\<close> of the tree.
\<close>

definition CalcPositionKinematicsCache ::
  "('a, 'c, 'p, 'x) MultibodyTree \<Rightarrow> 'c \<Rightarrow> 'p option \<Rightarrow> error + 'p" where
  "CalcPositionKinematicsCache t ctx pc =
     (case pc of
        None \<Rightarrow> Inl Aborted
      | Some P \<Rightarrow>
          Inr (fold (\<lambda>level. fold (\<lambda>body_node_index.
                                      position_kinematics_node t body_node_index ctx)
                                (body_node_levels t ! level))
                 [1..<tree_height (topology t)] P))"

text \<open>
  Modelled from the spec: the acceleration kinematics cache (its header is not part of the
  sources) is a dense array indexed by node; \<^verbatim>\<open>get_mutable_A_WB_pool\<close> gives the array of
  the spatial accelerations \<^verbatim>\<open>A_WB\<close>. The cache is modelled as that array.
\<close>

definition CalcAccelerationKinematicsCache ::
  "('a::zero, 'c, 'p, 'x) MultibodyTree \<Rightarrow> 'c \<Rightarrow> 'p \<Rightarrow> 'a VelocityKinematicsCache \<Rightarrow> 'a VectorX
     \<Rightarrow> 'a SpatialVector list option \<Rightarrow> error + 'a SpatialVector list" where
  "CalcAccelerationKinematicsCache t ctx pc vc known_vdot ac =
     (case ac of
        None \<Rightarrow> Inl Aborted
      | Some A_WB_array \<Rightarrow>
          if length known_vdot \<noteq> num_velocities (topology t) then Inl Aborted
          else CalcSpatialAccelerationsFromVdot t ctx pc vc known_vdot (Some A_WB_array))"

text \<open>
  \<^verbatim>\<open>CalcArticulatedBodyInertiaCache\<close>: the across-node Jacobians into a fresh array, then
  the tip-to-base loop down to level 1; what
  \<^verbatim>\<open>BodyNode::CalcArticulatedBodyInertiaCache_TipToBase\<close> does to the cache is the field
  \<open>articulated_body_inertia_node\<close> of the tree.
\<close>

definition CalcArticulatedBodyInertiaCache ::
  "('a, 'c, 'p, 'x) MultibodyTree \<Rightarrow> 'a Uninitialized \<Rightarrow> 'c \<Rightarrow> 'p
     \<Rightarrow> 'a ArticulatedBodyInertiaCache option \<Rightarrow> error + 'a ArticulatedBodyInertiaCache" where
  "CalcArticulatedBodyInertiaCache t u ctx pc abc =
     (case abc of
        None \<Rightarrow> Inl Aborted
      | Some cache \<Rightarrow>
          (case CalcAcrossNodeGeometricJacobianExpressedInWorld t ctx pc
                  (Some (map (fresh_H_PB_W u) [0..<num_velocities_of t])) of
             Inl e \<Rightarrow> Inl e
           | Inr H_PB_W_cache \<Rightarrow>
               Inr (fold (\<lambda>depth. fold (\<lambda>body_node_index.
                                           articulated_body_inertia_node t body_node_index ctx pc
                                             (GetJacobianFromArray
                                                (get_body_node (topology t) body_node_index)
                                                H_PB_W_cache))
                                     (body_node_levels t ! depth))
                      (rev [1..<tree_height (topology t)]) cache)))"

section \<open>Force elements\<close>

definition AddJointDampingForces ::
  "('a, 'c, 'p, 'x) MultibodyTree \<Rightarrow> 'c \<Rightarrow> 'a MultibodyForces option
     \<Rightarrow> error + 'a MultibodyForces" where
  "AddJointDampingForces t ctx forces =
     (case forces of
        None \<Rightarrow> Inl Aborted
      | Some f \<Rightarrow> Inr (fold (\<lambda>joint. joint ctx) (owned_joints t) f))"

definition CalcForceElementsContribution ::
  "('a, 'c, 'p, 'x) MultibodyTree \<Rightarrow> 'c \<Rightarrow> 'p \<Rightarrow> 'a VelocityKinematicsCache
     \<Rightarrow> 'a MultibodyForces option \<Rightarrow> error + 'a MultibodyForces" where
  "CalcForceElementsContribution t ctx pc vc forces =
     (case forces of
        None \<Rightarrow> Inl Aborted
      | Some f \<Rightarrow>
          if \<not> CheckHasRightSizeForModel t f then Inl Aborted
          else AddJointDampingForces t ctx
                 (Some (fold (\<lambda>force_element. force_element ctx pc vc) (owned_force_elements t)
                          (SetZero t f))))"

section \<open>Velocities and time derivatives of the positions\<close>

text \<open>
  Modelled from the spec: \<^verbatim>\<open>Mobilizer::get_positions_from_array\<close> and
  \<^verbatim>\<open>get_velocities_from_array\<close> (declared outside the sources) give the mobilizer's slice
  of a vector of generalized positions or velocities: as many coefficients as the
  mobilizer has, from the start of its slice on.
\<close>

definition get_positions_from_array :: "('a, 'c) Mobilizer \<Rightarrow> 'a VectorX \<Rightarrow> 'a VectorX" where
  "get_positions_from_array mobilizer q =
     take (mobilizer_num_positions mobilizer) (drop (mobilizer_positions_start mobilizer) q)"

definition mobilizer_get_velocities_from_array ::
  "('a, 'c) Mobilizer \<Rightarrow> 'a VectorX \<Rightarrow> 'a VectorX" where
  "mobilizer_get_velocities_from_array mobilizer v =
     take (mobilizer_num_velocities mobilizer) (drop (mobilizer_velocities_start mobilizer) v)"

definition MapQDotToVelocity ::
  "('a, 'c, 'p, 'x) MultibodyTree \<Rightarrow> 'c \<Rightarrow> 'a VectorX \<Rightarrow> 'a VectorX option \<Rightarrow> error + 'a VectorX" where
  "MapQDotToVelocity t ctx qdot v =
     (if length qdot \<noteq> num_positions (topology t) then Inl Aborted
      else (case v of
              None \<Rightarrow> Inl Aborted
            | Some v0 \<Rightarrow>
                if length v0 \<noteq> num_velocities_of t then Inl Aborted
                else Inr (fold (\<lambda>mobilizer v'.
                                  let qdot_mobilizer = get_positions_from_array mobilizer qdot;
                                      v_mobilizer =
                                        mobilizer_MapQDotToVelocity mobilizer ctx qdot_mobilizer
                                  in set_segment (mobilizer_velocities_start mobilizer)
                                       (mobilizer_num_velocities mobilizer) v_mobilizer v')
                            (owned_mobilizers t) v0)))"

definition kMaxQdot :: nat where
  "kMaxQdot = 7"

text \<open>The loop over the mobilizers of \<^verbatim>\<open>MapVelocityToQDot\<close>, with its own demand.\<close>

primrec MapVelocityToQDot_loop ::
  "'c \<Rightarrow> 'a VectorX \<Rightarrow> ('a, 'c) Mobilizer list \<Rightarrow> 'a VectorX \<Rightarrow> error + 'a VectorX" where
  "MapVelocityToQDot_loop ctx v [] qdot = Inr qdot"
| "MapVelocityToQDot_loop ctx v (mobilizer # rest) qdot =
     (let v_mobilizer = mobilizer_get_velocities_from_array mobilizer v
      in if \<not> mobilizer_num_positions mobilizer \<le> kMaxQdot then Inl Aborted
         else MapVelocityToQDot_loop ctx v rest
                (set_segment (mobilizer_positions_start mobilizer)
                   (mobilizer_num_positions mobilizer)
                   (mobilizer_MapVelocityToQDot mobilizer ctx v_mobilizer) qdot))"

definition MapVelocityToQDot ::
  "('a, 'c, 'p, 'x) MultibodyTree \<Rightarrow> 'c \<Rightarrow> 'a VectorX \<Rightarrow> 'a VectorX option \<Rightarrow> error + 'a VectorX" where
  "MapVelocityToQDot t ctx v qdot =
     (if length v \<noteq> num_velocities_of t then Inl Aborted
      else (case qdot of
              None \<Rightarrow> Inl Aborted
            | Some qdot0 \<Rightarrow>
                if length qdot0 \<noteq> num_positions (topology t) then Inl Aborted
                else MapVelocityToQDot_loop ctx v (owned_mobilizers t) qdot0))"

section \<open>Jacobians of points and frames\<close>

text \<open>
  Modelled from the spec: \<^verbatim>\<open>MultibodyTreeTopology::GetKinematicPathToWorld\<close> (its header is
  not part of the sources) gives the ancestor chain from a body up to the world, by level:
  the world comes first and the body's own node last.
\<close>

fun path_from :: "MultibodyTreeTopology \<Rightarrow> nat \<Rightarrow> nat \<Rightarrow> nat list" where
  "path_from topo 0 node = []"
| "path_from topo (Suc k) node =
     path_from topo k (parent_body_node (get_body_node topo node)) @ [node]"

definition GetKinematicPathToWorld :: "MultibodyTreeTopology \<Rightarrow> nat \<Rightarrow> nat list" where
  "GetKinematicPathToWorld topo from_node =
     world_index # path_from topo (level (get_body_node topo from_node)) from_node"

definition setZero :: "'a::zero MatrixX \<Rightarrow> 'a MatrixX" where
  "setZero M = M\<lparr>coeffs := replicate (cols M) (replicate (rows M) 0)\<rparr>"

text \<open>
  The body of the loop over the kinematic path in \<^verbatim>\<open>CalcFrameJacobianExpressedInWorld\<close>:
  the node's block of columns of the angular Jacobian is the rotational part of the
  node's \<^verbatim>\<open>H_PB_W\<close>; in the translational Jacobian the three rows of each point hold the
  translational part of \<^verbatim>\<open>H_PB_W\<close> plus its rotational part crossed with the position of
  the point from the node's body. The cross product and the sums of vectors of three
  coefficients are the formulas of the section on rigid-body dynamics.
\<close>

definition frame_jacobian_node ::
  "('a::ring, 'c, 'p, 'x) MultibodyTree \<Rightarrow> 'p \<Rightarrow> 'a SpatialVector list \<Rightarrow> 'a MatrixX \<Rightarrow> nat
     \<Rightarrow> 'a MatrixX option \<times> 'a MatrixX option \<Rightarrow> 'a MatrixX option \<times> 'a MatrixX option" where
  "frame_jacobian_node t pc H_PB_W_cache p_WQ_list body_node_index J =
     (case J of (Jw_WFq, Jv_WFq) \<Rightarrow>
        (let node_topology = get_body_node (topology t) body_node_index;
             start_index_in_v = mobilizer_velocities_start_in_v node_topology;
             nm = num_mobilizer_velocities node_topology;
             H_PB_W = GetJacobianFromArray node_topology H_PB_W_cache;
             num_points = cols p_WQ_list;
             p_WBi = translation t (get_X_WB t pc body_node_index)
         in (map_option
               (\<lambda>Jw. Jw\<lparr>coeffs :=
                  set_segment start_index_in_v nm (map rotational H_PB_W) (coeffs Jw)\<rparr>)
               Jw_WFq,
             map_option
               (\<lambda>Jv. Jv\<lparr>coeffs :=
                  set_segment start_index_in_v nm
                    (map (\<lambda>H_column.
                            concat (map (\<lambda>ipoint.
                                           let p_WQ = coeffs p_WQ_list ! ipoint;
                                               p_BiQ_W = difference3 p_WQ p_WBi
                                           in sum3 (translational H_column)
                                                (cross (rotational H_column) p_BiQ_W))
                                      [0..<num_points]))
                       H_PB_W)
                    (coeffs Jv)\<rparr>)
               Jv_WFq)))"

definition CalcFrameJacobianExpressedInWorld ::
  "('a::ring, 'c, 'p, 'x) MultibodyTree \<Rightarrow> 'a Uninitialized \<Rightarrow> 'c \<Rightarrow> ('c, 'x) Frame \<Rightarrow> 'a MatrixX
     \<Rightarrow> 'a MatrixX option \<Rightarrow> 'a MatrixX option
     \<Rightarrow> error + 'a MatrixX option \<times> 'a MatrixX option" where
  "CalcFrameJacobianExpressedInWorld t u ctx frame_F p_WQ_list Jw_WFq Jv_WFq =
     (if Jw_WFq = None \<and> Jv_WFq = None then Inl Thrown
      else if (case Jw_WFq of
                 None \<Rightarrow> False
               | Some Jw \<Rightarrow> rows Jw \<noteq> 3 \<or> cols Jw \<noteq> num_velocities_of t)
      then Inl Thrown
      else let num_points = cols p_WQ_list;
               Jv_nrows = 3 * num_points
      in if (case Jv_WFq of
               None \<Rightarrow> False
             | Some Jv \<Rightarrow> rows Jv \<noteq> Jv_nrows \<or> cols Jv \<noteq> num_velocities_of t)
      then Inl Thrown
      else let Jw0 = map_option setZero Jw_WFq;
               Jv0 = map_option setZero Jv_WFq
      in if frame_body_index frame_F = world_index then Inr (Jw0, Jv0)
      else let path_to_world =
                 GetKinematicPathToWorld (topology t) (frame_body_node frame_F);
               pc = EvalPositionKinematics t ctx
      in case CalcAcrossNodeGeometricJacobianExpressedInWorld t ctx pc
                (Some (map (fresh_H_PB_W u) [0..<num_velocities_of t])) of
           Inl e \<Rightarrow> Inl e
         | Inr H_PB_W_cache \<Rightarrow>
             Inr (fold (\<lambda>ilevel.
                          frame_jacobian_node t pc H_PB_W_cache p_WQ_list (path_to_world ! ilevel))
                    [1..<length path_to_world] (Jw0, Jv0)))"

text \<open>
  The two functions \<^verbatim>\<open>CalcPointsGeometricJacobianExpressedInWorld\<close>: the one that is given
  the positions of the points in the world (here with the suffix \<open>_p_WQ\<close>), and the one
  that is given them in the frame and computes the positions in the world first.
\<close>

definition CalcPointsGeometricJacobianExpressedInWorld_p_WQ ::
  "('a::ring, 'c, 'p, 'x) MultibodyTree \<Rightarrow> 'a Uninitialized \<Rightarrow> 'c \<Rightarrow> ('c, 'x) Frame \<Rightarrow> 'a MatrixX
     \<Rightarrow> 'a MatrixX option \<Rightarrow> error + 'a MatrixX" where
  "CalcPointsGeometricJacobianExpressedInWorld_p_WQ t u ctx frame_F p_WQ_list Jv_WFq =
     (if rows p_WQ_list \<noteq> 3 then Inl Thrown
      else let num_points = cols p_WQ_list
      in case Jv_WFq of
           None \<Rightarrow> Inl Thrown
         | Some Jv \<Rightarrow>
             if rows Jv \<noteq> 3 * num_points then Inl Thrown
             else if cols Jv \<noteq> num_velocities_of t then Inl Thrown
             else (case CalcFrameJacobianExpressedInWorld t u ctx frame_F p_WQ_list None
                          (Some Jv) of
                     Inl e \<Rightarrow> Inl e
                   | Inr (Jw', Jv') \<Rightarrow> (case Jv' of Some J \<Rightarrow> Inr J | None \<Rightarrow> Inr Jv)))"

definition CalcPointsGeometricJacobianExpressedInWorld ::
  "('a::ring, 'c, 'p, 'x) MultibodyTree \<Rightarrow> 'a Uninitialized \<Rightarrow> 'c \<Rightarrow> ('c, 'x) Frame \<Rightarrow> 'a MatrixX
     \<Rightarrow> 'a MatrixX option \<Rightarrow> 'a MatrixX option \<Rightarrow> error + 'a MatrixX \<times> 'a MatrixX" where
  "CalcPointsGeometricJacobianExpressedInWorld t u ctx frame_B p_BQi_set p_WQi_set Jv_WQi =
     (if rows p_BQi_set \<noteq> 3 then Inl Thrown
      else let num_points = cols p_BQi_set
      in case p_WQi_set of
           None \<Rightarrow> Inl Thrown
         | Some p_WQi \<Rightarrow>
             if cols p_WQi \<noteq> num_points then Inl Thrown
             else (case Jv_WQi of
                     None \<Rightarrow> Inl Thrown
                   | Some Jv \<Rightarrow>
                       if rows Jv \<noteq> 3 * num_points then Inl Thrown
                       else if cols Jv \<noteq> num_velocities_of t then Inl Thrown
                       else (case CalcPointsPositions t ctx frame_B p_BQi_set (world_frame t)
                                    (Some p_WQi) of
                               Inl e \<Rightarrow> Inl e
                             | Inr p_WQi' \<Rightarrow>
                                 (case CalcPointsGeometricJacobianExpressedInWorld_p_WQ t u ctx
                                         frame_B p_WQi' (Some Jv) of
                                    Inl e \<Rightarrow> Inl e
                                  | Inr Jv' \<Rightarrow> Inr (p_WQi', Jv')))))"

text \<open>
  \<^verbatim>\<open>CalcFrameGeometricJacobianExpressedInWorld\<close>: the position of the point in the world
  into a fresh vector of three coefficients, then the angular and the translational
  Jacobian into the three top rows and the three bottom rows of the output.
\<close>

definition CalcFrameGeometricJacobianExpressedInWorld ::
  "('a::ring, 'c, 'p, 'x) MultibodyTree \<Rightarrow> 'a Uninitialized \<Rightarrow> 'c \<Rightarrow> ('c, 'x) Frame \<Rightarrow> 'a list
     \<Rightarrow> 'a MatrixX option \<Rightarrow> error + 'a MatrixX" where
  "CalcFrameGeometricJacobianExpressedInWorld t u ctx frame_F p_FQ Jv_WFq =
     (case Jv_WFq of
        None \<Rightarrow> Inl Thrown
      | Some Jv \<Rightarrow>
          if rows Jv \<noteq> 6 then Inl Thrown
          else if cols Jv \<noteq> num_velocities_of t then Inl Thrown
          else (case CalcPointsPositions t ctx frame_F \<lparr>rows = 3, cols = 1, coeffs = [p_FQ]\<rparr>
                       (world_frame t)
                       (Some \<lparr>rows = 3, cols = 1, coeffs = [fresh_p_WoQ_W u]\<rparr>) of
                  Inl e \<Rightarrow> Inl e
                | Inr p_WoQ_W \<Rightarrow>
                    (let Jv_WFq_angular =
                           \<lparr>rows = 3, cols = cols Jv, coeffs = map (take 3) (coeffs Jv)\<rparr>;
                         Jv_WFq_translational =
                           \<lparr>rows = 3, cols = cols Jv, coeffs = map (drop 3) (coeffs Jv)\<rparr>
                     in case CalcFrameJacobianExpressedInWorld t u ctx frame_F p_WoQ_W
                               (Some Jv_WFq_angular) (Some Jv_WFq_translational) of
                          Inl e \<Rightarrow> Inl e
                        | Inr (Jw', Jv') \<Rightarrow>
                            (case (Jw', Jv') of
                               (Some top_rows, Some bottom_rows) \<Rightarrow>
                                 Inr (Jv\<lparr>coeffs :=
                                        map2 (@) (coeffs top_rows) (coeffs bottom_rows)\<rparr>)
                             | _ \<Rightarrow> Inr Jv))))"

text \<open>
  \<^verbatim>\<open>CalcBiasForPointsGeometricJacobianExpressedInWorld\<close>: the spatial accelerations for zero
  generalized accelerations, then for each point the acceleration of the frame's body
  shifted to the point, of which the translational part is put out. The shift is the
  formula of the section on rigid-body dynamics.
\<close>

definition CalcBiasForPointsGeometricJacobianExpressedInWorld ::
  "('a::ring, 'c, 'p, 'x) MultibodyTree \<Rightarrow> 'a Uninitialized \<Rightarrow> 'c \<Rightarrow> ('c, 'x) Frame \<Rightarrow> 'a MatrixX
     \<Rightarrow> error + 'a VectorX" where
  "CalcBiasForPointsGeometricJacobianExpressedInWorld t u ctx frame_F p_FQ_list =
     (if rows p_FQ_list \<noteq> 3 then Inl Thrown
      else let pc = EvalPositionKinematics t ctx;
               vc = EvalVelocityKinematics t ctx;
               A_WB_array = map (fresh_A_WB u) [0..<num_bodies t];
               vdot = Zero (num_velocities_of t)
      in case CalcSpatialAccelerationsFromVdot t ctx pc vc vdot (Some A_WB_array) of
           Inl e \<Rightarrow> Inl e
         | Inr A_WB_array' \<Rightarrow>
             (let Ab_WB = A_WB_array' ! frame_body_node frame_F;
                  num_points = cols p_FQ_list
              in Inr (concat (map (\<lambda>ipoint.
                                     let p_FQi = coeffs p_FQ_list ! ipoint;
                                         X_WB = get_X_WB t pc (frame_body_node frame_F);
                                         X_BF = GetFixedPoseInBodyFrame frame_F;
                                         p_BQi = transform_point t X_BF p_FQi;
                                         p_BQi_W = rotate t X_WB p_BQi;
                                         w_WB = rotational (get_V_WB vc (frame_body_node frame_F));
                                         Ab_WBq = ShiftAcceleration Ab_WB p_BQi_W w_WB
                                     in translational Ab_WBq)
                                [0..<num_points]))))"

section \<open>Well-formed topologies\<close>

text \<open>
  What the topology of a finalized tree satisfies: there is a world, at level 0; bodies and
  nodes are as many; every other node comes after its parent, one level below it and
  within the height of the tree; and the nodes' segments of the generalized velocities
  lie within the vector, do not overlap and cover it.
\<close>

definition segment_of :: "MultibodyTreeTopology \<Rightarrow> nat \<Rightarrow> nat set" where
  "segment_of topo i =
     {mobilizer_velocities_start_in_v (get_body_node topo i) ..<
      mobilizer_velocities_start_in_v (get_body_node topo i)
        + num_mobilizer_velocities (get_body_node topo i)}"

definition topology_ok :: "MultibodyTreeTopology \<Rightarrow> bool" where
  "topology_ok topo \<longleftrightarrow>
     0 < get_num_body_nodes topo \<and>
     length (bodies topo) = get_num_body_nodes topo \<and>
     level (get_body_node topo 0) = 0 \<and>
     (\<forall>i \<in> {1..<get_num_body_nodes topo}.
        parent_body_node (get_body_node topo i) < i \<and>
        level (get_body_node topo i) = Suc (level (get_body_node topo (parent_body_node (get_body_node topo i)))) \<and>
        level (get_body_node topo i) < tree_height topo \<and>
        segment_of topo i \<subseteq> {0..<num_velocities topo}) \<and>
     (\<forall>i \<in> {1..<get_num_body_nodes topo}. \<forall>j \<in> {1..<get_num_body_nodes topo}.
        i \<noteq> j \<longrightarrow> segment_of topo i \<inter> segment_of topo j = {}) \<and>
     (\<forall>k \<in> {0..<num_velocities topo}. \<exists>i \<in> {1..<get_num_body_nodes topo}. k \<in> segment_of topo i)"

section \<open>Relating two runs of the inverse dynamics\<close>

text \<open>
  Two runs of the tip-to-base sweep, each with its own store and its own addresses for
  the outputs (\<open>F\<close>, \<open>tau\<close>) and for the applied forces (\<open>Fa\<close>, \<open>ta\<close>), are compared
  through the set \<open>P\<close> of the nodes already visited: the outputs have the sizes of the
  tree and agree at the visited nodes and on their segments; the applied forces still
  agree at the nodes to come and on their segments.
\<close>

definition outputs_agree ::
  "MultibodyTreeTopology \<Rightarrow> nat set \<Rightarrow> nat \<Rightarrow> nat \<Rightarrow> 'a Heap \<Rightarrow> nat \<Rightarrow> nat \<Rightarrow> 'a Heap \<Rightarrow> bool" where
  "outputs_agree topo P F1 tau1 h1 F2 tau2 h2 \<longleftrightarrow>
     length (force_arrays h1 F1) = get_num_body_nodes topo \<and>
     length (force_arrays h2 F2) = get_num_body_nodes topo \<and>
     length (vectors h1 tau1) = num_velocities topo \<and>
     length (vectors h2 tau2) = num_velocities topo \<and>
     (\<forall>c \<in> P. force_arrays h1 F1 ! c = force_arrays h2 F2 ! c \<and>
        (\<forall>k \<in> segment_of topo c. vectors h1 tau1 ! k = vectors h2 tau2 ! k))"

definition inputs_agree ::
  "MultibodyTreeTopology \<Rightarrow> nat set \<Rightarrow> nat \<Rightarrow> nat \<Rightarrow> nat \<Rightarrow> nat \<Rightarrow> 'a Heap \<Rightarrow> nat \<Rightarrow> nat \<Rightarrow> 'a Heap
     \<Rightarrow> bool" where
  "inputs_agree topo P Fs ts Fa1 ta1 h1 Fa2 ta2 h2 \<longleftrightarrow>
     (Fs \<noteq> 0 \<longrightarrow>
        (\<forall>i \<in> {1..<get_num_body_nodes topo} - P.
           force_arrays h1 Fa1 ! i = force_arrays h2 Fa2 ! i)) \<and>
     (ts \<noteq> 0 \<longrightarrow>
        length (vectors h1 ta1) = num_velocities topo \<and>
        length (vectors h2 ta2) = num_velocities topo \<and>
        (\<forall>i \<in> {1..<get_num_body_nodes topo} - P. \<forall>k \<in> segment_of topo i.
           vectors h1 ta1 ! k = vectors h2 ta2 ! k))"

text \<open>The nodes other than the world at level \<open>k\<close> or deeper, and the world with the
  nodes above level \<open>k\<close>.\<close>

definition nodes_from :: "MultibodyTreeTopology \<Rightarrow> nat \<Rightarrow> nat set" where
  "nodes_from topo k =
     {i \<in> {1..<get_num_body_nodes topo}. k \<le> level (get_body_node topo i)}"

definition nodes_above :: "MultibodyTreeTopology \<Rightarrow> nat \<Rightarrow> nat set" where
  "nodes_above topo k =
     insert 0 {i \<in> {1..<get_num_body_nodes topo}. level (get_body_node topo i) < k}"

text \<open>A state of the tip-to-base sweep whose store holds nothing but an output array of
  \<open>n\<close> forces and an output vector of \<open>m\<close> coefficients.\<close>

definition local_state ::
  "nat \<Rightarrow> nat \<Rightarrow> 'a VectorX \<times> 'a SpatialVector \<times> 'a Heap \<Rightarrow> bool" where
  "local_state n m st \<longleftrightarrow>
     (\<exists>F tau. snd (snd st) = local_heap F tau \<and> length F = n \<and> length tau = m)"


section \<open>The mass matrix of the rigid-body formulas\<close>

text \<open>
  The pairing of a spatial velocity or acceleration with a spatial force: the sum of the
  products of their coefficients.
\<close>

definition dot6 :: "'a::ring SpatialVector \<Rightarrow> 'a SpatialVector \<Rightarrow> 'a" where
  "dot6 X Y = sum_list (map (\<lambda>r. X ! r * Y ! r) [0..<6])"

text \<open>
  One pass of the tip-to-base loop at a node when no forces are applied, on the output
  array and the output vector alone, and the loops over the levels: what
  \<^verbatim>\<open>CalcInverseDynamics\<close> does to a store that holds nothing but its outputs.
\<close>

definition force_pass ::
  "('a::zero, 'c, 'p, 'x) MultibodyTree \<Rightarrow> 'c \<Rightarrow> 'p \<Rightarrow> 'a VelocityKinematicsCache
     \<Rightarrow> 'a SpatialVector list \<Rightarrow> nat \<Rightarrow> 'a SpatialVector list \<times> 'a VectorX
     \<Rightarrow> 'a SpatialVector list \<times> 'a VectorX" where
  "force_pass t ctx pc vc A i st =
     (case st of (F, tau) \<Rightarrow>
        (let nt = get_body_node (topology t) i;
             F_BMo_W = newton_euler_force t i ctx pc vc (A ! i)
                         (map (\<lambda>c. F ! c) (child_nodes t i)) Zero6
         in (F[i := F_BMo_W],
             set_segment (mobilizer_velocities_start_in_v nt) (num_mobilizer_velocities nt)
               (project_force t i ctx pc F_BMo_W []) tau)))"

definition force_sweep ::
  "('a::zero, 'c, 'p, 'x) MultibodyTree \<Rightarrow> 'c \<Rightarrow> 'p \<Rightarrow> 'a VelocityKinematicsCache
     \<Rightarrow> 'a SpatialVector list \<Rightarrow> nat list \<Rightarrow> 'a SpatialVector list \<times> 'a VectorX
     \<Rightarrow> 'a SpatialVector list \<times> 'a VectorX" where
  "force_sweep t ctx pc vc A depths st =
     fold (\<lambda>depth. fold (force_pass t ctx pc vc A) (body_node_levels t ! depth)) depths st"




text \<open>
  What the statement on the symmetry of the mass matrix asks of the model in a context: the
  bias of the time derivative of every Jacobian under the generalized velocities of the
  context vanishes (as it does when the velocities are zero, or when the Jacobians do not
  change with the motion); every Jacobian has one column for each generalized velocity of
  its node; every spatial inertia is a symmetric matrix.
\<close>

definition no_jacobian_bias ::
  "MultibodyTreeTopology \<Rightarrow> ('a::ring, 'c, 'p) RigidBodyModel \<Rightarrow> 'c \<Rightarrow> 'p \<Rightarrow> bool" where
  "no_jacobian_bias topo m ctx pc \<longleftrightarrow>
     (\<forall>i \<in> {1..<get_num_body_nodes topo}.
        columns_times (Hdot_PB_W m i ctx pc)
          (get_velocities_from_array (get_body_node topo i) (generalized_velocities m ctx))
        = Zero6)"






section \<open>A chain of two bodies\<close>

text \<open>
  A tree for concrete evaluations: the world, a body on the world and a body on that
  body, each with one generalized velocity. Scalars are integers; the per-node
  computations are sums, so that every output shows which inputs it was computed from.
\<close>

definition chain_topology :: MultibodyTreeTopology where
  "chain_topology =
     \<lparr>is_valid = True,
      bodies = [\<lparr>body_node = 0\<rparr>, \<lparr>body_node = 1\<rparr>, \<lparr>body_node = 2\<rparr>],
      body_nodes =
        [\<lparr>level = 0, parent_body_node = 0, num_mobilizer_velocities = 0,
          mobilizer_velocities_start_in_v = 0\<rparr>,
         \<lparr>level = 1, parent_body_node = 0, num_mobilizer_velocities = 1,
          mobilizer_velocities_start_in_v = 0\<rparr>,
         \<lparr>level = 2, parent_body_node = 1, num_mobilizer_velocities = 1,
          mobilizer_velocities_start_in_v = 1\<rparr>],
      tree_height = 3,
      num_velocities = 2,
      num_positions = 2\<rparr>"

definition chain :: "(int, unit, unit, nat) MultibodyTree" where
  "chain =
     \<lparr>topology = chain_topology,
      gravity_field = None,
      EvalPositionKinematics = (\<lambda>_. ()),
      EvalVelocityKinematics = (\<lambda>_. [[0, 0, 1, 0, 0, 0], [0, 0, 1, 0, 0, 0], [0, 0, 2, 0, 0, 0]]),
      get_X_WB = (\<lambda>_ i. 10 + i),
      Identity = 0,
      across_node_acceleration =
        (\<lambda>i _ _ vc vdot_node A_WP. map (\<lambda>a. a + sum_list vdot_node + sum_list (vc ! i)) A_WP),
      newton_euler_force =
        (\<lambda>i _ _ vc A_WB F_children Fapplied.
           map (\<lambda>k. int i * (A_WB ! k) + sum_list (map (\<lambda>F. F ! k) F_children) - Fapplied ! k)
             [0..<6]),
      project_force = (\<lambda>i _ _ F tau_applied. [F ! 2 - sum_list tau_applied]),
      across_node_jacobian = (\<lambda>i _ _. [[0, 0, 1, 0, 0, 0]]),
      across_node_velocity = (\<lambda>i _ _ H V_WP. map (\<lambda>k. V_WP ! k + H ! 0 ! k) [0..<6]),
      isometry_product = (\<lambda>X Y. X + Y),
      isometry_inverse = (\<lambda>X. X),
      transform_point = (\<lambda>X p. map (\<lambda>a. a + int X) p),
      translation = (\<lambda>X. [int X, 0, 0]),
      rotate = (\<lambda>X p. p),
      world_frame =
        \<lparr>frame_body_index = 0, frame_body_node = 0, CalcPoseInBodyFrame = (\<lambda>_. 0),
         GetFixedPoseInBodyFrame = 0\<rparr>,
      position_kinematics_node = (\<lambda>i _ pc. pc),
      articulated_body_inertia_node = (\<lambda>i _ _ H abc. abc[i := H]),
      owned_mobilizers =
        [\<lparr>mobilizer_num_positions = 1, mobilizer_positions_start = 0,
          mobilizer_num_velocities = 1, mobilizer_velocities_start = 0,
          mobilizer_MapQDotToVelocity = (\<lambda>_ qdot. qdot),
          mobilizer_MapVelocityToQDot = (\<lambda>_ v. v)\<rparr>,
         \<lparr>mobilizer_num_positions = 1, mobilizer_positions_start = 1,
          mobilizer_num_velocities = 1, mobilizer_velocities_start = 1,
          mobilizer_MapQDotToVelocity = (\<lambda>_ qdot. qdot),
          mobilizer_MapVelocityToQDot = (\<lambda>_ v. v)\<rparr>],
      owned_force_elements = [],
      owned_joints = [],
      CheckHasRightSizeForModel =
        (\<lambda>forces. length (body_forces forces) = 3 \<and> length (generalized_forces forces) = 2),
      SetZero =
        (\<lambda>forces. \<lparr>body_forces = replicate 3 (replicate 6 0),
                     generalized_forces = replicate 2 0\<rparr>)\<rparr>"

definition chain_fresh :: "int Uninitialized" where
  "chain_fresh =
     \<lparr>fresh_A_WB = (\<lambda>i. replicate 6 (7 + int i)),
      fresh_F_BMo_W = (\<lambda>i. replicate 6 (11 + int i)),
      fresh_tau = (\<lambda>k. 13 + int k),
      fresh_H_PB_W = (\<lambda>k. replicate 6 (17 + int k)),
      fresh_p_WoQ_W = [19, 19, 19]\<rparr>"

text \<open>A store for the chain: applied forces (an array of spatial forces and a vector of
  generalized forces) at one address, and separate output buffers at another.\<close>

definition applied :: nat where
  "applied = 2"

definition separate :: nat where
  "separate = 3"

definition chain_heap :: "int Heap" where
  "chain_heap =
     \<lparr>force_arrays =
        (\<lambda>_. [])(applied := [[1, 1, 1, 1, 1, 1], [3, 3, 3, 3, 3, 3], [4, 4, 4, 4, 4, 4]],
                  separate := [[0, 0, 0, 0, 0, 0], [0, 0, 0, 0, 0, 0], [0, 0, 0, 0, 0, 0]]),
      vectors = (\<lambda>_. [])(applied := [5, 7], separate := [0, 0])\<rparr>"

text \<open>The outputs of a run of \<^verbatim>\<open>CalcInverseDynamics\<close>, read from the store it returns.\<close>

definition spatial_forces_at ::
  "nat \<Rightarrow> error + 'a SpatialVector list \<times> 'a Heap \<Rightarrow> error + 'a SpatialVector list" where
  "spatial_forces_at F r = (case r of Inl e \<Rightarrow> Inl e | Inr (A, h) \<Rightarrow> Inr (force_arrays h F))"

definition generalized_forces_at ::
  "nat \<Rightarrow> error + 'a SpatialVector list \<times> 'a Heap \<Rightarrow> error + 'a VectorX" where
  "generalized_forces_at tau r = (case r of Inl e \<Rightarrow> Inl e | Inr (A, h) \<Rightarrow> Inr (vectors h tau))"

definition chain_frame :: "(unit, nat) Frame" where
  "chain_frame =
     \<lparr>frame_body_index = 1, frame_body_node = 1, CalcPoseInBodyFrame = (\<lambda>_. 0),
      GetFixedPoseInBodyFrame = 0\<rparr>"

section \<open>A double pendulum\<close>

text \<open>
  The chain of two bodies with the rigid-body formulas: each body turns about the z axis;
  the first is offset from the world along x, the second from the first along y, and each
  has unit mass at unit distance along x from its origin. The context is the vector of
  generalized velocities.
\<close>

definition pendulum_model :: "(int, int list, unit) RigidBodyModel" where
  "pendulum_model =
     \<lparr>generalized_velocities = (\<lambda>v. v),
      H_PB_W = (\<lambda>i _ _. [[0, 0, 1, 0, 0, 0]]),
      Hdot_PB_W = (\<lambda>i _ _. [[0, 0, 0, 0, 0, 0]]),
      p_PB_W = (\<lambda>i _. if i = 1 then [1, 0, 0] else [0, 1, 0]),
      M_B_W = (\<lambda>i _. [[2, 0, 0, 0, 0, 0], [0, 3, 0, 0, 0, - 1], [0, 0, 3, 0, 1, 0],
                         [0, 0, 0, 1, 0, 0], [0, 0, 1, 0, 1, 0], [0, - 1, 0, 0, 0, 1]])\<rparr>"

definition pendulum_nodes :: "(int, int list, unit, nat) MultibodyTree" where
  "pendulum_nodes =
     \<lparr>topology = chain_topology,
      gravity_field = None,
      EvalPositionKinematics = (\<lambda>_. ()),
      EvalVelocityKinematics = (\<lambda>_. []),
      get_X_WB = (\<lambda>_ i. i),
      Identity = 0,
      across_node_acceleration = node_acceleration chain_topology pendulum_model,
      newton_euler_force = node_force chain_topology pendulum_model,
      project_force = node_projection chain_topology pendulum_model,
      across_node_jacobian = H_PB_W pendulum_model,
      across_node_velocity = node_velocity chain_topology pendulum_model,
      isometry_product = (\<lambda>X Y. X + Y),
      isometry_inverse = (\<lambda>X. X),
      transform_point = (\<lambda>X p. p),
      translation = (\<lambda>X. [0, 0, 0]),
      rotate = (\<lambda>X p. p),
      world_frame =
        \<lparr>frame_body_index = 0, frame_body_node = 0, CalcPoseInBodyFrame = (\<lambda>_. 0),
         GetFixedPoseInBodyFrame = 0\<rparr>,
      position_kinematics_node = (\<lambda>i _ pc. pc),
      articulated_body_inertia_node = (\<lambda>i _ _ H abc. abc),
      owned_mobilizers = [],
      owned_force_elements = [],
      owned_joints = [],
      CheckHasRightSizeForModel =
        (\<lambda>forces. length (body_forces forces) = 3 \<and> length (generalized_forces forces) = 2),
      SetZero =
        (\<lambda>forces. \<lparr>body_forces = replicate 3 (replicate 6 0),
                     generalized_forces = replicate 2 0\<rparr>)\<rparr>"

definition pendulum :: "(int, int list, unit, nat) MultibodyTree" where
  "pendulum =
     pendulum_nodes
       \<lparr>EvalVelocityKinematics :=
          (\<lambda>v. case CalcVelocityKinematicsCache pendulum_nodes chain_fresh v ()
                      (Some (InitializeToZero chain_topology)) of
                 Inl e \<Rightarrow> []
               | Inr V \<Rightarrow> V)\<rparr>"

section \<open>A tree whose Jacobian changes with the motion\<close>




section \<open>Filling the outputs from the caches\<close>

lemma fill_from_cache_all:
  "length out = length (bodies topo) \<Longrightarrow> k \<le> length (bodies topo) \<Longrightarrow>
   fill_from_cache topo entry k out =
     Inr (take k out @ map (\<lambda>b. entry (body_node (bodies topo ! b))) [k..<length (bodies topo)])"
proof (induction topo entry k out rule: fill_from_cache.induct)
  case (1 topo entry body_index out)
  show ?case
  proof (cases "body_index < length (bodies topo)")
    case True
    have put: "at_put out body_index (entry (body_node (bodies topo ! body_index)))
                 = Inr (out[body_index := entry (body_node (bodies topo ! body_index))])"
      using True "1.prems" by (simp add: at_put_def)
    have "fill_from_cache topo entry body_index out =
            fill_from_cache topo entry (Suc body_index)
              (out[body_index := entry (body_node (bodies topo ! body_index))])"
      using True put by (subst fill_from_cache.simps) simp
    also have "\<dots> = Inr (take (Suc body_index) (out[body_index := entry (body_node (bodies topo ! body_index))])
                        @ map (\<lambda>b. entry (body_node (bodies topo ! b))) [Suc body_index..<length (bodies topo)])"
      using "1.IH"[OF True put] True "1.prems" by simp
    also have "take (Suc body_index) (out[body_index := entry (body_node (bodies topo ! body_index))])
                 = take body_index out @ [entry (body_node (bodies topo ! body_index))]"
      using True "1.prems" by (simp add: take_Suc_conv_app_nth)
    finally show ?thesis
      using True by (simp add: upt_conv_Cons)
  next
    case False
    then show ?thesis using "1.prems" by (subst fill_from_cache.simps) simp
  qed
qed

lemma length_resize_vector: "length (resize_vector n v xs) = n"
  by (simp add: resize_vector_def)


section \<open>The levels of the tree\<close>

lemma length_fold_push_back_level:
  "length (fold (push_back_level topo) ns levels) = length levels"
  by (induction ns arbitrary: levels) (simp_all add: push_back_level_def)

lemma nth_fold_push_back_level:
  "d < length levels \<Longrightarrow>
   fold (push_back_level topo) ns levels ! d =
     levels ! d @ filter (\<lambda>i. level (get_body_node topo i) = d) ns"
proof (induction ns arbitrary: levels)
  case Nil
  then show ?case by simp
next
  case (Cons n ns)
  have "d < length (push_back_level topo n levels)"
    using Cons.prems by (simp add: push_back_level_def)
  from Cons.IH[OF this] show ?case
    using Cons.prems by (auto simp: push_back_level_def nth_list_update)
qed

lemma body_node_levels_nth:
  "d < tree_height (topology t) \<Longrightarrow>
   body_node_levels t ! d =
     filter (\<lambda>i. level (get_body_node (topology t) i) = d) [1..<get_num_body_nodes (topology t)]"
  by (simp add: body_node_levels_def nth_fold_push_back_level)

lemma body_node_levels_set:
  "d < tree_height (topology t) \<Longrightarrow>
   set (body_node_levels t ! d) =
     {i \<in> {1..<get_num_body_nodes (topology t)}. level (get_body_node (topology t) i) = d}"
  by (auto simp: body_node_levels_nth)

lemma body_node_levels_distinct:
  "d < tree_height (topology t) \<Longrightarrow> distinct (body_node_levels t ! d)"
  by (simp add: body_node_levels_nth)

lemma BaseToTip_length [simp]:
  "length (CalcSpatialAcceleration_BaseToTip t ctx pc vc vdot i A) = length A"
  by (simp add: CalcSpatialAcceleration_BaseToTip_def Let_def)

lemma BaseToTip_other:
  "j \<noteq> i \<Longrightarrow> CalcSpatialAcceleration_BaseToTip t ctx pc vc vdot i A ! j = A ! j"
  by (simp add: CalcSpatialAcceleration_BaseToTip_def Let_def)

lemma fold_BaseToTip_length [simp]:
  "length (fold (CalcSpatialAcceleration_BaseToTip t ctx pc vc vdot) ns A) = length A"
  by (induction ns arbitrary: A) simp_all

lemma fold_BaseToTip_other:
  "j \<notin> set ns \<Longrightarrow> fold (CalcSpatialAcceleration_BaseToTip t ctx pc vc vdot) ns A ! j = A ! j"
  by (induction ns arbitrary: A) (simp_all add: BaseToTip_other)

lemma acceleration_sweep_length [simp]:
  "length (acceleration_sweep t ctx pc vc vdot ds A) = length A"
  unfolding acceleration_sweep_def by (induction ds arbitrary: A) simp_all

lemma acceleration_sweep_world:
  "\<forall>d \<in> set ds. d < tree_height (topology t) \<Longrightarrow>
   acceleration_sweep t ctx pc vc vdot ds A ! 0 = A ! 0"
  unfolding acceleration_sweep_def
proof (induction ds arbitrary: A)
  case Nil
  then show ?case by simp
next
  case (Cons d ds)
  have "0 \<notin> set (body_node_levels t ! d)"
    using Cons.prems by (simp add: body_node_levels_set)
  then show ?case using Cons by (simp add: fold_BaseToTip_other)
qed


section \<open>One node of the tip-to-base sweep, in two runs\<close>

lemma length_set_segment [simp]: "length (set_segment s n vals xs) = length xs"
  by (simp add: set_segment_def)

lemma nth_set_segment:
  "k < length xs \<Longrightarrow>
   set_segment s n vals xs ! k = (if s \<le> k \<and> k < s + n then vals ! (k - s) else xs ! k)"
  by (simp add: set_segment_def)

lemma segment_eqI:
  assumes "length v = length w"
    and "\<And>k. s \<le> k \<Longrightarrow> k < s + n \<Longrightarrow> k < length v \<Longrightarrow> v ! k = w ! k"
  shows "take n (drop s v) = take n (drop s w)"
proof (rule nth_equalityI)
  show "length (take n (drop s v)) = length (take n (drop s w))"
    using assms(1) by simp
next
  fix i assume "i < length (take n (drop s v))"
  then have "i < n" "s + i < length v" by auto
  then show "take n (drop s v) ! i = take n (drop s w) ! i"
    using assms by simp
qed

lemma topology_ok_segment:
  "topology_ok topo \<Longrightarrow> i \<in> {1..<get_num_body_nodes topo} \<Longrightarrow>
   segment_of topo i \<subseteq> {0..<num_velocities topo}"
  unfolding topology_ok_def by blast

lemma topology_ok_disjoint:
  "topology_ok topo \<Longrightarrow> i \<in> {1..<get_num_body_nodes topo} \<Longrightarrow>
   j \<in> {1..<get_num_body_nodes topo} \<Longrightarrow> i \<noteq> j \<Longrightarrow> k \<in> segment_of topo i \<Longrightarrow>
   k \<notin> segment_of topo j"
  unfolding topology_ok_def by blast

lemma in_segment_iff:
  "k \<in> segment_of topo i \<longleftrightarrow>
     mobilizer_velocities_start_in_v (get_body_node topo i) \<le> k \<and>
     k < mobilizer_velocities_start_in_v (get_body_node topo i)
           + num_mobilizer_velocities (get_body_node topo i)"
  by (simp add: segment_of_def)

lemma nth_set_segment_of:
  "k < length xs \<Longrightarrow>
   set_segment (mobilizer_velocities_start_in_v (get_body_node topo i))
     (num_mobilizer_velocities (get_body_node topo i)) vals xs ! k =
   (if k \<in> segment_of topo i
    then vals ! (k - mobilizer_velocities_start_in_v (get_body_node topo i)) else xs ! k)"
  by (simp add: nth_set_segment in_segment_iff)

lemma inverse_dynamics_node_agree:
  fixes t :: "('a, 'c, 'p, 'x) MultibodyTree" and h1 h2 :: "'a Heap"
  assumes ok: "topology_ok (topology t)"
    and i: "i \<in> {1..<get_num_body_nodes (topology t)}" "i \<notin> P"
    and ch: "set (child_nodes t i) \<subseteq> P"
    and P: "P \<subseteq> {1..<get_num_body_nodes (topology t)}"
    and out: "outputs_agree (topology t) P F1 tau1 h1 F2 tau2 h2"
    and inp: "inputs_agree (topology t) P Fs ts Fa1 ta1 h1 Fa2 ta2 h2"
    and s1: "inverse_dynamics_node t ctx pc vc A Fa1 ta1 F1 tau1 Fs ts i (tam, Fa, h1)
               = (tam1, Fb1, h1')"
    and s2: "inverse_dynamics_node t ctx pc vc A Fa2 ta2 F2 tau2 Fs ts i (tam, Fa, h2)
               = (tam2, Fb2, h2')"
  shows "tam1 = tam2 \<and> Fb1 = Fb2
         \<and> outputs_agree (topology t) (insert i P) F1 tau1 h1' F2 tau2 h2'
         \<and> inputs_agree (topology t) (insert i P) Fs ts Fa1 ta1 h1' Fa2 ta2 h2'"
proof -
  let ?topo = "topology t"
  let ?nt = "get_body_node ?topo i"
  let ?n = "get_num_body_nodes ?topo"
  let ?s = "mobilizer_velocities_start_in_v ?nt"
  let ?m = "num_mobilizer_velocities ?nt"
  have seg: "segment_of ?topo i \<subseteq> {0..<num_velocities ?topo}"
    using ok i(1) by (rule topology_ok_segment)
  have len: "length (force_arrays h1 F1) = ?n" "length (force_arrays h2 F2) = ?n"
    "length (vectors h1 tau1) = num_velocities ?topo"
    "length (vectors h2 tau2) = num_velocities ?topo"
    using out by (simp_all add: outputs_agree_def)
  have tam_eq: "tam1 = tam2"
  proof (cases "ts = 0")
    case True
    then show ?thesis using s1 s2 by (simp add: inverse_dynamics_node_def Let_def)
  next
    case False
    have l: "length (vectors h1 ta1) = length (vectors h2 ta2)"
      using inp False by (simp add: inputs_agree_def)
    have "take ?m (drop ?s (vectors h1 ta1)) = take ?m (drop ?s (vectors h2 ta2))"
    proof (rule segment_eqI[OF l])
      fix k assume "?s \<le> k" "k < ?s + ?m"
      then have "k \<in> segment_of ?topo i" by (simp add: in_segment_iff)
      then show "vectors h1 ta1 ! k = vectors h2 ta2 ! k"
        using inp False i unfolding inputs_agree_def by blast
    qed
    then show ?thesis
      using s1 s2 False
      by (simp add: inverse_dynamics_node_def Let_def get_generalized_forces_from_array_def)
  qed
  have Fb_eq: "Fb1 = Fb2"
  proof (cases "Fs = 0")
    case True
    then show ?thesis using s1 s2 by (simp add: inverse_dynamics_node_def Let_def)
  next
    case False
    then have "force_arrays h1 Fa1 ! i = force_arrays h2 Fa2 ! i"
      using inp i unfolding inputs_agree_def by blast
    then show ?thesis using s1 s2 False by (simp add: inverse_dynamics_node_def Let_def)
  qed
  have ch_eq: "map (\<lambda>c. force_arrays h1 F1 ! c) (child_nodes t i)
                 = map (\<lambda>c. force_arrays h2 F2 ! c) (child_nodes t i)"
    using ch out by (auto simp: outputs_agree_def)
  define Fnew where
    "Fnew = newton_euler_force t i ctx pc vc (A ! i)
              (map (\<lambda>c. force_arrays h1 F1 ! c) (child_nodes t i)) Fb1"
  define taunew where "taunew = project_force t i ctx pc Fnew tam1"
  have r1: "h1' = CalcInverseDynamics_TipToBase t ctx pc vc A Fb1 tam1 F1 tau1 i h1"
    using s1 by (cases "ts = 0"; cases "Fs = 0") (auto simp: inverse_dynamics_node_def Let_def)
  have r2: "h2' = CalcInverseDynamics_TipToBase t ctx pc vc A Fb1 tam1 F2 tau2 i h2"
    using s2 unfolding tam_eq Fb_eq
    by (cases "ts = 0"; cases "Fs = 0") (auto simp: inverse_dynamics_node_def Let_def)
  have h1': "h1' = h1\<lparr>force_arrays := (force_arrays h1)(F1 := (force_arrays h1 F1)[i := Fnew]),
                       vectors := (vectors h1)(tau1 := set_segment ?s ?m taunew (vectors h1 tau1))\<rparr>"
    unfolding r1 CalcInverseDynamics_TipToBase_def Let_def Fnew_def taunew_def ..
  have h2': "h2' = h2\<lparr>force_arrays := (force_arrays h2)(F2 := (force_arrays h2 F2)[i := Fnew]),
                       vectors := (vectors h2)(tau2 := set_segment ?s ?m taunew (vectors h2 tau2))\<rparr>"
    unfolding r2 CalcInverseDynamics_TipToBase_def Let_def Fnew_def taunew_def ch_eq ..
  have i_lt: "i < ?n" using i by simp
  have out': "outputs_agree ?topo (insert i P) F1 tau1 h1' F2 tau2 h2'"
    unfolding outputs_agree_def
  proof (intro conjI ballI)
    show "length (force_arrays h1' F1) = ?n" "length (force_arrays h2' F2) = ?n"
      "length (vectors h1' tau1) = num_velocities ?topo"
      "length (vectors h2' tau2) = num_velocities ?topo"
      using len by (simp_all add: h1' h2')
  next
    fix c assume c: "c \<in> insert i P"
    show "force_arrays h1' F1 ! c = force_arrays h2' F2 ! c"
    proof (cases "c = i")
      case True
      then show ?thesis using len i_lt by (simp add: h1' h2')
    next
      case False
      then have "c \<in> P" using c by simp
      then have "force_arrays h1 F1 ! c = force_arrays h2 F2 ! c"
        using out unfolding outputs_agree_def by blast
      then show ?thesis using False by (simp add: h1' h2')
    qed
  next
    fix c k assume c: "c \<in> insert i P" and k: "k \<in> segment_of ?topo c"
    have c_in: "c \<in> {1..<?n}" using c i P by auto
    have k_lt: "k < num_velocities ?topo"
      using topology_ok_segment[OF ok c_in] k by auto
    show "vectors h1' tau1 ! k = vectors h2' tau2 ! k"
    proof (cases "k \<in> segment_of ?topo i")
      case True
      then show ?thesis
        using len k_lt by (simp add: h1' h2' nth_set_segment_of)
    next
      case False
      then have "c \<noteq> i" using k by auto
      then have "c \<in> P" using c by simp
      then have "vectors h1 tau1 ! k = vectors h2 tau2 ! k"
        using out k unfolding outputs_agree_def by blast
      then show ?thesis
        using len k_lt False by (simp add: h1' h2' nth_set_segment_of)
    qed
  qed
  have inp': "inputs_agree ?topo (insert i P) Fs ts Fa1 ta1 h1' Fa2 ta2 h2'"
    unfolding inputs_agree_def
  proof (intro conjI impI ballI)
    fix j assume Fs: "Fs \<noteq> 0" and j: "j \<in> {1..<?n} - insert i P"
    then have old: "force_arrays h1 Fa1 ! j = force_arrays h2 Fa2 ! j"
      using inp unfolding inputs_agree_def by blast
    have "j \<noteq> i" using j by simp
    then show "force_arrays h1' Fa1 ! j = force_arrays h2' Fa2 ! j"
      using old by (auto simp: h1' h2')
  next
    assume ts: "ts \<noteq> 0"
    then have l: "length (vectors h1 ta1) = num_velocities ?topo"
      "length (vectors h2 ta2) = num_velocities ?topo"
      using inp by (simp_all add: inputs_agree_def)
    show "length (vectors h1' ta1) = num_velocities ?topo"
      using l len by (auto simp: h1')
    show "length (vectors h2' ta2) = num_velocities ?topo"
      using l len by (auto simp: h2')
    fix j k assume j: "j \<in> {1..<?n} - insert i P" and k: "k \<in> segment_of ?topo j"
    have j_in: "j \<in> {1..<?n}" and ji: "j \<noteq> i" using j by auto
    have k_lt: "k < num_velocities ?topo"
      using topology_ok_segment[OF ok j_in] k by auto
    have k_notin: "k \<notin> segment_of ?topo i"
      using topology_ok_disjoint[OF ok j_in i(1) ji k] .
    have old: "vectors h1 ta1 ! k = vectors h2 ta2 ! k"
      using inp ts j k unfolding inputs_agree_def by blast
    show "vectors h1' ta1 ! k = vectors h2' ta2 ! k"
      using old k_lt k_notin len l
      by (auto simp: h1' h2' nth_set_segment_of)
  qed
  show ?thesis using tam_eq Fb_eq out' inp' by simp
qed

section \<open>The tip-to-base sweep, in two runs\<close>

lemma fold_inverse_dynamics_node_agree:
  fixes t :: "('a, 'c, 'p, 'x) MultibodyTree" and h1 h2 :: "'a Heap"
  assumes ok: "topology_ok (topology t)"
  shows "distinct L \<Longrightarrow> set L \<subseteq> {1..<get_num_body_nodes (topology t)} \<Longrightarrow> set L \<inter> P = {} \<Longrightarrow>
    (\<forall>i \<in> set L. set (child_nodes t i) \<subseteq> P) \<Longrightarrow> P \<subseteq> {1..<get_num_body_nodes (topology t)} \<Longrightarrow>
    outputs_agree (topology t) P F1 tau1 h1 F2 tau2 h2 \<Longrightarrow>
    inputs_agree (topology t) P Fs ts Fa1 ta1 h1 Fa2 ta2 h2 \<Longrightarrow>
    \<exists>tam' Fa' h1' h2'.
      fold (inverse_dynamics_node t ctx pc vc A Fa1 ta1 F1 tau1 Fs ts) L (tam, Fa, h1)
        = (tam', Fa', h1') \<and>
      fold (inverse_dynamics_node t ctx pc vc A Fa2 ta2 F2 tau2 Fs ts) L (tam, Fa, h2)
        = (tam', Fa', h2') \<and>
      outputs_agree (topology t) (P \<union> set L) F1 tau1 h1' F2 tau2 h2' \<and>
      inputs_agree (topology t) (P \<union> set L) Fs ts Fa1 ta1 h1' Fa2 ta2 h2'"
proof (induction L arbitrary: P tam Fa h1 h2)
  case Nil
  then show ?case by simp
next
  case (Cons i L)
  obtain tam1 Fb1 h1' where s1:
    "inverse_dynamics_node t ctx pc vc A Fa1 ta1 F1 tau1 Fs ts i (tam, Fa, h1) = (tam1, Fb1, h1')"
    by (cases "inverse_dynamics_node t ctx pc vc A Fa1 ta1 F1 tau1 Fs ts i (tam, Fa, h1)") auto
  obtain tam2 Fb2 h2' where s2:
    "inverse_dynamics_node t ctx pc vc A Fa2 ta2 F2 tau2 Fs ts i (tam, Fa, h2) = (tam2, Fb2, h2')"
    by (cases "inverse_dynamics_node t ctx pc vc A Fa2 ta2 F2 tau2 Fs ts i (tam, Fa, h2)") auto
  have i: "i \<in> {1..<get_num_body_nodes (topology t)}" "i \<notin> P"
    using Cons.prems by auto
  have ch: "set (child_nodes t i) \<subseteq> P" using Cons.prems by simp
  from inverse_dynamics_node_agree[OF ok i ch Cons.prems(5) Cons.prems(6) Cons.prems(7) s1 s2]
  have eq: "tam1 = tam2" "Fb1 = Fb2"
    and out': "outputs_agree (topology t) (insert i P) F1 tau1 h1' F2 tau2 h2'"
    and inp': "inputs_agree (topology t) (insert i P) Fs ts Fa1 ta1 h1' Fa2 ta2 h2'"
    by simp_all
  have d: "distinct L" "set L \<subseteq> {1..<get_num_body_nodes (topology t)}"
    "set L \<inter> insert i P = {}" "\<forall>j \<in> set L. set (child_nodes t j) \<subseteq> insert i P"
    "insert i P \<subseteq> {1..<get_num_body_nodes (topology t)}"
    using Cons.prems i by auto
  from Cons.IH[OF d out' inp', of tam1 Fb1]
  show ?case using s1 s2 eq by simp
qed

lemma child_nodes_level:
  assumes ok: "topology_ok (topology t)"
    and c: "c \<in> set (child_nodes t i)"
  shows "c \<in> {1..<get_num_body_nodes (topology t)} \<and>
         level (get_body_node (topology t) c) = Suc (level (get_body_node (topology t) i))"
proof -
  have c_in: "c \<in> {1..<get_num_body_nodes (topology t)}"
    and p: "parent_body_node (get_body_node (topology t) c) = i"
    using c by (auto simp: child_nodes_def children_of_def)
  have "level (get_body_node (topology t) c)
          = Suc (level (get_body_node (topology t) (parent_body_node (get_body_node (topology t) c))))"
    using ok c_in unfolding topology_ok_def by blast
  then show ?thesis using c_in p by simp
qed

lemma inverse_dynamics_sweep_Suc:
  "inverse_dynamics_sweep t ctx pc vc A Fa ta F tau Fs ts (rev [0..<Suc k]) st =
     inverse_dynamics_sweep t ctx pc vc A Fa ta F tau Fs ts (rev [0..<k])
       (fold (inverse_dynamics_node t ctx pc vc A Fa ta F tau Fs ts) (body_node_levels t ! k) st)"
  by (simp add: inverse_dynamics_sweep_def)

lemma inverse_dynamics_sweep_agree:
  fixes t :: "('a, 'c, 'p, 'x) MultibodyTree" and h1 h2 :: "'a Heap"
  assumes ok: "topology_ok (topology t)"
  shows "k \<le> tree_height (topology t) \<Longrightarrow>
    outputs_agree (topology t) (nodes_from (topology t) k) F1 tau1 h1 F2 tau2 h2 \<Longrightarrow>
    inputs_agree (topology t) (nodes_from (topology t) k) Fs ts Fa1 ta1 h1 Fa2 ta2 h2 \<Longrightarrow>
    \<exists>tam' Fa' h1' h2'.
      inverse_dynamics_sweep t ctx pc vc A Fa1 ta1 F1 tau1 Fs ts (rev [0..<k]) (tam, Fa, h1)
        = (tam', Fa', h1') \<and>
      inverse_dynamics_sweep t ctx pc vc A Fa2 ta2 F2 tau2 Fs ts (rev [0..<k]) (tam, Fa, h2)
        = (tam', Fa', h2') \<and>
      outputs_agree (topology t) (nodes_from (topology t) 0) F1 tau1 h1' F2 tau2 h2'"
proof (induction k arbitrary: tam Fa h1 h2)
  case 0
  have "inverse_dynamics_sweep t ctx pc vc A Fa1 ta1 F1 tau1 Fs ts (rev [0..<0]) (tam, Fa, h1)
          = (tam, Fa, h1)"
    "inverse_dynamics_sweep t ctx pc vc A Fa2 ta2 F2 tau2 Fs ts (rev [0..<0]) (tam, Fa, h2)
          = (tam, Fa, h2)"
    by (simp_all add: inverse_dynamics_sweep_def)
  then show ?case using "0.prems"(2) by blast
next
  case (Suc k)
  let ?topo = "topology t"
  let ?L = "body_node_levels t ! k"
  have k: "k < tree_height ?topo" using Suc.prems by simp
  have setL: "set ?L = {i \<in> {1..<get_num_body_nodes ?topo}. level (get_body_node ?topo i) = k}"
    using k by (rule body_node_levels_set)
  have 1: "distinct ?L" using k by (rule body_node_levels_distinct)
  have 2: "set ?L \<subseteq> {1..<get_num_body_nodes ?topo}" unfolding setL by blast
  have 3: "set ?L \<inter> nodes_from ?topo (Suc k) = {}"
    unfolding setL nodes_from_def by auto
  have 4: "\<forall>i \<in> set ?L. set (child_nodes t i) \<subseteq> nodes_from ?topo (Suc k)"
  proof (intro ballI subsetI)
    fix i c assume "i \<in> set ?L" "c \<in> set (child_nodes t i)"
    then have "level (get_body_node ?topo i) = k" "c \<in> set (child_nodes t i)"
      unfolding setL by simp_all
    then show "c \<in> nodes_from ?topo (Suc k)"
      using child_nodes_level[OF ok, of c i] by (simp add: nodes_from_def)
  qed
  have 5: "nodes_from ?topo (Suc k) \<subseteq> {1..<get_num_body_nodes ?topo}"
    by (auto simp: nodes_from_def)
  have un: "nodes_from ?topo (Suc k) \<union> set ?L = nodes_from ?topo k"
    unfolding setL nodes_from_def by auto
  from fold_inverse_dynamics_node_agree[OF ok 1 2 3 4 5 Suc.prems(2) Suc.prems(3),
      of ctx pc vc A tam Fa]
  obtain tam1 Fb1 h1' h2' where
    f1: "fold (inverse_dynamics_node t ctx pc vc A Fa1 ta1 F1 tau1 Fs ts) ?L (tam, Fa, h1)
           = (tam1, Fb1, h1')" and
    f2: "fold (inverse_dynamics_node t ctx pc vc A Fa2 ta2 F2 tau2 Fs ts) ?L (tam, Fa, h2)
           = (tam1, Fb1, h2')" and
    out': "outputs_agree ?topo (nodes_from ?topo k) F1 tau1 h1' F2 tau2 h2'" and
    inp': "inputs_agree ?topo (nodes_from ?topo k) Fs ts Fa1 ta1 h1' Fa2 ta2 h2'"
    unfolding un by blast
  have kle: "k \<le> tree_height ?topo" using k by simp
  from Suc.IH[OF kle out' inp', of tam1 Fb1]
  show ?case unfolding inverse_dynamics_sweep_Suc f1 f2 .
qed

section \<open>The base-to-tip sweep from two arrays\<close>

lemma BaseToTip_agree:
  assumes "parent_body_node (get_body_node (topology t) i) \<in> Q"
    and "\<forall>j \<in> Q. X ! j = Y ! j" and "length X = length Y" and "i < length X"
  shows "\<forall>j \<in> insert i Q.
           CalcSpatialAcceleration_BaseToTip t ctx pc vc vdot i X ! j
             = CalcSpatialAcceleration_BaseToTip t ctx pc vc vdot i Y ! j"
  using assms by (auto simp: CalcSpatialAcceleration_BaseToTip_def Let_def nth_list_update)

lemma fold_BaseToTip_agree:
  "(\<forall>i \<in> set L. i < length X \<and> parent_body_node (get_body_node (topology t) i) \<in> Q) \<Longrightarrow>
   length X = length Y \<Longrightarrow> (\<forall>j \<in> Q. X ! j = Y ! j) \<Longrightarrow>
   (\<forall>j \<in> Q \<union> set L.
      fold (CalcSpatialAcceleration_BaseToTip t ctx pc vc vdot) L X ! j
        = fold (CalcSpatialAcceleration_BaseToTip t ctx pc vc vdot) L Y ! j)"
proof (induction L arbitrary: Q X Y)
  case Nil
  then show ?case by simp
next
  case (Cons i L)
  let ?X = "CalcSpatialAcceleration_BaseToTip t ctx pc vc vdot i X"
  let ?Y = "CalcSpatialAcceleration_BaseToTip t ctx pc vc vdot i Y"
  have a: "\<forall>j \<in> insert i Q. ?X ! j = ?Y ! j"
    using Cons.prems by (intro BaseToTip_agree) auto
  have b: "\<forall>j \<in> set L. j < length ?X \<and> parent_body_node (get_body_node (topology t) j) \<in> insert i Q"
    using Cons.prems by auto
  have c: "length ?X = length ?Y" using Cons.prems by simp
  from Cons.IH[OF b c a] show ?case by auto
qed

lemma topology_ok_parent:
  assumes ok: "topology_ok topo" and i: "i \<in> {1..<get_num_body_nodes topo}"
  shows "parent_body_node (get_body_node topo i) < i"
    and "level (get_body_node topo i)
           = Suc (level (get_body_node topo (parent_body_node (get_body_node topo i))))"
    and "level (get_body_node topo i) < tree_height topo"
  using ok i unfolding topology_ok_def by blast+

lemma acceleration_sweep_agree:
  assumes ok: "topology_ok (topology t)"
    and len: "length X = get_num_body_nodes (topology t)" "length Y = get_num_body_nodes (topology t)"
    and w: "X ! 0 = Y ! 0"
  shows "k \<le> tree_height (topology t) \<Longrightarrow>
    \<forall>j \<in> nodes_above (topology t) k.
      acceleration_sweep t ctx pc vc vdot [1..<k] X ! j
        = acceleration_sweep t ctx pc vc vdot [1..<k] Y ! j"
proof (induction k)
  case 0
  then show ?case using w by (simp add: acceleration_sweep_def nodes_above_def)
next
  case (Suc k)
  let ?topo = "topology t"
  show ?case
  proof (cases "k = 0")
    case True
    have "nodes_above ?topo (Suc 0) = {0}"
      using topology_ok_parent(2)[OF ok] by (auto simp: nodes_above_def)
    then show ?thesis using True w by (simp add: acceleration_sweep_def)
  next
    case False
    let ?L = "body_node_levels t ! k"
    let ?X = "acceleration_sweep t ctx pc vc vdot [1..<k] X"
    let ?Y = "acceleration_sweep t ctx pc vc vdot [1..<k] Y"
    have k: "k < tree_height ?topo" using Suc.prems by simp
    have setL: "set ?L = {i \<in> {1..<get_num_body_nodes ?topo}. level (get_body_node ?topo i) = k}"
      using k by (rule body_node_levels_set)
    have IH: "\<forall>j \<in> nodes_above ?topo k. ?X ! j = ?Y ! j" using Suc.IH k by simp
    have a: "\<forall>i \<in> set ?L. i < length ?X \<and> parent_body_node (get_body_node ?topo i) \<in> nodes_above ?topo k"
    proof
      fix i assume "i \<in> set ?L"
      then have i: "i \<in> {1..<get_num_body_nodes ?topo}" and li: "level (get_body_node ?topo i) = k"
        unfolding setL by simp_all
      let ?p = "parent_body_node (get_body_node ?topo i)"
      have "?p < i" "level (get_body_node ?topo ?p) < k"
        using topology_ok_parent(1,2)[OF ok i] li by auto
      then have "?p \<in> nodes_above ?topo k" using i by (cases "?p = 0") (auto simp: nodes_above_def)
      then show "i < length ?X \<and> ?p \<in> nodes_above ?topo k" using i len by simp
    qed
    have b: "length ?X = length ?Y" using len by simp
    have un: "nodes_above ?topo k \<union> set ?L = nodes_above ?topo (Suc k)"
      unfolding setL nodes_above_def by auto
    have split: "[1..<Suc k] = [1..<k] @ [k]" using False by simp
    from fold_BaseToTip_agree[OF a b IH, of ctx pc vc vdot]
    show ?thesis unfolding un split by (simp add: acceleration_sweep_def)
  qed
qed

lemma acceleration_sweep_eq:
  assumes ok: "topology_ok (topology t)"
    and len: "length X = get_num_body_nodes (topology t)" "length Y = get_num_body_nodes (topology t)"
    and w: "X ! 0 = Y ! 0"
  shows "acceleration_sweep t ctx pc vc vdot [1..<tree_height (topology t)] X
           = acceleration_sweep t ctx pc vc vdot [1..<tree_height (topology t)] Y"
proof (rule nth_equalityI)
  show "length (acceleration_sweep t ctx pc vc vdot [1..<tree_height (topology t)] X)
          = length (acceleration_sweep t ctx pc vc vdot [1..<tree_height (topology t)] Y)"
    using len by simp
next
  fix j assume "j < length (acceleration_sweep t ctx pc vc vdot [1..<tree_height (topology t)] X)"
  then have j: "j < get_num_body_nodes (topology t)" using len by simp
  have "j \<in> nodes_above (topology t) (tree_height (topology t))"
  proof (cases "j = 0")
    case True
    then show ?thesis by (simp add: nodes_above_def)
  next
    case False
    then have "j \<in> {1..<get_num_body_nodes (topology t)}" using j by simp
    then show ?thesis using topology_ok_parent(3)[OF ok] by (auto simp: nodes_above_def)
  qed
  then show "acceleration_sweep t ctx pc vc vdot [1..<tree_height (topology t)] X ! j
               = acceleration_sweep t ctx pc vc vdot [1..<tree_height (topology t)] Y ! j"
    using acceleration_sweep_agree[OF ok len w, of "tree_height (topology t)" ctx pc vc vdot]
    by simp
qed

lemma nodes_from_height:
  "topology_ok topo \<Longrightarrow> nodes_from topo (tree_height topo) = {}"
  using topology_ok_parent(3)[of topo] by (fastforce simp: nodes_from_def)

lemma nodes_from_0: "nodes_from topo 0 = {1..<get_num_body_nodes topo}"
  by (auto simp: nodes_from_def)

lemma outputs_agree_all:
  assumes ok: "topology_ok topo"
    and out: "outputs_agree topo (nodes_from topo 0) F1 tau1 h1 F2 tau2 h2"
  shows "vectors h1 tau1 = vectors h2 tau2"
    and "\<forall>i \<in> {1..<get_num_body_nodes topo}. force_arrays h1 F1 ! i = force_arrays h2 F2 ! i"
proof -
  show "\<forall>i \<in> {1..<get_num_body_nodes topo}. force_arrays h1 F1 ! i = force_arrays h2 F2 ! i"
    using out unfolding outputs_agree_def nodes_from_0 by blast
  show "vectors h1 tau1 = vectors h2 tau2"
  proof (rule nth_equalityI)
    show "length (vectors h1 tau1) = length (vectors h2 tau2)"
      using out by (simp add: outputs_agree_def)
  next
    fix k assume "k < length (vectors h1 tau1)"
    then have "k \<in> {0..<num_velocities topo}" using out by (simp add: outputs_agree_def)
    then obtain i where "i \<in> {1..<get_num_body_nodes topo}" "k \<in> segment_of topo i"
      using ok unfolding topology_ok_def by blast
    then show "vectors h1 tau1 ! k = vectors h2 tau2 ! k"
      using out unfolding outputs_agree_def nodes_from_0 by blast
  qed
qed

section \<open>Inverse dynamics, in two runs\<close>

lemma topology_ok_sizes:
  "topology_ok (topology t) \<Longrightarrow> num_bodies t = get_num_body_nodes (topology t)"
  "topology_ok (topology t) \<Longrightarrow> 0 < num_bodies t"
  by (simp_all add: topology_ok_def num_bodies_def)

lemma CalcSpatialAccelerationsFromVdot_ok:
  "length A = num_bodies t \<Longrightarrow> length vdot = num_velocities (topology t) \<Longrightarrow> 0 < num_bodies t \<Longrightarrow>
   CalcSpatialAccelerationsFromVdot t ctx pc vc vdot (Some A) =
     Inr (acceleration_sweep t ctx pc vc vdot [1..<tree_height (topology t)] (A[0 := Zero6]))"
  by (simp add: CalcSpatialAccelerationsFromVdot_def at_put_def world_index_def)

lemma CalcInverseDynamics_ok:
  "length vdot = num_velocities_of t \<Longrightarrow>
   length (force_arrays h Fa) = num_bodies t \<or> length (force_arrays h Fa) = 0 \<Longrightarrow>
   length (vectors h ta) = num_velocities_of t \<or> length (vectors h ta) = 0 \<Longrightarrow>
   length A = num_bodies t \<Longrightarrow> 0 < num_bodies t \<Longrightarrow>
   length (force_arrays h F) = num_bodies t \<Longrightarrow>
   length (vectors h tau) = num_velocities_of t \<Longrightarrow>
   CalcInverseDynamics t ctx pc vc vdot Fa ta (Some A) (Some F) tau h =
     Inr (acceleration_sweep t ctx pc vc vdot [1..<tree_height (topology t)] (A[0 := Zero6]),
          snd (snd (inverse_dynamics_sweep t ctx pc vc
            (acceleration_sweep t ctx pc vc vdot [1..<tree_height (topology t)] (A[0 := Zero6]))
            Fa ta F tau (length (force_arrays h Fa)) (length (vectors h ta))
            (rev [0..<tree_height (topology t)]) ([], Zero6, h))))"
  by (simp add: CalcInverseDynamics_def Let_def CalcSpatialAccelerationsFromVdot_ok
      num_velocities_of_def)

lemma CalcInverseDynamics_agree:
  fixes t :: "('a::zero, 'c, 'p, 'x) MultibodyTree" and h1 h2 :: "'a Heap"
  assumes ok: "topology_ok (topology t)"
    and vdot: "length vdot = num_velocities_of t"
    and A: "length A1 = num_bodies t" "length A2 = num_bodies t"
    and Fin: "force_arrays h1 Fa1 = force_arrays h2 Fa2"
      "length (force_arrays h1 Fa1) = num_bodies t \<or> length (force_arrays h1 Fa1) = 0"
    and tin: "vectors h1 ta1 = vectors h2 ta2"
      "length (vectors h1 ta1) = num_velocities_of t \<or> length (vectors h1 ta1) = 0"
    and Fout: "length (force_arrays h1 F1) = num_bodies t"
      "length (force_arrays h2 F2) = num_bodies t"
    and tout: "length (vectors h1 tau1) = num_velocities_of t"
      "length (vectors h2 tau2) = num_velocities_of t"
  shows "\<exists>A' h1' h2'.
    CalcInverseDynamics t ctx pc vc vdot Fa1 ta1 (Some A1) (Some F1) tau1 h1 = Inr (A', h1') \<and>
    CalcInverseDynamics t ctx pc vc vdot Fa2 ta2 (Some A2) (Some F2) tau2 h2 = Inr (A', h2') \<and>
    vectors h1' tau1 = vectors h2' tau2 \<and>
    (\<forall>i \<in> {1..<num_bodies t}. force_arrays h1' F1 ! i = force_arrays h2' F2 ! i)"
proof -
  let ?topo = "topology t"
  let ?h = "tree_height ?topo"
  have n: "num_bodies t = get_num_body_nodes ?topo" "0 < num_bodies t"
    using ok by (rule topology_ok_sizes)+
  let ?A1 = "acceleration_sweep t ctx pc vc vdot [1..<?h] (A1[0 := Zero6])"
  let ?A2 = "acceleration_sweep t ctx pc vc vdot [1..<?h] (A2[0 := Zero6])"
  have Aeq: "?A1 = ?A2"
    using A n by (intro acceleration_sweep_eq[OF ok]) simp_all
  let ?Fs = "length (force_arrays h1 Fa1)"
  let ?ts = "length (vectors h1 ta1)"
  have out0: "outputs_agree ?topo (nodes_from ?topo ?h) F1 tau1 h1 F2 tau2 h2"
    using Fout tout n by (simp add: outputs_agree_def nodes_from_height[OF ok] num_velocities_of_def)
  have inp0: "inputs_agree ?topo (nodes_from ?topo ?h) ?Fs ?ts Fa1 ta1 h1 Fa2 ta2 h2"
    using Fin tin by (auto simp: inputs_agree_def num_velocities_of_def)
  from inverse_dynamics_sweep_agree[OF ok le_refl out0 inp0, of ctx pc vc ?A1 "[]" Zero6]
  obtain tam' Fa' h1' h2' where
    r1: "inverse_dynamics_sweep t ctx pc vc ?A1 Fa1 ta1 F1 tau1 ?Fs ?ts (rev [0..<?h]) ([], Zero6, h1)
           = (tam', Fa', h1')" and
    r2: "inverse_dynamics_sweep t ctx pc vc ?A1 Fa2 ta2 F2 tau2 ?Fs ?ts (rev [0..<?h]) ([], Zero6, h2)
           = (tam', Fa', h2')" and
    out: "outputs_agree ?topo (nodes_from ?topo 0) F1 tau1 h1' F2 tau2 h2'"
    by blast
  have c1: "CalcInverseDynamics t ctx pc vc vdot Fa1 ta1 (Some A1) (Some F1) tau1 h1 = Inr (?A1, h1')"
    using vdot A Fin tin Fout tout n r1 by (simp add: CalcInverseDynamics_ok)
  have c2: "CalcInverseDynamics t ctx pc vc vdot Fa2 ta2 (Some A2) (Some F2) tau2 h2 = Inr (?A1, h2')"
    using vdot A Fin tin Fout tout n r2 Aeq by (simp add: CalcInverseDynamics_ok)
  show ?thesis
    using c1 c2 outputs_agree_all[OF ok out] n by auto
qed

section \<open>Inverse dynamics on the locals of a caller\<close>

lemma local_heap_simps [simp]:
  "force_arrays (local_heap F tau) outputs = F"
  "vectors (local_heap F tau) outputs = tau"
  "force_arrays (local_heap F tau) no_forces = []"
  "vectors (local_heap F tau) no_forces = []"
  by (simp_all add: local_heap_def outputs_def no_forces_def)

lemma local_heap_update:
  "(local_heap F tau)\<lparr>force_arrays := (force_arrays (local_heap F tau))(outputs := F'),
                      vectors := (vectors (local_heap F tau))(outputs := tau')\<rparr>
     = local_heap F' tau'"
  by (simp add: local_heap_def)


lemma inverse_dynamics_node_local:
  assumes "local_state n m st"
  shows "local_state n m
           (inverse_dynamics_node t ctx pc vc A Fa ta outputs outputs Fs ts i st)"
proof -
  obtain tam Fb h where st: "st = (tam, Fb, h)" by (cases st) auto
  obtain F tau where h: "h = local_heap F tau" and len: "length F = n" "length tau = m"
    using assms st by (auto simp: local_state_def)
  have "\<exists>F' tau'. CalcInverseDynamics_TipToBase t ctx pc vc A Fb' tam' outputs outputs i
            (local_heap F tau) = local_heap F' tau' \<and> length F' = n \<and> length tau' = m"
    for Fb' tam'
    unfolding CalcInverseDynamics_TipToBase_def Let_def local_heap_update
    by (intro exI conjI, rule refl) (simp_all add: len)
  then show ?thesis
    unfolding st h inverse_dynamics_node_def Let_def local_state_def by simp
qed

lemma fold_inverse_dynamics_node_local:
  "local_state n m st \<Longrightarrow>
   local_state n m
     (fold (inverse_dynamics_node t ctx pc vc A Fa ta outputs outputs Fs ts) L st)"
  by (induction L arbitrary: st) (simp_all add: inverse_dynamics_node_local)

lemma inverse_dynamics_sweep_local:
  "local_state n m st \<Longrightarrow>
   local_state n m
     (inverse_dynamics_sweep t ctx pc vc A Fa ta outputs outputs Fs ts ds st)"
  unfolding inverse_dynamics_sweep_def
  by (induction ds arbitrary: st) (simp_all add: fold_inverse_dynamics_node_local)

lemma CalcInverseDynamics_local:
  fixes t :: "('a::zero, 'c, 'p, 'x) MultibodyTree"
  assumes "length vdot = num_velocities_of t" "length A = num_bodies t" "0 < num_bodies t"
    "length F = num_bodies t" "length tau = num_velocities_of t"
  shows "\<exists>A' F' tau'.
    CalcInverseDynamics t ctx pc vc vdot no_forces no_forces (Some A) (Some outputs) outputs
        (local_heap F tau) = Inr (A', local_heap F' tau')
    \<and> length A' = num_bodies t \<and> length F' = num_bodies t
    \<and> length tau' = num_velocities_of t"
proof -
  let ?A = "acceleration_sweep t ctx pc vc vdot [1..<tree_height (topology t)] (A[0 := Zero6])"
  let ?st = "inverse_dynamics_sweep t ctx pc vc ?A no_forces no_forces outputs outputs
               (length (force_arrays (local_heap F tau) no_forces))
               (length (vectors (local_heap F tau) no_forces))
               (rev [0..<tree_height (topology t)]) ([], Zero6, local_heap F tau)"
  have "local_state (num_bodies t) (num_velocities_of t) ([], Zero6, local_heap F tau)"
    using assms by (auto simp: local_state_def)
  then have "local_state (num_bodies t) (num_velocities_of t) ?st"
    by (rule inverse_dynamics_sweep_local)
  then obtain F' tau' where "snd (snd ?st) = local_heap F' tau'"
    "length F' = num_bodies t" "length tau' = num_velocities_of t"
    by (auto simp: local_state_def)
  moreover have "CalcInverseDynamics t ctx pc vc vdot no_forces no_forces (Some A) (Some outputs)
      outputs (local_heap F tau) = Inr (?A, snd (snd ?st))"
    using assms by (simp add: CalcInverseDynamics_ok)
  ultimately show ?thesis using assms by auto
qed

section \<open>The loop over the columns of the mass matrix\<close>


lemma length_Zero [simp]: "length (Zero n) = n"
  by (simp add: Zero_def)





section \<open>A probe does not depend on the auxiliary arrays\<close>


section \<open>A tree at rest\<close>

text \<open>
  With the formulas of rigid-body dynamics for the nodes, zeros are propagated: when the
  generalized velocities and the generalized accelerations are zero and nothing is
  applied, the velocity sweep, the acceleration sweep and the force sweep leave arrays of
  zeros as they are.
\<close>

lemma upt_6: "[0..<6] = [0, 1, 2, 3, 4, 5]"
  by code_simp

lemma Zero6_list: "(Zero6 :: 'a::zero list) = [0, 0, 0, 0, 0, 0]"
  by (simp add: Zero6_def numeral_eq_Suc)

lemma sum_list_zeros: "(\<forall>x \<in> set xs. x = (0::'a::ring)) \<Longrightarrow> sum_list xs = 0"
  by (induction xs) simp_all

lemma rotational_Zero6 [simp]: "rotational (Zero6 :: 'a::zero list) = [0, 0, 0]"
  and translational_Zero6 [simp]: "translational (Zero6 :: 'a::zero list) = [0, 0, 0]"
  by (simp_all add: rotational_def translational_def Zero6_list)

lemma cross_zero [simp]:
  "cross [0, 0, 0] p = [0, 0, 0 :: 'a::ring]" "cross p [0, 0, 0] = [0, 0, 0 :: 'a::ring]"
  by (simp_all add: cross_def)

lemma sum3_zero [simp]: "sum3 [0, 0, 0] [0, 0, 0] = [0, 0, 0 :: 'a::ring]"
  and difference3_zero [simp]: "difference3 [0, 0, 0] [0, 0, 0] = [0, 0, 0 :: 'a::ring]"
  by (simp_all add: sum3_def difference3_def)

lemma sum6_zero [simp]: "sum6 Zero6 Zero6 = (Zero6 :: 'a::ring list)"
  and difference6_zero [simp]: "difference6 Zero6 Zero6 = (Zero6 :: 'a::ring list)"
  by (simp_all add: sum6_def difference6_def upt_6 Zero6_list)

lemma columns_times_zero:
  assumes "\<forall>x \<in> set xs. x = (0::'a::ring)"
  shows "columns_times H xs = Zero6"
proof -
  have "sum_list (map2 (\<lambda>c xk. c ! r * xk) H xs) = 0" for r
  proof (rule sum_list_zeros, rule ballI)
    fix y assume "y \<in> set (map2 (\<lambda>c xk. c ! r * xk) H xs)"
    then obtain c xk where "(c, xk) \<in> set (zip H xs)" "y = c ! r * xk" by auto
    then have "xk \<in> set xs" and y: "y = c ! r * xk" by (auto dest: set_zip_rightD)
    then have "xk = 0" using assms by blast
    then show "y = 0" using y by simp
  qed
  then show ?thesis by (simp add: columns_times_def upt_6 Zero6_list)
qed

lemma transpose_times_zero: "transpose_times n H Zero6 = replicate n (0::'a::ring)"
  by (simp add: transpose_times_def upt_6 Zero6_list map_replicate_const)

lemma inertia_times_zero [simp]: "inertia_times M Zero6 = (Zero6 :: 'a::ring list)"
  by (simp add: inertia_times_def upt_6 Zero6_list)

lemma gyroscopic_zero [simp]: "gyroscopic Zero6 L = (Zero6 :: 'a::ring list)"
  by (simp add: gyroscopic_def) (simp add: Zero6_list)

lemma Shift_zero [simp]:
  "ShiftVelocity Zero6 p = (Zero6 :: 'a::ring list)"
  "ShiftAcceleration Zero6 p [0, 0, 0] = (Zero6 :: 'a::ring list)"
  "ShiftForce Zero6 p = (Zero6 :: 'a::ring list)"
  by (simp_all add: ShiftVelocity_def ShiftAcceleration_def ShiftForce_def)
    (simp_all add: Zero6_list)

lemma segment_of_zeros:
  "\<forall>x \<in> set (take n (drop s (Zero m :: 'a::zero list))). x = 0"
  by (auto simp: Zero_def dest!: in_set_takeD in_set_dropD)

lemma fold_sum6_zero:
  "(\<forall>F \<in> set Fs. F = Zero6) \<Longrightarrow> fold sum6 Fs Zero6 = (Zero6 :: 'a::ring list)"
  by (induction Fs) simp_all

lemma node_velocity_zero:
  assumes "generalized_velocities m ctx = Zero nv"
  shows "node_velocity topo m i ctx pc H Zero6 = (Zero6 :: 'a::ring list)"
  using assms
  by (simp add: node_velocity_def get_velocities_from_array_def columns_times_zero
      segment_of_zeros)

lemma node_acceleration_zero:
  assumes "generalized_velocities m ctx = Zero nv"
    and "vc ! parent_body_node (get_body_node topo i) = Zero6"
    and "\<forall>x \<in> set vdot_node. x = 0"
  shows "node_acceleration topo m i ctx pc vc vdot_node Zero6 = (Zero6 :: 'a::ring list)"
  using assms
  by (simp add: node_acceleration_def get_velocities_from_array_def columns_times_zero
      segment_of_zeros)

lemma node_force_zero:
  assumes "vc ! i = Zero6" and "\<forall>F \<in> set F_children. F = Zero6"
  shows "node_force topo m i ctx pc vc Zero6 F_children Zero6 = (Zero6 :: 'a::ring list)"
proof -
  have "\<forall>F \<in> set (map2 (\<lambda>c F. ShiftForce F (opposite (p_PB_W m c pc))) (children_of topo i)
                      F_children). F = Zero6"
  proof
    fix F assume "F \<in> set (map2 (\<lambda>c F. ShiftForce F (opposite (p_PB_W m c pc)))
                      (children_of topo i) F_children)"
    then obtain c G where "(c, G) \<in> set (zip (children_of topo i) F_children)"
      "F = ShiftForce G (opposite (p_PB_W m c pc))" by auto
    then have "G \<in> set F_children" and F: "F = ShiftForce G (opposite (p_PB_W m c pc))"
      by (auto dest: set_zip_rightD)
    then have "G = Zero6" using assms(2) by blast
    then show "F = Zero6" using F by simp
  qed
  then show ?thesis using assms(1) by (simp add: node_force_def fold_sum6_zero)
qed

lemma node_projection_zero:
  "node_projection topo m i ctx pc Zero6 [] =
     replicate (num_mobilizer_velocities (get_body_node topo i)) (0::'a::ring)"
  by (simp add: node_projection_def transpose_times_zero)

lemma list_update_replicate_same: "(replicate n x)[i := x] = replicate n x"
  by (cases "i < n") (auto intro!: nth_equalityI simp: nth_list_update)

lemma set_segment_zeros:
  "set_segment s n (replicate n 0) (Zero m) = (Zero m :: 'a::zero list)"
  by (rule nth_equalityI) (auto simp: set_segment_def Zero_def)

lemma level_members:
  assumes ok: "topology_ok (topology t)" and d: "d < tree_height (topology t)"
    and i: "i \<in> set (body_node_levels t ! d)"
  shows "i < get_num_body_nodes (topology t)"
    and "parent_body_node (get_body_node (topology t) i) < get_num_body_nodes (topology t)"
proof -
  have m: "i \<in> {1..<get_num_body_nodes (topology t)}"
    using i unfolding body_node_levels_set[OF d] by simp
  then show "i < get_num_body_nodes (topology t)" by simp
  then show "parent_body_node (get_body_node (topology t) i) < get_num_body_nodes (topology t)"
    using topology_ok_parent(1)[OF ok m] by simp
qed

lemma velocity_BaseToTip_zero:
  fixes t :: "('a::ring, 'c, 'p, 'x) MultibodyTree"
  assumes dyn: "rigid_body_dynamics m t"
    and v0: "generalized_velocities m ctx = Zero nv"
    and i: "parent_body_node (get_body_node (topology t) i) < n"
  shows "CalcVelocityKinematicsCache_BaseToTip t ctx pc H i (replicate n Zero6)
           = replicate n Zero6"
proof -
  have "across_node_velocity t = node_velocity (topology t) m"
    using dyn by (simp add: rigid_body_dynamics_def)
  then show ?thesis
    using i by (simp add: CalcVelocityKinematicsCache_BaseToTip_def Let_def
        node_velocity_zero[OF v0] list_update_replicate_same)
qed

lemma acceleration_BaseToTip_zero:
  fixes t :: "('a::ring, 'c, 'p, 'x) MultibodyTree"
  assumes dyn: "rigid_body_dynamics m t"
    and v0: "generalized_velocities m ctx = Zero nv"
    and i: "parent_body_node (get_body_node (topology t) i) < n"
  shows "CalcSpatialAcceleration_BaseToTip t ctx pc (replicate n Zero6) (Zero k) i
           (replicate n Zero6) = replicate n Zero6"
proof -
  have "across_node_acceleration t = node_acceleration (topology t) m"
    using dyn by (simp add: rigid_body_dynamics_def)
  then show ?thesis
    using i by (simp add: CalcSpatialAcceleration_BaseToTip_def Let_def
        get_accelerations_from_array_def node_acceleration_zero[OF v0] segment_of_zeros
        list_update_replicate_same)
qed

lemma inverse_dynamics_node_zero:
  fixes t :: "('a::ring, 'c, 'p, 'x) MultibodyTree"
  assumes dyn: "rigid_body_dynamics m t"
    and i: "i < get_num_body_nodes (topology t)"
  shows "inverse_dynamics_node t ctx pc (replicate (get_num_body_nodes (topology t)) Zero6)
           (replicate (get_num_body_nodes (topology t)) Zero6) no_forces no_forces
           outputs outputs 0 0 i
           ([], Zero6, local_heap (replicate (get_num_body_nodes (topology t)) Zero6) (Zero nv))
         = ([], Zero6, local_heap (replicate (get_num_body_nodes (topology t)) Zero6) (Zero nv))"
proof -
  let ?n = "get_num_body_nodes (topology t)"
  let ?Z = "replicate ?n (Zero6 :: 'a list)"
  have f: "newton_euler_force t = node_force (topology t) m"
    and p: "project_force t = node_projection (topology t) m"
    using dyn by (simp_all add: rigid_body_dynamics_def)
  have ch: "\<forall>F \<in> set (map (\<lambda>c. ?Z ! c) (child_nodes t i)). F = Zero6"
    by (auto simp: child_nodes_def children_of_def)
  have F: "newton_euler_force t i ctx pc ?Z (?Z ! i) (map (\<lambda>c. ?Z ! c) (child_nodes t i)) Zero6
             = Zero6"
    using i ch by (simp add: f node_force_zero)
  have tau: "project_force t i ctx pc Zero6 []
               = replicate (num_mobilizer_velocities (get_body_node (topology t) i)) 0"
    by (simp add: p node_projection_zero)
  show ?thesis
    unfolding inverse_dynamics_node_def CalcInverseDynamics_TipToBase_def Let_def
    by (simp add: F tau local_heap_update list_update_replicate_same set_segment_zeros)
qed

lemma velocity_sweep_zero:
  fixes t :: "('a::ring, 'c, 'p, 'x) MultibodyTree"
  assumes ok: "topology_ok (topology t)" and dyn: "rigid_body_dynamics m t"
    and v0: "generalized_velocities m ctx = Zero nv"
  shows "\<forall>d \<in> set ds. d < tree_height (topology t) \<Longrightarrow>
    fold (\<lambda>depth. fold (CalcVelocityKinematicsCache_BaseToTip t ctx pc H)
                     (body_node_levels t ! depth)) ds
      (replicate (get_num_body_nodes (topology t)) Zero6)
    = replicate (get_num_body_nodes (topology t)) Zero6"
proof (induction ds)
  case Nil
  then show ?case by simp
next
  case (Cons d ds)
  have "set L \<subseteq> set (body_node_levels t ! d) \<Longrightarrow>
        fold (CalcVelocityKinematicsCache_BaseToTip t ctx pc H) L
          (replicate (get_num_body_nodes (topology t)) Zero6)
        = replicate (get_num_body_nodes (topology t)) Zero6" for L
  proof (induction L)
    case Nil
    then show ?case by simp
  next
    case (Cons i L)
    have "i \<in> set (body_node_levels t ! d)" and "d < tree_height (topology t)"
      using Cons.prems \<open>\<forall>d \<in> set (d # ds). d < tree_height (topology t)\<close> by auto
    then have "parent_body_node (get_body_node (topology t) i) < get_num_body_nodes (topology t)"
      using level_members(2)[OF ok] by blast
    then show ?case
      using Cons by (simp add: velocity_BaseToTip_zero[OF dyn v0])
  qed
  then show ?case using Cons by simp
qed

lemma acceleration_sweep_zero:
  fixes t :: "('a::ring, 'c, 'p, 'x) MultibodyTree"
  assumes ok: "topology_ok (topology t)" and dyn: "rigid_body_dynamics m t"
    and v0: "generalized_velocities m ctx = Zero nv"
  shows "\<forall>d \<in> set ds. d < tree_height (topology t) \<Longrightarrow>
    acceleration_sweep t ctx pc (replicate (get_num_body_nodes (topology t)) Zero6) (Zero k) ds
      (replicate (get_num_body_nodes (topology t)) Zero6)
    = replicate (get_num_body_nodes (topology t)) Zero6"
  unfolding acceleration_sweep_def
proof (induction ds)
  case Nil
  then show ?case by simp
next
  case (Cons d ds)
  have "set L \<subseteq> set (body_node_levels t ! d) \<Longrightarrow>
        fold (CalcSpatialAcceleration_BaseToTip t ctx pc
                (replicate (get_num_body_nodes (topology t)) Zero6) (Zero k)) L
          (replicate (get_num_body_nodes (topology t)) Zero6)
        = replicate (get_num_body_nodes (topology t)) Zero6" for L
  proof (induction L)
    case Nil
    then show ?case by simp
  next
    case (Cons i L)
    have "i \<in> set (body_node_levels t ! d)" and "d < tree_height (topology t)"
      using Cons.prems \<open>\<forall>d \<in> set (d # ds). d < tree_height (topology t)\<close> by auto
    then have "parent_body_node (get_body_node (topology t) i) < get_num_body_nodes (topology t)"
      using level_members(2)[OF ok] by blast
    then show ?case
      using Cons by (simp add: acceleration_BaseToTip_zero[OF dyn v0])
  qed
  then show ?case using Cons by simp
qed

lemma inverse_dynamics_sweep_zero:
  fixes t :: "('a::ring, 'c, 'p, 'x) MultibodyTree"
  assumes ok: "topology_ok (topology t)" and dyn: "rigid_body_dynamics m t"
  shows "\<forall>d \<in> set ds. d < tree_height (topology t) \<Longrightarrow>
    inverse_dynamics_sweep t ctx pc (replicate (get_num_body_nodes (topology t)) Zero6)
      (replicate (get_num_body_nodes (topology t)) Zero6) no_forces no_forces outputs outputs 0 0
      ds ([], Zero6, local_heap (replicate (get_num_body_nodes (topology t)) Zero6) (Zero nv))
    = ([], Zero6, local_heap (replicate (get_num_body_nodes (topology t)) Zero6) (Zero nv))"
  unfolding inverse_dynamics_sweep_def
proof (induction ds)
  case Nil
  then show ?case by simp
next
  case (Cons d ds)
  have "set L \<subseteq> set (body_node_levels t ! d) \<Longrightarrow>
        fold (inverse_dynamics_node t ctx pc (replicate (get_num_body_nodes (topology t)) Zero6)
                (replicate (get_num_body_nodes (topology t)) Zero6) no_forces no_forces
                outputs outputs 0 0) L
          ([], Zero6, local_heap (replicate (get_num_body_nodes (topology t)) Zero6) (Zero nv))
        = ([], Zero6, local_heap (replicate (get_num_body_nodes (topology t)) Zero6) (Zero nv))"
    for L
  proof (induction L)
    case Nil
    then show ?case by simp
  next
    case (Cons i L)
    have "i \<in> set (body_node_levels t ! d)" and "d < tree_height (topology t)"
      using Cons.prems \<open>\<forall>d \<in> set (d # ds). d < tree_height (topology t)\<close> by auto
    then have "i < get_num_body_nodes (topology t)"
      using level_members(1)[OF ok] by blast
    then show ?case
      using Cons by (simp add: inverse_dynamics_node_zero[OF dyn])
  qed
  then show ?case using Cons by simp
qed

lemma velocity_cache_zero:
  fixes t :: "('a::ring, 'c, 'p, 'x) MultibodyTree"
  assumes ok: "topology_ok (topology t)" and dyn: "rigid_body_dynamics m t"
    and cache: "velocity_cache_current t u ctx"
    and v0: "generalized_velocities m ctx = Zero nv"
  shows "EvalVelocityKinematics t ctx = replicate (get_num_body_nodes (topology t)) Zero6"
proof -
  have "\<forall>d \<in> set [1..<tree_height (topology t)]. d < tree_height (topology t)"
    by simp
  note z = velocity_sweep_zero[OF ok dyn v0 this]
  show ?thesis
    using cache
    by (simp add: velocity_cache_current_def CalcVelocityKinematicsCache_def
        CalcAcrossNodeGeometricJacobianExpressedInWorld_def InitializeToZero_def z[unfolded One_nat_def])
qed

lemma CalcInverseDynamics_zero:
  fixes t :: "('a::ring, 'c, 'p, 'x) MultibodyTree"
  assumes ok: "topology_ok (topology t)" and dyn: "rigid_body_dynamics m t"
    and v0: "generalized_velocities m ctx = Zero nv"
  shows "CalcInverseDynamics t ctx pc (replicate (get_num_body_nodes (topology t)) Zero6)
           (Zero (num_velocities_of t)) no_forces no_forces
           (Some (replicate (get_num_body_nodes (topology t)) Zero6)) (Some outputs) outputs
           (local_heap (replicate (get_num_body_nodes (topology t)) Zero6)
              (Zero (num_velocities_of t)))
         = Inr (replicate (get_num_body_nodes (topology t)) Zero6,
                local_heap (replicate (get_num_body_nodes (topology t)) Zero6)
                  (Zero (num_velocities_of t)))"
proof -
  have n: "num_bodies t = get_num_body_nodes (topology t)" "0 < num_bodies t"
    using ok by (rule topology_ok_sizes)+
  have a: "\<forall>d \<in> set [1..<tree_height (topology t)]. d < tree_height (topology t)"
    and b: "\<forall>d \<in> set (rev [0..<tree_height (topology t)]). d < tree_height (topology t)"
    by simp_all
  show ?thesis
    using n
    by (subst CalcInverseDynamics_ok)
       (simp_all add: length_Zero list_update_replicate_same
          acceleration_sweep_zero[OF ok dyn v0 a, unfolded One_nat_def]
          inverse_dynamics_sweep_zero[OF ok dyn b])
qed

text \<open>The pendulum's bias term is not zero when it moves.\<close>

lemma pendulum_bias_term_in_motion:
  "CalcBiasTerm pendulum chain_fresh [1, 1] (Some [5, 5]) = Inr [1, - 3]"
  by code_simp

section \<open>Checked arguments\<close>

text \<open>
  What each function answers when an argument that it checks is null or of the wrong
  size: the functions that demand abort, the functions that throw unless throw.
\<close>

lemma CalcInverseDynamics_demands:
  "length known_vdot \<noteq> num_velocities_of t
      \<or> \<not> (length (force_arrays h Fapplied) = num_bodies t \<or> length (force_arrays h Fapplied) = 0)
      \<or> \<not> (length (vectors h tau_applied) = num_velocities_of t
             \<or> length (vectors h tau_applied) = 0)
      \<or> A_WB_array = None \<or> (\<exists>A. A_WB_array = Some A \<and> length A \<noteq> num_bodies t)
      \<or> F_BMo_W_array = None
      \<or> (\<exists>F. F_BMo_W_array = Some F \<and> length (force_arrays h F) \<noteq> num_bodies t)
      \<or> length (vectors h tau_array) \<noteq> num_velocities_of t
   \<Longrightarrow> CalcInverseDynamics t ctx pc vc known_vdot Fapplied tau_applied A_WB_array F_BMo_W_array
          tau_array h = Inl Aborted"
  by (auto simp: CalcInverseDynamics_def Let_def split: option.splits)

lemma CalcSpatialAccelerationsFromVdot_demands:
  "A_WB_array = None \<or> (\<exists>A. A_WB_array = Some A \<and> length A \<noteq> num_bodies t)
      \<or> length known_vdot \<noteq> num_velocities (topology t)
   \<Longrightarrow> CalcSpatialAccelerationsFromVdot t ctx pc vc known_vdot A_WB_array = Inl Aborted"
  by (auto simp: CalcSpatialAccelerationsFromVdot_def split: option.splits)

lemma CalcAccelerationKinematicsCache_demands:
  "ac = None \<or> (\<exists>A. ac = Some A \<and> length A \<noteq> num_bodies t)
      \<or> length known_vdot \<noteq> num_velocities (topology t)
   \<Longrightarrow> CalcAccelerationKinematicsCache t ctx pc vc known_vdot ac = Inl Aborted"
  by (auto simp: CalcAccelerationKinematicsCache_def CalcSpatialAccelerationsFromVdot_demands
      split: option.splits)

lemma CalcForceElementsContribution_demands:
  "forces = None \<or> (\<exists>f. forces = Some f \<and> \<not> CheckHasRightSizeForModel t f)
   \<Longrightarrow> CalcForceElementsContribution t ctx pc vc forces = Inl Aborted"
  by (auto simp: CalcForceElementsContribution_def split: option.splits)

lemma MapQDotToVelocity_demands:
  "length qdot \<noteq> num_positions (topology t) \<or> v = None
      \<or> (\<exists>v0. v = Some v0 \<and> length v0 \<noteq> num_velocities_of t)
   \<Longrightarrow> MapQDotToVelocity t ctx qdot v = Inl Aborted"
  by (auto simp: MapQDotToVelocity_def split: option.splits)

lemma MapVelocityToQDot_demands:
  "length v \<noteq> num_velocities_of t \<or> qdot = None
      \<or> (\<exists>q0. qdot = Some q0 \<and> length q0 \<noteq> num_positions (topology t))
   \<Longrightarrow> MapVelocityToQDot t ctx v qdot = Inl Aborted"
  by (auto simp: MapVelocityToQDot_def split: option.splits)

lemma CalcMassMatrixViaInverseDynamics_demands:
  "H = None
      \<or> (\<exists>M. H = Some M \<and> (rows M \<noteq> num_velocities_of t \<or> cols M \<noteq> num_velocities_of t))
   \<Longrightarrow> CalcMassMatrixViaInverseDynamics t u ctx H = Inl Aborted"
  by (auto simp: CalcMassMatrixViaInverseDynamics_def split: option.splits)

lemma CalcBiasTerm_demands:
  "Cv = None \<or> (\<exists>v. Cv = Some v \<and> length v \<noteq> num_velocities_of t)
   \<Longrightarrow> CalcBiasTerm t u ctx Cv = Inl Aborted"
  by (auto simp: CalcBiasTerm_def split: option.splits)

lemma CalcAcrossNodeGeometricJacobianExpressedInWorld_demands:
  "H_PB_W_cache = None
      \<or> (\<exists>H. H_PB_W_cache = Some H \<and> length H \<noteq> num_velocities_of t)
   \<Longrightarrow> CalcAcrossNodeGeometricJacobianExpressedInWorld t ctx pc H_PB_W_cache = Inl Aborted"
  by (auto simp: CalcAcrossNodeGeometricJacobianExpressedInWorld_def split: option.splits)

lemma CalcPointsPositions_throws:
  "rows p_BQi \<noteq> 3 \<or> p_AQi = None
      \<or> (\<exists>out. p_AQi = Some out \<and> (rows out \<noteq> 3 \<or> cols out \<noteq> cols p_BQi))
   \<Longrightarrow> CalcPointsPositions t ctx frame_B p_BQi frame_A p_AQi = Inl Thrown"
  by (auto simp: CalcPointsPositions_def split: option.splits)

lemma CalcFrameJacobianExpressedInWorld_throws:
  "(Jw_WFq = None \<and> Jv_WFq = None)
      \<or> (\<exists>Jw. Jw_WFq = Some Jw \<and> (rows Jw \<noteq> 3 \<or> cols Jw \<noteq> num_velocities_of t))
      \<or> (\<exists>Jv. Jv_WFq = Some Jv
            \<and> (rows Jv \<noteq> 3 * cols p_WQ_list \<or> cols Jv \<noteq> num_velocities_of t))
   \<Longrightarrow> CalcFrameJacobianExpressedInWorld t u ctx frame_F p_WQ_list Jw_WFq Jv_WFq = Inl Thrown"
  by (auto simp: CalcFrameJacobianExpressedInWorld_def Let_def split: option.splits)

lemma CalcPointsGeometricJacobianExpressedInWorld_p_WQ_throws:
  "rows p_WQ_list \<noteq> 3 \<or> Jv_WFq = None
      \<or> (\<exists>Jv. Jv_WFq = Some Jv
            \<and> (rows Jv \<noteq> 3 * cols p_WQ_list \<or> cols Jv \<noteq> num_velocities_of t))
   \<Longrightarrow> CalcPointsGeometricJacobianExpressedInWorld_p_WQ t u ctx frame_F p_WQ_list Jv_WFq
         = Inl Thrown"
  by (auto simp: CalcPointsGeometricJacobianExpressedInWorld_p_WQ_def Let_def
      split: option.splits)

lemma CalcPointsGeometricJacobianExpressedInWorld_throws:
  "rows p_BQi_set \<noteq> 3 \<or> p_WQi_set = None
      \<or> (\<exists>p. p_WQi_set = Some p \<and> (rows p \<noteq> 3 \<or> cols p \<noteq> cols p_BQi_set))
      \<or> Jv_WQi = None
      \<or> (\<exists>Jv. Jv_WQi = Some Jv
            \<and> (rows Jv \<noteq> 3 * cols p_BQi_set \<or> cols Jv \<noteq> num_velocities_of t))
   \<Longrightarrow> CalcPointsGeometricJacobianExpressedInWorld t u ctx frame_B p_BQi_set p_WQi_set Jv_WQi
         = Inl Thrown"
  by (auto simp: CalcPointsGeometricJacobianExpressedInWorld_def Let_def
      CalcPointsPositions_throws split: option.splits)

lemma CalcFrameGeometricJacobianExpressedInWorld_throws:
  "Jv_WFq = None
      \<or> (\<exists>Jv. Jv_WFq = Some Jv \<and> (rows Jv \<noteq> 6 \<or> cols Jv \<noteq> num_velocities_of t))
   \<Longrightarrow> CalcFrameGeometricJacobianExpressedInWorld t u ctx frame_F p_FQ Jv_WFq = Inl Thrown"
  by (auto simp: CalcFrameGeometricJacobianExpressedInWorld_def split: option.splits)

lemma CalcBiasForPointsGeometricJacobianExpressedInWorld_throws:
  "rows p_FQ_list \<noteq> 3
   \<Longrightarrow> CalcBiasForPointsGeometricJacobianExpressedInWorld t u ctx frame_F p_FQ_list = Inl Thrown"
  by (simp add: CalcBiasForPointsGeometricJacobianExpressedInWorld_def)

section \<open>Symmetry and definiteness of the mass matrix\<close>

text \<open>
  The sweeps leave arrays that solve the equations of the nodes. Paired with the
  accelerations of a second probe, the forces of a probe give a bilinear form of the two
  probes' accelerations through the spatial inertias; the generalized forces of a probe
  are the values of that form on the unit probes.
\<close>

lemma dot6_expand:
  "dot6 X Y = X ! 0 * Y ! 0 + X ! 1 * Y ! 1 + X ! 2 * Y ! 2 + X ! 3 * Y ! 3 + X ! 4 * Y ! 4
                + X ! 5 * Y ! (5::nat)"
  for X :: "'a::ring list"
  by (simp add: dot6_def upt_6 add.assoc)

lemma dot6_Zero6 [simp]: "dot6 Zero6 Y = (0::'a::ring)" "dot6 X Zero6 = (0::'a::ring)"
  by (simp_all add: dot6_expand Zero6_list)



















lemma force_pass_length [simp]:
  "length (fst (force_pass t ctx pc vc A i st)) = length (fst st)"
  "length (snd (force_pass t ctx pc vc A i st)) = length (snd st)"
  by (cases st; simp add: force_pass_def Let_def)+

lemma fold_force_pass_length [simp]:
  "length (fst (fold (force_pass t ctx pc vc A) L st)) = length (fst st)"
  "length (snd (fold (force_pass t ctx pc vc A) L st)) = length (snd st)"
  by (induction L arbitrary: st) simp_all

lemma force_sweep_length [simp]:
  "length (fst (force_sweep t ctx pc vc A ds st)) = length (fst st)"
  "length (snd (force_sweep t ctx pc vc A ds st)) = length (snd st)"
  unfolding force_sweep_def by (induction ds arbitrary: st) simp_all

















lemma segment_nth:
  "s + n \<le> length x \<Longrightarrow> k < n \<Longrightarrow> take n (drop s x) ! k = x ! (s + k)"
  by simp
























text \<open>At zero generalized velocities no Jacobian has a bias.\<close>

lemma no_jacobian_bias_at_rest:
  fixes m :: "('a::ring, 'c, 'p) RigidBodyModel"
  assumes "generalized_velocities m ctx = Zero nv"
  shows "no_jacobian_bias topo m ctx pc"
  unfolding no_jacobian_bias_def
  by (intro ballI columns_times_zero)
     (simp add: assms get_velocities_from_array_def segment_of_zeros)

section \<open>Poses and velocities of all bodies: any size of the output\<close>

text \<open>
  C9. Given a vector of any size (the size of the tree or not), neither
  \<^verbatim>\<open>CalcAllBodyPosesInWorld\<close> nor \<^verbatim>\<open>CalcAllBodySpatialVelocitiesInWorld\<close> fails: the result
  has one entry per body, the world at index 0 included, in the order of the body
  indices, and the entry of a body is the cache's value for the node of that body.
\<close>

theorem CalcAllBody_resizes_and_fills:
  "CalcAllBodyPosesInWorld t ctx (Some xs) =
     Inr (map (\<lambda>b. get_X_WB t (EvalPositionKinematics t ctx) (body_node (bodies (topology t) ! b)))
            [0..<num_bodies t])
   \<and> CalcAllBodySpatialVelocitiesInWorld t ctx (Some vs) =
     Inr (map (\<lambda>b. get_V_WB (EvalVelocityKinematics t ctx) (body_node (bodies (topology t) ! b)))
            [0..<num_bodies t])"
  by (simp add: CalcAllBodyPosesInWorld_def CalcAllBodySpatialVelocitiesInWorld_def Let_def
      fill_from_cache_all length_resize_vector num_bodies_def)

theorem CalcAllBody_resizes_and_fills_witness:
  "CalcAllBodyPosesInWorld chain () (Some [1, 2, 3, 4, 5]) = Inr [10, 11, 12]
   \<and> CalcAllBodySpatialVelocitiesInWorld chain () (Some []) =
       Inr [[0, 0, 1, 0, 0, 0], [0, 0, 1, 0, 0, 0], [0, 0, 2, 0, 0, 0]]"
  using CalcAllBody_resizes_and_fills[of chain "()" "[1, 2, 3, 4, 5]" "[]"]
  by (simp add: chain_def chain_topology_def num_bodies_def get_V_WB_def upt_conv_Cons)

section \<open>Gravity without a gravity field\<close>

text \<open>
  C10. On a finalized tree that has no gravity field registered,
  \<^verbatim>\<open>CalcGravityGeneralizedForces\<close> returns, for every context, the zero vector with one
  coefficient per generalized velocity.
\<close>

theorem no_gravity_field_zero_forces:
  "topology_is_valid t \<Longrightarrow> gravity_field t = None \<Longrightarrow>
   CalcGravityGeneralizedForces t ctx = Inr (replicate (num_velocities_of t) 0)"
  by (simp add: CalcGravityGeneralizedForces_def ThrowIfNotFinalized_def Zero_def)

theorem no_gravity_field_zero_forces_witness:
  "topology_is_valid chain \<and> gravity_field chain = None
   \<and> CalcGravityGeneralizedForces chain () = Inr [0, 0]"
proof -
  have v: "topology_is_valid chain" and g: "gravity_field chain = None"
    by (simp_all add: topology_is_valid_def chain_def chain_topology_def)
  have n: "replicate (num_velocities_of chain) (0::int) = [0, 0]"
    by (simp add: num_velocities_of_def chain_def chain_topology_def numeral_2_eq_2)
  from no_gravity_field_zero_forces[OF v g, of "()"] v g n show ?thesis by simp
qed

section \<open>The world's spatial acceleration\<close>

text \<open>
  C5. For every context, caches and known generalized accelerations, on arrays of the sizes
  the function demands, \<^verbatim>\<open>CalcSpatialAccelerationsFromVdot\<close> returns an array whose entry
  for the world is exactly zero; and no step of the base-to-tip sweep, at any depth and
  for any node of that depth, changes the world's entry of the array it works on.
\<close>

theorem world_acceleration_is_zero:
  assumes "length A = num_bodies t" and "length vdot = num_velocities (topology t)"
    and "0 < num_bodies t"
  shows "\<exists>A'. CalcSpatialAccelerationsFromVdot t ctx pc vc vdot (Some A) = Inr A'
            \<and> A' ! world_index = Zero6
            \<and> (\<forall>depth < tree_height (topology t). \<forall>i \<in> set (body_node_levels t ! depth). \<forall>B.
                 CalcSpatialAcceleration_BaseToTip t ctx pc vc vdot i B ! world_index
                   = B ! world_index)"
proof -
  have "acceleration_sweep t ctx pc vc vdot [1..<tree_height (topology t)] (A[0 := Zero6]) ! 0
          = Zero6"
    using assms by (simp add: acceleration_sweep_world)
  moreover have "\<forall>depth < tree_height (topology t). \<forall>i \<in> set (body_node_levels t ! depth). \<forall>B.
      CalcSpatialAcceleration_BaseToTip t ctx pc vc vdot i B ! world_index = B ! world_index"
    by (auto simp: body_node_levels_set world_index_def BaseToTip_other)
  ultimately show ?thesis
    using assms
    by (simp add: CalcSpatialAccelerationsFromVdot_def at_put_def world_index_def)
qed

theorem world_acceleration_is_zero_witness:
  "length (replicate 3 (replicate 6 (5::int))) = num_bodies chain
   \<and> length [1, 0 :: int] = num_velocities (topology chain)
   \<and> 0 < num_bodies chain
   \<and> (\<exists>A'. CalcSpatialAccelerationsFromVdot chain () () (EvalVelocityKinematics chain ()) [1, 0]
              (Some (replicate 3 (replicate 6 5))) = Inr A'
            \<and> A' ! world_index = Zero6)"
proof -
  have a: "length (replicate 3 (replicate 6 (5::int))) = num_bodies chain"
    and b: "length [1, 0 :: int] = num_velocities (topology chain)"
    and c: "0 < num_bodies chain"
    by (simp_all add: num_bodies_def chain_def chain_topology_def)
  from world_acceleration_is_zero[OF a b c, of "()" "()" "EvalVelocityKinematics chain ()"]
  show ?thesis using a b c by blast
qed

section \<open>The columns of the mass matrix\<close>




section \<open>The bias term\<close>

text \<open>
  C4. For every context (configuration and generalized velocity) and every output vector
  with one coefficient per generalized velocity, \<^verbatim>\<open>CalcBiasTerm\<close> returns the vector of
  generalized forces that one evaluation of \<^verbatim>\<open>CalcInverseDynamics\<close> returns for the same
  caches, with the generalized acceleration zero and with empty arrays for the applied
  spatial and generalized forces; and that evaluation does return.
\<close>

theorem bias_term_is_inverse_dynamics_at_zero_acceleration:
  fixes t :: "('a::zero, 'c, 'p, 'x) MultibodyTree"
  assumes n: "0 < num_bodies t" and Cv: "length Cv = num_velocities_of t"
  shows "\<exists>A' h'.
    CalcInverseDynamics t ctx (EvalPositionKinematics t ctx) (EvalVelocityKinematics t ctx)
        (Zero (num_velocities_of t)) no_forces no_forces
        (Some (map (fresh_A_WB u) [0..<num_bodies t])) (Some outputs) outputs
        (local_heap (map (fresh_F_BMo_W u) [0..<num_bodies t]) Cv) = Inr (A', h')
    \<and> CalcBiasTerm t u ctx (Some Cv) = Inr (vectors h' outputs)
    \<and> force_arrays (local_heap (map (fresh_F_BMo_W u) [0..<num_bodies t]) Cv) no_forces = []
    \<and> vectors (local_heap (map (fresh_F_BMo_W u) [0..<num_bodies t]) Cv) no_forces = []"
proof -
  let ?A = "map (fresh_A_WB u) [0..<num_bodies t]"
  let ?F = "map (fresh_F_BMo_W u) [0..<num_bodies t]"
  from CalcInverseDynamics_local[of "Zero (num_velocities_of t)" t ?A ?F Cv ctx
      "EvalPositionKinematics t ctx" "EvalVelocityKinematics t ctx"] n Cv
  obtain A' F' tau' where
    r: "CalcInverseDynamics t ctx (EvalPositionKinematics t ctx) (EvalVelocityKinematics t ctx)
          (Zero (num_velocities_of t)) no_forces no_forces (Some ?A) (Some outputs) outputs
          (local_heap ?F Cv) = Inr (A', local_heap F' tau')"
    by auto
  have "CalcBiasTerm t u ctx (Some Cv) = Inr (vectors (local_heap F' tau') outputs)"
    using Cv by (simp add: CalcBiasTerm_def DoCalcBiasTerm_def Let_def r)
  then show ?thesis
    using r by (intro exI[of _ A'] exI[of _ "local_heap F' tau'"]) simp
qed

theorem bias_term_is_inverse_dynamics_at_zero_acceleration_witness:
  "0 < num_bodies chain \<and> length [0, 0 :: int] = num_velocities_of chain
   \<and> CalcBiasTerm chain chain_fresh () (Some [0, 0]) = Inr [7, 6]
   \<and> generalized_forces_at outputs
        (CalcInverseDynamics chain () (EvalPositionKinematics chain ())
           (EvalVelocityKinematics chain ()) (Zero (num_velocities_of chain)) no_forces no_forces
           (Some (map (fresh_A_WB chain_fresh) [0..<num_bodies chain])) (Some outputs) outputs
           (local_heap (map (fresh_F_BMo_W chain_fresh) [0..<num_bodies chain]) [0, 0]))
       = Inr [7, 6]"
proof -
  have n: "0 < num_bodies chain" and l: "length [0, 0 :: int] = num_velocities_of chain"
    by (simp_all add: num_bodies_def num_velocities_of_def chain_def chain_topology_def)
  have v: "CalcBiasTerm chain chain_fresh () (Some [0, 0]) = Inr [7, 6]"
    by code_simp
  from bias_term_is_inverse_dynamics_at_zero_acceleration[OF n l, of "()" chain_fresh]
  obtain A' h' where
    "CalcInverseDynamics chain () (EvalPositionKinematics chain ())
       (EvalVelocityKinematics chain ()) (Zero (num_velocities_of chain)) no_forces no_forces
       (Some (map (fresh_A_WB chain_fresh) [0..<num_bodies chain])) (Some outputs) outputs
       (local_heap (map (fresh_F_BMo_W chain_fresh) [0..<num_bodies chain]) [0, 0])
     = Inr (A', h')"
    "CalcBiasTerm chain chain_fresh () (Some [0, 0]) = Inr (vectors h' outputs)"
    by blast
  then show ?thesis using n l v by (simp add: generalized_forces_at_def)
qed

section \<open>The order of the probes\<close>




section \<open>Outputs in the place of the applied forces\<close>

text \<open>
  What holds of outputs written in place. On a well-formed topology and buffers of the
  sizes the function demands, \<^verbatim>\<open>CalcInverseDynamics\<close> returns the same array of spatial
  accelerations, the same vector of generalized forces and, for every body other than the
  world, the same spatial force, whichever array and vector of the right sizes serve as
  outputs: the array and the vector of the applied forces themselves (the outputs then
  overwrite the inputs) or separate ones: each node's applied force is copied before the
  node's entry is overwritten.
\<close>

lemma inverse_dynamics_in_place:
  fixes t :: "('a::zero, 'c, 'p, 'x) MultibodyTree" and h :: "'a Heap"
  assumes ok: "topology_ok (topology t)"
    and vdot: "length vdot = num_velocities_of t" and A: "length A = num_bodies t"
    and Fin: "length (force_arrays h Fapplied) = num_bodies t
              \<or> length (force_arrays h Fapplied) = 0"
    and tin: "length (vectors h tau_applied) = num_velocities_of t
              \<or> length (vectors h tau_applied) = 0"
    and out1: "length (force_arrays h F1) = num_bodies t"
      "length (vectors h tau1) = num_velocities_of t"
    and out2: "length (force_arrays h F2) = num_bodies t"
      "length (vectors h tau2) = num_velocities_of t"
  shows "\<exists>A' h1 h2.
    CalcInverseDynamics t ctx pc vc vdot Fapplied tau_applied (Some A) (Some F1) tau1 h
      = Inr (A', h1) \<and>
    CalcInverseDynamics t ctx pc vc vdot Fapplied tau_applied (Some A) (Some F2) tau2 h
      = Inr (A', h2) \<and>
    vectors h1 tau1 = vectors h2 tau2 \<and>
    (\<forall>i \<in> {1..<num_bodies t}. force_arrays h1 F1 ! i = force_arrays h2 F2 ! i)"
  using CalcInverseDynamics_agree[OF ok vdot A A refl Fin refl tin out1(1) out2(1) out1(2) out2(2)]
  by blast

lemma inverse_dynamics_in_place_chain:
  "topology_ok (topology chain)
   \<and> generalized_forces_at applied
        (CalcInverseDynamics chain () () (EvalVelocityKinematics chain ()) [1, 0] applied applied
           (Some (replicate 3 (replicate 6 5))) (Some applied) applied chain_heap)
       = Inr [- 2, - 3]
   \<and> (\<exists>A' h1 h2.
        CalcInverseDynamics chain () () (EvalVelocityKinematics chain ()) [1, 0] applied applied
          (Some (replicate 3 (replicate 6 5))) (Some applied) applied chain_heap = Inr (A', h1)
        \<and> CalcInverseDynamics chain () () (EvalVelocityKinematics chain ()) [1, 0] applied applied
          (Some (replicate 3 (replicate 6 5))) (Some separate) separate chain_heap = Inr (A', h2)
        \<and> vectors h1 applied = vectors h2 separate
        \<and> force_arrays h1 applied ! 1 = force_arrays h2 separate ! 1
        \<and> force_arrays h1 applied ! 2 = force_arrays h2 separate ! 2)"
proof -
  have ok: "topology_ok (topology chain)"
    by code_simp
  have sizes: "length [1, 0 :: int] = num_velocities_of chain"
    "length (replicate 3 (replicate 6 (5::int))) = num_bodies chain"
    "length (force_arrays chain_heap applied) = num_bodies chain
     \<or> length (force_arrays chain_heap applied) = 0"
    "length (vectors chain_heap applied) = num_velocities_of chain
     \<or> length (vectors chain_heap applied) = 0"
    "length (force_arrays chain_heap applied) = num_bodies chain"
    "length (vectors chain_heap applied) = num_velocities_of chain"
    "length (force_arrays chain_heap separate) = num_bodies chain"
    "length (vectors chain_heap separate) = num_velocities_of chain"
    by (simp_all add: num_bodies_def num_velocities_of_def chain_def chain_topology_def
        chain_heap_def applied_def separate_def)
  have v: "generalized_forces_at applied
        (CalcInverseDynamics chain () () (EvalVelocityKinematics chain ()) [1, 0] applied applied
           (Some (replicate 3 (replicate 6 5))) (Some applied) applied chain_heap)
       = Inr [- 2, - 3]"
    by code_simp
  have two: "(1::nat) \<in> {1..<num_bodies chain}" "(2::nat) \<in> {1..<num_bodies chain}"
    by (simp_all add: num_bodies_def chain_def chain_topology_def)
  from inverse_dynamics_in_place[OF ok sizes, of "()" "()" "EvalVelocityKinematics chain ()"]
  obtain A' h1 h2 where
    "CalcInverseDynamics chain () () (EvalVelocityKinematics chain ()) [1, 0] applied applied
       (Some (replicate 3 (replicate 6 5))) (Some applied) applied chain_heap = Inr (A', h1)"
    "CalcInverseDynamics chain () () (EvalVelocityKinematics chain ()) [1, 0] applied applied
       (Some (replicate 3 (replicate 6 5))) (Some separate) separate chain_heap = Inr (A', h2)"
    "vectors h1 applied = vectors h2 separate"
    "\<forall>i \<in> {1..<num_bodies chain}. force_arrays h1 applied ! i = force_arrays h2 separate ! i"
    by blast
  then show ?thesis using ok v two by blast
qed

text \<open>
  C6. \<^verbatim>\<open>CalcInverseDynamics\<close> is to produce the same array of spatial forces whether the
  array of the applied forces serves as the output or a separate array does. The code
  misses this at the world's entry. The comment on the tip-to-base loop says that the loop
  includes the world (depth 0), so that the world's entry holds the total force on the
  world; but \<^verbatim>\<open>FinalizeInternals\<close> puts no node into the list of level 0, and no pass of the
  loop writes that entry. On the chain, written in place, the array keeps the force
  applied to the world there, \<open>(1, 1, 1, 1, 1, 1)\<close>; a separate output array keeps what it
  held before the call, here zeros.
\<close>

theorem inverse_dynamics_in_place_counterexample:
  "spatial_forces_at applied
     (CalcInverseDynamics chain () () (EvalVelocityKinematics chain ()) [1, 0] applied applied
        (Some (replicate 3 (replicate 6 5))) (Some applied) applied chain_heap)
     = Inr [[1, 1, 1, 1, 1, 1], [3, 3, 3, 3, 3, 3], [4, 4, 4, 4, 4, 4]]
   \<and> spatial_forces_at separate
     (CalcInverseDynamics chain () () (EvalVelocityKinematics chain ()) [1, 0] applied applied
        (Some (replicate 3 (replicate 6 5))) (Some separate) separate chain_heap)
     = Inr [[0, 0, 0, 0, 0, 0], [3, 3, 3, 3, 3, 3], [4, 4, 4, 4, 4, 4]]
   \<and> spatial_forces_at applied
     (CalcInverseDynamics chain () () (EvalVelocityKinematics chain ()) [1, 0] applied applied
        (Some (replicate 3 (replicate 6 5))) (Some applied) applied chain_heap)
     \<noteq> spatial_forces_at separate
     (CalcInverseDynamics chain () () (EvalVelocityKinematics chain ()) [1, 0] applied applied
        (Some (replicate 3 (replicate 6 5))) (Some separate) separate chain_heap)"
  by code_simp

section \<open>Violated preconditions\<close>

text \<open>
  C8 (as amended). Every computation of the file that checks its arguments answers a
  violation that it checks (a null output, a buffer or a matrix of the wrong size, a
  vector of generalized coordinates of the wrong length) and does not go on. The answer
  is a fatal assertion, the call aborts, in \<^verbatim>\<open>CalcPositionKinematicsCache\<close>,
  \<^verbatim>\<open>CalcVelocityKinematicsCache\<close>, \<^verbatim>\<open>CalcSpatialAccelerationsFromVdot\<close>,
  \<^verbatim>\<open>CalcAccelerationKinematicsCache\<close>, \<^verbatim>\<open>CalcInverseDynamics\<close>,
  \<^verbatim>\<open>CalcForceElementsContribution\<close>, \<^verbatim>\<open>AddJointDampingForces\<close>, \<^verbatim>\<open>MapQDotToVelocity\<close>,
  \<^verbatim>\<open>MapVelocityToQDot\<close>, \<^verbatim>\<open>CalcMassMatrixViaInverseDynamics\<close>, \<^verbatim>\<open>CalcBiasTerm\<close>,
  \<^verbatim>\<open>CalcAcrossNodeGeometricJacobianExpressedInWorld\<close> and
  \<^verbatim>\<open>CalcArticulatedBodyInertiaCache\<close>. It is an exception that the caller can catch in
  \<^verbatim>\<open>CalcPointsPositions\<close>, in both \<^verbatim>\<open>CalcPointsGeometricJacobianExpressedInWorld\<close>, in
  \<^verbatim>\<open>CalcBiasForPointsGeometricJacobianExpressedInWorld\<close>,
  \<^verbatim>\<open>CalcFrameGeometricJacobianExpressedInWorld\<close> and \<^verbatim>\<open>CalcFrameJacobianExpressedInWorld\<close>,
  and for a null output of \<^verbatim>\<open>CalcAllBodyPosesInWorld\<close> and of
  \<^verbatim>\<open>CalcAllBodySpatialVelocitiesInWorld\<close>.
\<close>

theorem precondition_violations_abort_or_throw:
  fixes t :: "('a::ring_1, 'c, 'p, 'x) MultibodyTree"
  shows
  "CalcPositionKinematicsCache t ctx None = Inl Aborted
   \<and> CalcVelocityKinematicsCache t u ctx pc None = Inl Aborted
   \<and> (A_WB_array = None \<or> (\<exists>A. A_WB_array = Some A \<and> length A \<noteq> num_bodies t)
      \<or> length known_vdot \<noteq> num_velocities (topology t)
    \<longrightarrow> CalcSpatialAccelerationsFromVdot t ctx pc vc known_vdot A_WB_array = Inl Aborted)
   \<and> (ac = None \<or> (\<exists>A. ac = Some A \<and> length A \<noteq> num_bodies t)
      \<or> length known_vdot \<noteq> num_velocities (topology t)
    \<longrightarrow> CalcAccelerationKinematicsCache t ctx pc vc known_vdot ac = Inl Aborted)
   \<and> (length known_vdot \<noteq> num_velocities_of t
      \<or> \<not> (length (force_arrays h Fapplied) = num_bodies t \<or> length (force_arrays h Fapplied) = 0)
      \<or> \<not> (length (vectors h tau_applied) = num_velocities_of t
             \<or> length (vectors h tau_applied) = 0)
      \<or> A_WB_array = None \<or> (\<exists>A. A_WB_array = Some A \<and> length A \<noteq> num_bodies t)
      \<or> F_BMo_W_array = None
      \<or> (\<exists>F. F_BMo_W_array = Some F \<and> length (force_arrays h F) \<noteq> num_bodies t)
      \<or> length (vectors h tau_array) \<noteq> num_velocities_of t
    \<longrightarrow> CalcInverseDynamics t ctx pc vc known_vdot Fapplied tau_applied A_WB_array F_BMo_W_array
          tau_array h = Inl Aborted)
   \<and> (forces = None \<or> (\<exists>f. forces = Some f \<and> \<not> CheckHasRightSizeForModel t f)
    \<longrightarrow> CalcForceElementsContribution t ctx pc vc forces = Inl Aborted)
   \<and> AddJointDampingForces t ctx None = Inl Aborted
   \<and> (length qdot \<noteq> num_positions (topology t) \<or> v_out = None
      \<or> (\<exists>v0. v_out = Some v0 \<and> length v0 \<noteq> num_velocities_of t)
    \<longrightarrow> MapQDotToVelocity t ctx qdot v_out = Inl Aborted)
   \<and> (length v \<noteq> num_velocities_of t \<or> qdot_out = None
      \<or> (\<exists>q0. qdot_out = Some q0 \<and> length q0 \<noteq> num_positions (topology t))
    \<longrightarrow> MapVelocityToQDot t ctx v qdot_out = Inl Aborted)
   \<and> (H = None
      \<or> (\<exists>M. H = Some M \<and> (rows M \<noteq> num_velocities_of t \<or> cols M \<noteq> num_velocities_of t))
    \<longrightarrow> CalcMassMatrixViaInverseDynamics t u ctx H = Inl Aborted)
   \<and> (Cv = None \<or> (\<exists>C. Cv = Some C \<and> length C \<noteq> num_velocities_of t)
    \<longrightarrow> CalcBiasTerm t u ctx Cv = Inl Aborted)
   \<and> (H_PB_W_cache = None
      \<or> (\<exists>H0. H_PB_W_cache = Some H0 \<and> length H0 \<noteq> num_velocities_of t)
    \<longrightarrow> CalcAcrossNodeGeometricJacobianExpressedInWorld t ctx pc H_PB_W_cache = Inl Aborted)
   \<and> CalcArticulatedBodyInertiaCache t u ctx pc None = Inl Aborted
   \<and> (rows p_BQi \<noteq> 3 \<or> p_AQi = None
      \<or> (\<exists>out. p_AQi = Some out \<and> (rows out \<noteq> 3 \<or> cols out \<noteq> cols p_BQi))
    \<longrightarrow> CalcPointsPositions t ctx frame_B p_BQi frame_A p_AQi = Inl Thrown)
   \<and> (rows p_BQi \<noteq> 3 \<or> p_AQi = None
      \<or> (\<exists>out. p_AQi = Some out \<and> (rows out \<noteq> 3 \<or> cols out \<noteq> cols p_BQi))
      \<or> Jv = None
      \<or> (\<exists>J. Jv = Some J \<and> (rows J \<noteq> 3 * cols p_BQi \<or> cols J \<noteq> num_velocities_of t))
    \<longrightarrow> CalcPointsGeometricJacobianExpressedInWorld t u ctx frame_B p_BQi p_AQi Jv = Inl Thrown)
   \<and> (rows p_WQ_list \<noteq> 3 \<or> Jv = None
      \<or> (\<exists>J. Jv = Some J \<and> (rows J \<noteq> 3 * cols p_WQ_list \<or> cols J \<noteq> num_velocities_of t))
    \<longrightarrow> CalcPointsGeometricJacobianExpressedInWorld_p_WQ t u ctx frame_B p_WQ_list Jv
          = Inl Thrown)
   \<and> (rows p_WQ_list \<noteq> 3
    \<longrightarrow> CalcBiasForPointsGeometricJacobianExpressedInWorld t u ctx frame_B p_WQ_list
          = Inl Thrown)
   \<and> (Jv = None \<or> (\<exists>J. Jv = Some J \<and> (rows J \<noteq> 6 \<or> cols J \<noteq> num_velocities_of t))
    \<longrightarrow> CalcFrameGeometricJacobianExpressedInWorld t u ctx frame_B p_FQ Jv = Inl Thrown)
   \<and> ((Jw = None \<and> Jv = None)
      \<or> (\<exists>J. Jw = Some J \<and> (rows J \<noteq> 3 \<or> cols J \<noteq> num_velocities_of t))
      \<or> (\<exists>J. Jv = Some J \<and> (rows J \<noteq> 3 * cols p_WQ_list \<or> cols J \<noteq> num_velocities_of t))
    \<longrightarrow> CalcFrameJacobianExpressedInWorld t u ctx frame_B p_WQ_list Jw Jv = Inl Thrown)
   \<and> CalcAllBodyPosesInWorld t ctx None = Inl Thrown
   \<and> CalcAllBodySpatialVelocitiesInWorld t ctx None = Inl Thrown"
  apply (intro conjI impI)
  apply (simp add: CalcPositionKinematicsCache_def)
  apply (simp add: CalcVelocityKinematicsCache_def)
  apply (erule CalcSpatialAccelerationsFromVdot_demands)
  apply (erule CalcAccelerationKinematicsCache_demands)
  apply (erule CalcInverseDynamics_demands)
  apply (erule CalcForceElementsContribution_demands)
  apply (simp add: AddJointDampingForces_def)
  apply (erule MapQDotToVelocity_demands)
  apply (erule MapVelocityToQDot_demands)
  apply (erule CalcMassMatrixViaInverseDynamics_demands)
  apply (erule CalcBiasTerm_demands)
  apply (erule CalcAcrossNodeGeometricJacobianExpressedInWorld_demands)
  apply (simp add: CalcArticulatedBodyInertiaCache_def)
  apply (erule CalcPointsPositions_throws)
  apply (erule CalcPointsGeometricJacobianExpressedInWorld_throws)
  apply (erule CalcPointsGeometricJacobianExpressedInWorld_p_WQ_throws)
  apply (erule CalcBiasForPointsGeometricJacobianExpressedInWorld_throws)
  apply (erule CalcFrameGeometricJacobianExpressedInWorld_throws)
  apply (erule CalcFrameJacobianExpressedInWorld_throws)
  apply (simp add: CalcAllBodyPosesInWorld_def)
  apply (simp add: CalcAllBodySpatialVelocitiesInWorld_def)
  done

theorem precondition_violations_abort_or_throw_witness:
  "CalcInverseDynamics chain () () (EvalVelocityKinematics chain ()) [1] applied applied
       (Some (replicate 3 (replicate 6 5))) (Some separate) separate chain_heap = Inl Aborted
   \<and> CalcSpatialAccelerationsFromVdot chain () () (EvalVelocityKinematics chain ()) [1, 0] None
       = Inl Aborted
   \<and> CalcAccelerationKinematicsCache chain () () (EvalVelocityKinematics chain ()) [1]
       (Some (replicate 3 (replicate 6 5))) = Inl Aborted
   \<and> CalcForceElementsContribution chain () () (EvalVelocityKinematics chain ())
       (Some \<lparr>body_forces = [], generalized_forces = [0, 0]\<rparr>) = Inl Aborted
   \<and> MapQDotToVelocity chain () [4] (Some [0, 0]) = Inl Aborted
   \<and> MapVelocityToQDot chain () [4, 5] None = Inl Aborted
   \<and> CalcMassMatrixViaInverseDynamics chain chain_fresh ()
       (Some \<lparr>rows = 3, cols = 2, coeffs = [[0, 0, 0], [0, 0, 0]]\<rparr>) = Inl Aborted
   \<and> CalcBiasTerm chain chain_fresh () (Some [0]) = Inl Aborted
   \<and> CalcAcrossNodeGeometricJacobianExpressedInWorld chain () ()
       (Some [[0, 0, 0, 0, 0, 0]]) = Inl Aborted
   \<and> CalcPointsPositions chain () chain_frame \<lparr>rows = 3, cols = 1, coeffs = [[1, 2, 3]]\<rparr>
       chain_frame None = Inl Thrown
   \<and> CalcPointsGeometricJacobianExpressedInWorld chain chain_fresh () chain_frame
       \<lparr>rows = 3, cols = 1, coeffs = [[1, 2, 3]]\<rparr> None
       (Some \<lparr>rows = 5, cols = 2, coeffs = [[0, 0, 0, 0, 0], [0, 0, 0, 0, 0]]\<rparr>) = Inl Thrown
   \<and> CalcFrameGeometricJacobianExpressedInWorld chain chain_fresh () chain_frame [1, 2, 3]
       (Some \<lparr>rows = 5, cols = 2, coeffs = [[0, 0, 0, 0, 0], [0, 0, 0, 0, 0]]\<rparr>) = Inl Thrown
   \<and> CalcFrameJacobianExpressedInWorld chain chain_fresh () chain_frame
       \<lparr>rows = 3, cols = 1, coeffs = [[1, 2, 3]]\<rparr> None
       (Some \<lparr>rows = 5, cols = 2, coeffs = [[0, 0, 0, 0, 0], [0, 0, 0, 0, 0]]\<rparr>) = Inl Thrown"
proof -
  have 1: "length [1 :: int] \<noteq> num_velocities_of chain"
    "length [1 :: int] \<noteq> num_velocities (topology chain)"
    and 2: "rows \<lparr>rows = 3, cols = 2, coeffs = [[0, 0, 0], [0, 0, 0 :: int]]\<rparr>
              \<noteq> num_velocities_of chain"
    and 3: "length [0 :: int] \<noteq> num_velocities_of chain"
    and 4: "length [4 :: int] \<noteq> num_positions (topology chain)"
    and 5: "\<not> CheckHasRightSizeForModel chain \<lparr>body_forces = [], generalized_forces = [0, 0]\<rparr>"
    and 6: "length [[0, 0, 0, 0, 0, 0 :: int]] \<noteq> num_velocities_of chain"
    by (simp_all add: num_velocities_of_def chain_def chain_topology_def)
  note inst1 = precondition_violations_abort_or_throw[where t = chain and known_vdot = "[1]"
      and h = chain_heap and Fapplied = applied and tau_applied = applied
      and A_WB_array = "Some (replicate 3 (replicate 6 5))" and F_BMo_W_array = "Some separate"
      and tau_array = separate and ctx = "()" and pc = "()"
      and vc = "EvalVelocityKinematics chain ()"
      and ac = "Some (replicate 3 (replicate 6 5))"
      and forces = "Some \<lparr>body_forces = [], generalized_forces = [0, 0]\<rparr>"
      and qdot = "[4]" and v_out = "Some [0, 0]" and v = "[4, 5]" and qdot_out = None
      and H = "Some \<lparr>rows = 3, cols = 2, coeffs = [[0, 0, 0], [0, 0, 0]]\<rparr>"
      and u = chain_fresh and Cv = "Some [0]"
      and H_PB_W_cache = "Some [[0, 0, 0, 0, 0, 0]]"
      and p_BQi = "\<lparr>rows = 3, cols = 1, coeffs = [[1, 2, 3]]\<rparr>" and p_AQi = None
      and frame_A = chain_frame and frame_B = chain_frame
      and Jv = "Some \<lparr>rows = 5, cols = 2, coeffs = [[0, 0, 0, 0, 0], [0, 0, 0, 0, 0]]\<rparr>"
      and Jw = None and p_WQ_list = "\<lparr>rows = 3, cols = 1, coeffs = [[1, 2, 3]]\<rparr>"
      and p_FQ = "[1, 2, 3]"]
  note inst2 = precondition_violations_abort_or_throw[where t = chain and known_vdot = "[1, 0]"
      and A_WB_array = None and ctx = "()" and pc = "()"
      and vc = "EvalVelocityKinematics chain ()"]
  from inst1 inst2
  show ?thesis using 1 2 3 4 5 6 by simp
qed

text \<open>
  C8 as stated fails: \<^verbatim>\<open>CalcPointsPositions\<close> answers a matrix of points with two rows,
  and a null output, with an exception (\<^verbatim>\<open>DRAKE_THROW_UNLESS\<close>), not with a fatal
  assertion; \<^verbatim>\<open>CalcAllBodyPosesInWorld\<close> throws on a null output, and given an output
  vector of the wrong size it resizes the vector and returns normally.
\<close>

theorem fatal_assertion_counterexample:
  "CalcPointsPositions chain () chain_frame \<lparr>rows = 2, cols = 1, coeffs = [[1, 2]]\<rparr> chain_frame
       (Some \<lparr>rows = 3, cols = 1, coeffs = [[0, 0, 0]]\<rparr>) = Inl Thrown
   \<and> CalcPointsPositions chain () chain_frame \<lparr>rows = 3, cols = 1, coeffs = [[1, 2, 3]]\<rparr>
       chain_frame None = Inl Thrown
   \<and> CalcAllBodyPosesInWorld chain () None = Inl Thrown
   \<and> CalcAllBodyPosesInWorld chain () (Some []) = Inr [10, 11, 12]"
  by code_simp

section \<open>The bias term of a tree at rest\<close>

text \<open>
  C3. On a finalized tree whose nodes compute by the formulas of rigid-body dynamics, in a
  context whose generalized velocities are all zero and whose velocity kinematics are
  those of the context, \<^verbatim>\<open>CalcBiasTerm\<close> returns, on an output vector with one
  coefficient per generalized velocity, the zero vector, whatever the output vector and
  the fresh auxiliary arrays held before.
\<close>

theorem zero_velocity_zero_bias_term:
  fixes t :: "('a::ring, 'c, 'p, 'x) MultibodyTree"
  assumes ok: "topology_ok (topology t)"
    and dyn: "rigid_body_dynamics m t"
    and cache: "velocity_cache_current t u ctx"
    and v0: "generalized_velocities m ctx = Zero (num_velocities_of t)"
    and Cv: "length Cv = num_velocities_of t"
  shows "CalcBiasTerm t u ctx (Some Cv) = Inr (Zero (num_velocities_of t))"
proof -
  let ?n = "get_num_body_nodes (topology t)"
  let ?nv = "num_velocities_of t"
  let ?Z = "replicate ?n (Zero6 :: 'a list)"
  let ?pc = "EvalPositionKinematics t ctx"
  let ?A = "map (fresh_A_WB u) [0..<num_bodies t]"
  let ?F = "map (fresh_F_BMo_W u) [0..<num_bodies t]"
  have n: "num_bodies t = ?n"
    using ok by (rule topology_ok_sizes)
  have vc: "EvalVelocityKinematics t ctx = ?Z"
    using ok dyn cache v0 by (rule velocity_cache_zero)
  have zero: "CalcInverseDynamics t ctx ?pc ?Z (Zero ?nv) no_forces no_forces
                (Some ?Z) (Some outputs) outputs (local_heap ?Z (Zero ?nv))
              = Inr (?Z, local_heap ?Z (Zero ?nv))"
    using ok dyn v0 by (rule CalcInverseDynamics_zero)
  have "\<exists>A' h1' h2'.
    CalcInverseDynamics t ctx ?pc ?Z (Zero ?nv) no_forces no_forces (Some ?A) (Some outputs)
      outputs (local_heap ?F Cv) = Inr (A', h1') \<and>
    CalcInverseDynamics t ctx ?pc ?Z (Zero ?nv) no_forces no_forces (Some ?Z) (Some outputs)
      outputs (local_heap ?Z (Zero ?nv)) = Inr (A', h2') \<and>
    vectors h1' outputs = vectors h2' outputs \<and>
    (\<forall>i \<in> {1..<num_bodies t}. force_arrays h1' outputs ! i = force_arrays h2' outputs ! i)"
    using n Cv by (intro CalcInverseDynamics_agree[OF ok]) (simp_all add: length_Zero)
  then obtain A' h1' h2' where
    r1: "CalcInverseDynamics t ctx ?pc ?Z (Zero ?nv) no_forces no_forces (Some ?A) (Some outputs)
           outputs (local_heap ?F Cv) = Inr (A', h1')" and
    r2: "CalcInverseDynamics t ctx ?pc ?Z (Zero ?nv) no_forces no_forces (Some ?Z) (Some outputs)
           outputs (local_heap ?Z (Zero ?nv)) = Inr (A', h2')" and
    eq: "vectors h1' outputs = vectors h2' outputs"
    by blast
  have "h2' = local_heap ?Z (Zero ?nv)"
    using r2 unfolding zero by auto
  then have "vectors h1' outputs = Zero ?nv"
    using eq by simp
  then show ?thesis
    using Cv by (simp add: CalcBiasTerm_def DoCalcBiasTerm_def Let_def vc r1)
qed

theorem zero_velocity_zero_bias_term_witness:
  "topology_ok (topology pendulum) \<and> rigid_body_dynamics pendulum_model pendulum
   \<and> velocity_cache_current pendulum chain_fresh [0, 0]
   \<and> generalized_velocities pendulum_model [0, 0] = Zero (num_velocities_of pendulum)
   \<and> length [5, 5 :: int] = num_velocities_of pendulum
   \<and> CalcBiasTerm pendulum chain_fresh [0, 0] (Some [5, 5]) = Inr (Zero (num_velocities_of pendulum))
   \<and> CalcBiasTerm pendulum chain_fresh [0, 0] (Some [5, 5]) = Inr [0, 0]"
proof -
  have a: "topology_ok (topology pendulum)"
    by code_simp
  have b: "rigid_body_dynamics pendulum_model pendulum"
    by (simp add: rigid_body_dynamics_def pendulum_def pendulum_nodes_def)
  have c: "velocity_cache_current pendulum chain_fresh [0, 0]"
    by code_simp
  have d: "generalized_velocities pendulum_model [0, 0] = Zero (num_velocities_of pendulum)"
    by code_simp
  have e: "length [5, 5 :: int] = num_velocities_of pendulum"
    by code_simp
  have f: "Zero (num_velocities_of pendulum) = [0, 0 :: int]"
    by code_simp
  from zero_velocity_zero_bias_term[OF a b c d e] a b c d e f show ?thesis
    by simp
qed

section \<open>Symmetry and definiteness of the mass matrix\<close>




end
